theory Spec2Isabelle
  imports Complex_Main
begin

section \<open>The polling waiter\<close>

text \<open>
  \<^verbatim>\<open>waitUntil(condition, timeout, interval)\<close> of \<^verbatim>\<open>render-api.ts\<close> evaluates its
  condition once at the call and then from a repeating timer. The condition is a closure over
  mutable state and may change it (\<^verbatim>\<open>checkCancelled\<close> ends the batch), so it is a state
  transformer returning a truth value. What the host does to the observable state while
  \<open>d\<close> milliseconds pass is the function \<open>host d\<close>. Times are natural numbers of
  milliseconds, as at every call site. The timer can fire for ever (an interval of 0 with a
  positive timeout never lets \<^verbatim>\<open>timer\<close> grow), so the loop is a partial function: \<open>None\<close>
  is a promise that never settles. The result carries the number of timer callbacks that ran.
\<close>

partial_function (option) pollLoop ::
  "('s \<Rightarrow> bool \<times> 's) \<Rightarrow> (nat \<Rightarrow> 's \<Rightarrow> 's) \<Rightarrow> nat \<Rightarrow> nat \<Rightarrow> nat \<Rightarrow> nat \<Rightarrow> 's
     \<Rightarrow> (bool \<times> nat \<times> 's) option"
where
  "pollLoop condition host timeout interval ticks timer s =
     (if fst (condition (host interval s))
      then Some (True, Suc ticks, snd (condition (host interval s)))
      else if timeout \<le> timer + interval
      then Some (False, Suc ticks, snd (condition (host interval s)))
      else pollLoop condition host timeout interval (Suc ticks) (timer + interval)
             (snd (condition (host interval s))))"

definition waitUntil ::
  "('s \<Rightarrow> bool \<times> 's) \<Rightarrow> (nat \<Rightarrow> 's \<Rightarrow> 's) \<Rightarrow> nat \<Rightarrow> nat \<Rightarrow> 's \<Rightarrow> (bool \<times> nat \<times> 's) option"
where
  "waitUntil condition host timeout interval s =
     (if fst (condition s) then Some (True, 0, snd (condition s))
      else pollLoop condition host timeout interval 0 0 (snd (condition s)))"

text \<open>
  \<open>pollState k\<close> is the state on which the \<open>k\<close>-th evaluation of the condition runs
  (evaluation 0 is the one at the call), \<open>condAt k\<close> its outcome, and \<open>pollBudget\<close> the
  number of the timer callback at which \<^verbatim>\<open>timer >= timeout\<close> first holds.
\<close>

fun pollState :: "('s \<Rightarrow> bool \<times> 's) \<Rightarrow> (nat \<Rightarrow> 's \<Rightarrow> 's) \<Rightarrow> nat \<Rightarrow> 's \<Rightarrow> nat \<Rightarrow> 's" where
  "pollState condition host interval s 0 = s"
| "pollState condition host interval s (Suc k) =
     host interval (snd (condition (pollState condition host interval s k)))"

definition condAt :: "('s \<Rightarrow> bool \<times> 's) \<Rightarrow> (nat \<Rightarrow> 's \<Rightarrow> 's) \<Rightarrow> nat \<Rightarrow> 's \<Rightarrow> nat \<Rightarrow> bool" where
  "condAt condition host interval s k = fst (condition (pollState condition host interval s k))"

definition pollBudget :: "nat \<Rightarrow> nat \<Rightarrow> nat" where
  "pollBudget timeout interval = max 1 ((timeout + interval - 1) div interval)"

section \<open>The batch session\<close>

text \<open>
  The module variables of \<^verbatim>\<open>_MarkdownRendererInternal\<close> and the host objects they refer to
  form one record. A variable that holds an object or \<^verbatim>\<open>undefined\<close> is an option. The
  render leaf is a host object: the model keeps of it what the module reads.

  A host call is given a failing outcome exactly where the source guards it with
  \<^verbatim>\<open>try\<close>/\<^verbatim>\<open>catch\<close>; an unguarded host call is taken to return, as the source takes it.
  Console output is not modelled. \<^verbatim>\<open>Path.dequeueLog\<close>, \<^verbatim>\<open>Settings\<close>,
  \<^verbatim>\<open>TabManager\<close>, \<^verbatim>\<open>IncludeGenerator\<close> and \<^verbatim>\<open>DataviewRenderer\<close> are not among the
  sources: the queue of path logs is taken to be empty, the settings are fields of the record,
  and the other three are parameters (fields of \<open>host\<close>).
\<close>

datatype message = Str string | Obj string
  \<comment> \<open>a log message: a string, or another value given by its \<^verbatim>\<open>JSON.stringify\<close> text\<close>

datatype report =
    InfoReport string message
  | WarningReport string message
  | ErrorReport string message bool

datatype 'a result = Return 'a | Throw string

record tfile =
  path :: string
  name :: string
  extension :: string

text \<open>
  A section of a markdown preview, with what the renderer reads from \<^verbatim>\<open>section.el\<close>:
  the number of elements matching \<^verbatim>\<open>.markdown-sizer:empty\<close>, the name printed for each
  element matching \<^verbatim>\<open>[class^='block-language-']:empty\<close>, the number of callout bodies
  hidden by \<^verbatim>\<open>display: none\<close>, for each canvas (outside a PDF embed) its
  \<^verbatim>\<open>outerHTML\<close> and the length of its \<^verbatim>\<open>toDataURL()\<close>, the number of images that
  replaced canvases, and the dataview block \<^verbatim>\<open>DataviewRenderer.getDataviewFromHTML\<close> finds.
\<close>

record mdSection =
  shown :: bool
  rendered :: bool
  computed :: bool
  emptySizers :: nat
  emptyBlocks :: "string list"
  foldedCallouts :: nat
  canvasEls :: "(string \<times> nat) list"
  images :: nat
  dataviewBlock :: "string option"

record preview =
  previewFile :: tfile
  sectionCount :: nat
  sectionAt :: "nat \<Rightarrow> mdSection"
  previewClass :: "string option"
  banner :: bool

record document =
  docClass :: string
  pusher :: bool
  body :: "mdSection list"
  bannerBefore :: bool

datatype embedContent = NoEmbedEl | EmptyEmbed | Inlined document | Placeholder string

record nodeEl =
  embed :: embedContent
  externalEmbed :: bool
  parentSrc :: "string option"
  linkFrame :: "string option"

datatype content =
    MarkdownDocument document
  | ViewContainer
  | ExcalidrawDocument bool bool
  | CanvasDocument "nodeEl list" nat nat bool
  | MediaPage string string

record canvasNode =
  nodeFile :: "tfile option"
  embedEl :: "nat option"
  childPreview :: "nat option"
  url :: "string option"

record canvasEdge =
  edgeLabel :: bool

record view =
  viewType :: string
  previewMode :: nat
  canvasNodes :: "canvasNode list"
  canvasEdges :: "canvasEdge list"
  svgFilter :: bool

record leaf =
  parent :: bool
  grandparent :: bool
  progressWrapper :: bool
  winElectron :: bool
  leafView :: view

datatype effect =
    Detached
  | Notice string
  | ProgressShown real string string string
  | WindowHidden
  | WindowDocked
  | WindowResized nat nat
  | LogElAppended string message
  | Appended nat content
  | OuterHTMLSet

record options =
  container :: "nat option"
  displayProgress :: bool
  inlineHTML :: bool
  filesToExport :: "string list"
  createPusherElement :: bool
  createDocumentContainer :: bool

text \<open>
  \<open>displayProgress\<close> and \<open>createDocumentContainer\<close> are \<open>False\<close> only when the option is the
  value \<^verbatim>\<open>false\<close> (the source tests \<^verbatim>\<open>=== false\<close>); the other flags are tested for truth.
  A container is a DOM element, named by a number.
\<close>

record session =
  renderLeaf :: "leaf option"
  electronWindow :: "unit option"
  errorInBatch :: bool
  cancelled :: bool
  batchStarted :: bool
  logContainer :: "unit option"
  loadingContainer :: "unit option"
  fileListContainer :: "unit option"
  markdownView :: "view option"
  logShowing :: bool
  closeSubscribed :: bool
  fullLog :: string
  settingsLoaded :: bool
  logLevel :: string
  pendingReports :: "report list"
  effects :: "effect list"

text \<open>
  \<open>pendingReports\<close> holds the reporters that were started and not awaited
  (\<^verbatim>\<open>_reportInfo\<close>, \<^verbatim>\<open>_reportWarning\<close>, \<^verbatim>\<open>_reportError\<close> are \<^verbatim>\<open>async\<close> and
  \<^verbatim>\<open>ExportLog\<close> drops their promises): the part before their first \<^verbatim>\<open>await\<close> runs at
  the call, the rest is \<open>resumeReport\<close>. \<open>effects\<close> lists what the module did to the host.
\<close>

record world = session +
  previews :: "nat \<Rightarrow> preview"

text \<open>
  The host: what it does to the world while \<open>d\<close> milliseconds pass (\<open>advance\<close>), what a
  call into it does (\<open>invoke\<close>), whether a guarded call throws and with what
  (\<open>throws\<close>), the leaf \<^verbatim>\<open>TabManager.openNewTab\<close> returns, the view
  \<^verbatim>\<open>new MarkdownView(renderLeaf)\<close> constructs, and the two functions of modules that are not
  among the sources.
\<close>

datatype hostCall =
    DetachLeaf
  | OpenFile tfile
  | SetViewData string
  | PreviewLoad nat
  | UnfoldAndParse nat
  | LoadMermaid
  | ResetCompute nat nat
  | SetCollapsed nat nat
  | RenderSection nat nat
  | MeasureSection nat nat
  | DataviewGenerate nat nat
  | PostProcess nat nat
  | AwaitPromises nat
  | ZoomToFit
  | RenderNode nat
  | RenderEdge nat
  | ExcalidrawSvg

record host =
  advance :: "nat \<Rightarrow> world \<Rightarrow> world"
  invoke :: "hostCall \<Rightarrow> world \<Rightarrow> world"
  throws :: "hostCall \<Rightarrow> world \<Rightarrow> string option"
  openNewTab :: leaf
  newMarkdownView :: view
  getAllFilesFromPaths :: "string list \<Rightarrow> string list"
  generateInclude :: "string \<Rightarrow> bool \<Rightarrow> string"

definition errorColor :: string where
  "errorColor = ''var(--color-red)''"

subsection \<open>ExportLog\<close>

definition logToString :: "message \<Rightarrow> string \<Rightarrow> string" where
  "logToString msg title =
     (let messageString = (case msg of Str m \<Rightarrow> m | Obj j \<Rightarrow> j);
          titleString = (if title \<noteq> [] then title @ [CHR 0x09] else [])
      in titleString @ messageString @ [CHR 0x0A])"

definition reportInfo :: "string \<Rightarrow> message \<Rightarrow> 'a session_scheme \<Rightarrow> 'a session_scheme" where
  "reportInfo messageTitle msg w =
     (if \<not> batchStarted w then w
      else w\<lparr>pendingReports := pendingReports w @ [InfoReport messageTitle msg]\<rparr>)"

definition reportWarning :: "string \<Rightarrow> message \<Rightarrow> 'a session_scheme \<Rightarrow> 'a session_scheme" where
  "reportWarning messageTitle msg w =
     (if \<not> batchStarted w then w
      else w\<lparr>pendingReports := pendingReports w @ [WarningReport messageTitle msg]\<rparr>)"

definition reportError :: "string \<Rightarrow> message \<Rightarrow> bool \<Rightarrow> 'a session_scheme \<Rightarrow> 'a session_scheme" where
  "reportError messageTitle msg fatal w =
     (if \<not> batchStarted w then w
      else w\<lparr>errorInBatch := True,
             pendingReports := pendingReports w @ [ErrorReport messageTitle msg fatal]\<rparr>)"

definition leafRooted :: "'a session_scheme \<Rightarrow> bool" where
  "leafRooted w = (case renderLeaf w of None \<Rightarrow> False | Some l \<Rightarrow> parent l \<and> grandparent l)"

definition appendLogEl :: "string \<Rightarrow> message \<Rightarrow> 'a session_scheme \<Rightarrow> 'a session_scheme" where
  "appendLogEl title msg w =
     (let w1 = w\<lparr>logContainer := loadingContainer w\<rparr>
      in if logContainer w1 = None \<or> renderLeaf w1 = None then w1
         else let w2 = (if \<not> logShowing w1
                        then w1\<lparr>logShowing := True, effects := effects w1 @ [WindowResized 1000 500]\<rparr>
                        else w1)
              in w2\<lparr>effects := effects w2 @ [LogElAppended title msg]\<rparr>)"

text \<open>
  The rest of a reporter, run once its \<^verbatim>\<open>waitUntil(..., 100, 10)\<close> has resolved to
  \<open>found\<close>.
\<close>

definition resumeReport :: "bool \<Rightarrow> report \<Rightarrow> 'a session_scheme \<Rightarrow> 'a session_scheme" where
  "resumeReport found r w =
     (if \<not> found then w
      else case r of
          InfoReport title msg \<Rightarrow> appendLogEl title msg w
        | WarningReport title msg \<Rightarrow> appendLogEl title msg w
        | ErrorReport title msg fatal \<Rightarrow>
            (let w1 = appendLogEl title msg w
             in if fatal
                then w1\<lparr>renderLeaf := None, loadingContainer := None, logContainer := None\<rparr>
                else w1))"

definition ExportLog_log :: "message \<Rightarrow> string \<Rightarrow> 'a session_scheme \<Rightarrow> 'a session_scheme" where
  "ExportLog_log msg title w =
     (let messageTitle = ''[INFO] '' @ title;
          w1 = w\<lparr>fullLog := fullLog w @ logToString msg messageTitle\<rparr>
      in if settingsLoaded w1 \<and> \<not> (logLevel w1 = ''all'') then w1
         else reportInfo messageTitle msg w1)"

definition ExportLog_warning :: "message \<Rightarrow> string \<Rightarrow> 'a session_scheme \<Rightarrow> 'a session_scheme" where
  "ExportLog_warning msg title w =
     (let messageTitle = ''[WARNING] '' @ title;
          w1 = w\<lparr>fullLog := fullLog w @ logToString msg messageTitle\<rparr>
      in if settingsLoaded w1 \<and> \<not> List.member [''warning'', ''all''] (logLevel w1) then w1
         else reportWarning messageTitle msg w1)"

definition ExportLog_error :: "message \<Rightarrow> string \<Rightarrow> bool \<Rightarrow> 'a session_scheme \<Rightarrow> 'a session_scheme" where
  "ExportLog_error msg title fatal w =
     (let messageTitle = (if fatal then ''[FATAL ERROR] '' else ''[ERROR] '') @ title;
          w1 = w\<lparr>fullLog := fullLog w @ logToString msg messageTitle\<rparr>
      in if settingsLoaded w1 \<and> \<not> fatal
            \<and> \<not> List.member [''error'', ''warning'', ''all''] (logLevel w1) then w1
         else let messageTitle' = (if fatal \<and> messageTitle = ''Error'' then ''Fatal Error''
                                   else messageTitle)
              in reportError messageTitle' msg fatal w1)"

subsection \<open>Progress, end of batch, cancellation\<close>

definition reportProgress ::
  "real \<Rightarrow> string \<Rightarrow> string \<Rightarrow> string \<Rightarrow> 'a session_scheme \<Rightarrow> 'a session_scheme" where
  "reportProgress fraction msg subMessage progressColor w =
     (if \<not> batchStarted w then w
      else case renderLeaf w of
          None \<Rightarrow> w
        | Some l \<Rightarrow>
            if \<not> (parent l \<and> grandparent l) then w
            else if \<not> progressWrapper l then w
            else w\<lparr>effects := effects w @ [ProgressShown fraction msg subMessage progressColor]\<rparr>)"

definition endBatch :: "'a session_scheme \<Rightarrow> 'a session_scheme" where
  "endBatch w =
     (if \<not> batchStarted w then w
      else
        let w1 = (case renderLeaf w of
                    None \<Rightarrow> w
                  | Some l \<Rightarrow>
                      if \<not> errorInBatch w
                      then (let w' = ExportLog_log (Str ''Closing render window'') [] w
                            in w'\<lparr>effects := effects w' @ [Detached]\<rparr>)
                      else (let w' = ExportLog_warning
                                       (Str ''Error in batch, leaving render window open'') [] w
                            in reportProgress 1 ''Completed with errors''
                                 ''Please see the log for more details.'' errorColor w'))
        in w1\<lparr>electronWindow := None, renderLeaf := None, loadingContainer := None,
               fileListContainer := None, batchStarted := False\<rparr>)"

definition checkCancelled :: "'a session_scheme \<Rightarrow> bool \<times> 'a session_scheme" where
  "checkCancelled w =
     (if cancelled w \<or> renderLeaf w = None
      then (True, endBatch (ExportLog_log (Str ''cancelled'') [] w))
      else (False, w))"

text \<open>The handler \<^verbatim>\<open>beginBatch\<close> subscribes to the window's \<^verbatim>\<open>close\<close> signal.\<close>

definition windowClosed :: "'a session_scheme \<Rightarrow> 'a session_scheme" where
  "windowClosed w =
     (if cancelled w then w
      else let w1 = (endBatch w)\<lparr>cancelled := True\<rparr>
           in if electronWindow w1 \<noteq> None then w1\<lparr>closeSubscribed := False\<rparr> else w1)"

definition failRender :: "string option \<Rightarrow> message \<Rightarrow> 'a session_scheme \<Rightarrow> 'a session_scheme" where
  "failRender filePath msg w =
     (if fst (checkCancelled w) then snd (checkCancelled w)
      else ExportLog_error msg
             (''Rendering '' @ (case filePath of Some p \<Rightarrow> p | None \<Rightarrow> '' custom markdown '')
                @ '' failed: '') False w)"

subsection \<open>beginBatch\<close>

definition leafAttachedOrCancelled :: "world \<Rightarrow> bool \<times> world" where
  \<comment> \<open>\<^verbatim>\<open>() => (renderLeaf && renderLeaf.parent) || checkCancelled()\<close>\<close>
  "leafAttachedOrCancelled w =
     (case renderLeaf w of
        Some l \<Rightarrow> if parent l then (True, w) else checkCancelled w
      | None \<Rightarrow> checkCancelled w)"

definition createLoadingContainer :: "world \<Rightarrow> unit result \<times> world" where
  "createLoadingContainer w =
     (if loadingContainer w \<noteq> None then (Return (), w)
      else case renderLeaf w of
          None \<Rightarrow> (Throw ''TypeError'', w\<lparr>loadingContainer := Some ()\<rparr>)
        | Some l \<Rightarrow>
            if \<not> (parent l \<and> grandparent l)
            then (Throw ''TypeError'', w\<lparr>loadingContainer := Some ()\<rparr>)
            else (Return (), w\<lparr>loadingContainer := Some (),
                               renderLeaf := Some (l\<lparr>progressWrapper := True\<rparr>)\<rparr>))"

text \<open>The branch of \<^verbatim>\<open>beginBatch\<close> taken when \<^verbatim>\<open>parentFound\<close> is false.\<close>

definition attachFailed :: "host \<Rightarrow> world \<Rightarrow> unit result \<times> world" where
  "attachFailed h w =
     (let w1 = (case renderLeaf w of
                  None \<Rightarrow> ExportLog_error (Obj ''{}'') ''Failed to detach render leaf: '' False w
                | Some l \<Rightarrow>
                    (case throws h DetachLeaf w of
                       Some e \<Rightarrow> ExportLog_error (Obj e) ''Failed to detach render leaf: '' False w
                     | None \<Rightarrow> w\<lparr>effects := effects w @ [Detached]\<rparr>))
      in if \<not> fst (checkCancelled w1)
         then (Throw ''Failed to create leaf for rendering!'',
               (snd (checkCancelled w1))
                 \<lparr>effects := effects (snd (checkCancelled w1))
                    @ [Notice ''Error: Failed to create leaf for rendering!'']\<rparr>)
         else (Return (), snd (checkCancelled w1)))"

text \<open>The rest of \<^verbatim>\<open>beginBatch\<close>, from \<^verbatim>\<open>const obsidianWindow = ...\<close> on.\<close>

definition configureSurface :: "options \<Rightarrow> world \<Rightarrow> unit result \<times> world" where
  "configureSurface opts w =
     (case renderLeaf w of
        None \<Rightarrow> (Throw ''TypeError'', w)
      | Some l \<Rightarrow>
          if \<not> winElectron l
          then (Return (),
                w\<lparr>effects := effects w @ [Notice ''Failed to get the render window, please try again.''],
                  errorInBatch := False, cancelled := False, batchStarted := False,
                  renderLeaf := None, electronWindow := None\<rparr>)
          else
            let w1 = w\<lparr>electronWindow := Some ()\<rparr>
            in if \<not> displayProgress opts
               then createLoadingContainer
                      (w1\<lparr>effects := effects w1 @ [WindowHidden], closeSubscribed := True\<rparr>)
               else if \<not> (parent l \<and> grandparent l) then (Throw ''TypeError'', w1)
               else createLoadingContainer
                      (w1\<lparr>effects := effects w1 @ [WindowDocked], closeSubscribed := True\<rparr>))"

definition beginBatch :: "host \<Rightarrow> options \<Rightarrow> world \<Rightarrow> (unit result \<times> world) option" where
  "beginBatch h opts w =
     (if batchStarted w then Some (Return (), w)
      else
        let w1 = w\<lparr>errorInBatch := False, cancelled := False, batchStarted := True,
                   loadingContainer := None, logContainer := None, logShowing := False,
                   renderLeaf := Some (openNewTab h), markdownView := Some (newMarkdownView h)\<rparr>
        in case waitUntil leafAttachedOrCancelled (advance h) 2000 1 w1 of
             None \<Rightarrow> None
           | Some (parentFound, ticks, w2) \<Rightarrow>
               if \<not> parentFound then Some (attachFailed h w2)
               else Some (configureSurface opts w2))"

subsection \<open>The markdown section renderer\<close>

definition getSection :: "nat \<Rightarrow> nat \<Rightarrow> world \<Rightarrow> mdSection" where
  "getSection pid i w = sectionAt (previews w pid) i"

definition updSection :: "nat \<Rightarrow> nat \<Rightarrow> (mdSection \<Rightarrow> mdSection) \<Rightarrow> world \<Rightarrow> world" where
  "updSection pid i f w =
     w\<lparr>previews := (previews w)
          (pid := (previews w pid)
             \<lparr>sectionAt := (sectionAt (previews w pid))(i := f (sectionAt (previews w pid) i))\<rparr>)\<rparr>"

definition renderedOrCancelled :: "nat \<Rightarrow> nat \<Rightarrow> world \<Rightarrow> bool \<times> world" where
  \<comment> \<open>\<^verbatim>\<open>() => (section.el && section.rendered) || checkCancelled()\<close>\<close>
  "renderedOrCancelled pid i w =
     (if rendered (getSection pid i w) then (True, w) else checkCancelled w)"

definition computedOrCancelled :: "nat \<Rightarrow> nat \<Rightarrow> world \<Rightarrow> bool \<times> world" where
  \<comment> \<open>\<^verbatim>\<open>() => section.computed || checkCancelled()\<close>\<close>
  "computedOrCancelled pid i w =
     (if computed (getSection pid i w) then (True, w) else checkCancelled w)"

definition transclusionsOrCancelled :: "nat \<Rightarrow> nat \<Rightarrow> world \<Rightarrow> bool \<times> world" where
  \<comment> \<open>\<^verbatim>\<open>() => !section.el.querySelector(".markdown-sizer:empty") || checkCancelled()\<close>\<close>
  "transclusionsOrCancelled pid i w =
     (if emptySizers (getSection pid i w) = 0 then (True, w) else checkCancelled w)"

definition pluginsOrCancelled :: "nat \<Rightarrow> nat \<Rightarrow> world \<Rightarrow> bool \<times> world" where
  \<comment> \<open>\<^verbatim>\<open>() => !section.el.querySelector("[class^='block-language-']:empty") || checkCancelled()\<close>\<close>
  "pluginsOrCancelled pid i w =
     (if emptyBlocks (getSection pid i w) = [] then (True, w) else checkCancelled w)"

fun convertCanvases :: "string \<Rightarrow> (string \<times> nat) list \<Rightarrow> world \<Rightarrow> nat \<times> world" where
  "convertCanvases fileName [] w = (0, w)"
| "convertCanvases fileName (c # cs) w =
     (if snd c < 100
      then convertCanvases fileName cs
             (ExportLog_log (Str (fst c))
                (''Failed to render canvas based plugin element in file '' @ fileName @ '':'') w)
      else (Suc (fst (convertCanvases fileName cs w)), snd (convertCanvases fileName cs w)))"

fun warnInvalidBlocks :: "string \<Rightarrow> string list \<Rightarrow> world \<Rightarrow> world" where
  "warnInvalidBlocks fileName [] w = w"
| "warnInvalidBlocks fileName (b # bs) w =
     warnInvalidBlocks fileName bs
       (ExportLog_warning
          (Str (''Plugin element '' @ b @ '' from '' @ fileName @ '' not rendered correctly!'')) [] w)"

text \<open>
  The loop body of \<^verbatim>\<open>renderMarkdownView\<close> for the section \<open>i\<close> of the preview
  \<open>pid\<close>, cut at its four waits. \<open>startSection\<close> runs up to \<^verbatim>\<open>await section.render()\<close>;
  \<open>prepareSettle\<close> is dataview, the post-processing hook and the unfolding of callouts
  (it returns the number of callouts it unfolded); \<open>warnTransclusions\<close> is the warning
  after the first best-effort wait; \<open>finishSection\<close> is the conversion of canvases and the
  warnings for plugin blocks that stayed empty.
\<close>

definition startSection :: "host \<Rightarrow> nat \<Rightarrow> nat \<Rightarrow> world \<Rightarrow> world" where
  "startSection h pid i w =
     (let w1 = updSection pid i (\<lambda>s. s\<lparr>shown := True, rendered := False\<rparr>) w;
          w2 = invoke h (SetCollapsed pid i) (invoke h (ResetCompute pid i) w1);
          w3 = updSection pid i
                 (\<lambda>s. s\<lparr>emptySizers := 0, emptyBlocks := [], foldedCallouts := 0,
                          canvasEls := [], images := 0, dataviewBlock := None\<rparr>) w2
      in invoke h (RenderSection pid i) w3)"

definition prepareSettle :: "host \<Rightarrow> nat \<Rightarrow> nat \<Rightarrow> world \<Rightarrow> nat \<times> world" where
  "prepareSettle h pid i w =
     (let w1 = (case dataviewBlock (getSection pid i w) of
                  None \<Rightarrow> w
                | Some keyword \<Rightarrow>
                    invoke h (DataviewGenerate pid i)
                      (updSection pid i (\<lambda>s. s\<lparr>dataviewBlock := None\<rparr>) w));
          w2 = invoke h (PostProcess pid i) w1
      in (foldedCallouts (getSection pid i w2),
          updSection pid i (\<lambda>s. s\<lparr>foldedCallouts := 0\<rparr>) w2))"

definition warnTransclusions :: "nat \<Rightarrow> nat \<Rightarrow> world \<Rightarrow> world" where
  "warnTransclusions pid i w =
     (if emptySizers (getSection pid i w) \<noteq> 0
      then ExportLog_warning
             (Str (''Transclusions were not rendered correctly in file ''
                   @ name (previewFile (previews w pid)) @ ''!'')) [] w
      else w)"

definition finishSection :: "nat \<Rightarrow> nat \<Rightarrow> world \<Rightarrow> world" where
  "finishSection pid i w =
     (let fileName = name (previewFile (previews w pid));
          cv = convertCanvases fileName (canvasEls (getSection pid i w)) w;
          w1 = updSection pid i (\<lambda>s. s\<lparr>canvasEls := [], images := images s + fst cv\<rparr>) (snd cv)
      in warnInvalidBlocks fileName (emptyBlocks (getSection pid i w1)) w1)"

text \<open>
  The result of the loop body is \<open>None\<close> when \<^verbatim>\<open>renderMarkdownView\<close> returned
  \<^verbatim>\<open>undefined\<close> from inside it, and otherwise the number of callouts the section had
  folded. The test \<^verbatim>\<open>if (!newMarkdownEl || !newSizerEl)\<close> before the loop never fires
  (\<^verbatim>\<open>createDiv\<close> returns an element) and is left out.
\<close>

definition settleSection :: "host \<Rightarrow> nat \<Rightarrow> nat \<Rightarrow> world \<Rightarrow> (nat option \<times> world) option" where
  "settleSection h pid i w =
     (case waitUntil (transclusionsOrCancelled pid i) (advance h) 500 1
             (snd (prepareSettle h pid i w)) of
        None \<Rightarrow> None
      | Some (r1, t1, w1) \<Rightarrow>
          if fst (checkCancelled w1) then Some (None, snd (checkCancelled w1))
          else
            case waitUntil (pluginsOrCancelled pid i) (advance h) 500 1
                   (warnTransclusions pid i w1) of
              None \<Rightarrow> None
            | Some (r2, t2, w2) \<Rightarrow>
                if fst (checkCancelled w2) then Some (None, snd (checkCancelled w2))
                else Some (Some (fst (prepareSettle h pid i w)), finishSection pid i w2))"

definition renderSection :: "host \<Rightarrow> nat \<Rightarrow> nat \<Rightarrow> world \<Rightarrow> (nat option \<times> world) option" where
  "renderSection h pid i w =
     (case waitUntil (renderedOrCancelled pid i) (advance h) 2000 1 (startSection h pid i w) of
        None \<Rightarrow> None
      | Some (success, t1, w1) \<Rightarrow>
          if \<not> success
          then Some (None, failRender (Some (path (previewFile (previews w1 pid))))
                             (Str ''Failed to render section!'') w1)
          else
            case waitUntil (computedOrCancelled pid i) (advance h) 2000 1
                   (invoke h (MeasureSection pid i) w1) of
              None \<Rightarrow> None
            | Some (success', t2, w2) \<Rightarrow>
                if \<not> success'
                then Some (None, failRender (Some (path (previewFile (previews w2 pid))))
                                   (Str ''Failed to compute section!'') w2)
                else settleSection h pid i w2)"

fun renderSections ::
  "host \<Rightarrow> nat \<Rightarrow> nat list \<Rightarrow> (nat \<times> nat) list \<Rightarrow> world
     \<Rightarrow> ((nat \<times> nat) list option \<times> world) option"
where
  "renderSections h pid [] folded w = Some (Some folded, w)"
| "renderSections h pid (i # rest) folded w =
     (case renderSection h pid i w of
        None \<Rightarrow> None
      | Some (None, w') \<Rightarrow> Some (None, w')
      | Some (Some k, w') \<Rightarrow> renderSections h pid rest (folded @ [(i, k)]) w')"

fun refoldCallouts :: "nat \<Rightarrow> (nat \<times> nat) list \<Rightarrow> world \<Rightarrow> world" where
  "refoldCallouts pid [] w = w"
| "refoldCallouts pid (f # fs) w =
     refoldCallouts pid fs
       (updSection pid (fst f) (\<lambda>s. s\<lparr>foldedCallouts := foldedCallouts s + snd f\<rparr>) w)"

text \<open>What \<^verbatim>\<open>renderMarkdownView\<close> does after the loop over the sections.\<close>

definition assembleDocument :: "host \<Rightarrow> options \<Rightarrow> nat \<Rightarrow> (nat \<times> nat) list \<Rightarrow> world \<Rightarrow> document \<times> world"
where
  "assembleDocument h opts pid folded w =
     (let w1 = refoldCallouts pid folded (invoke h (AwaitPromises pid) w);
          pv = previews w1 pid;
          doc = \<lparr>docClass = ''obsidian-document ''
                              @ (case previewClass pv of Some c \<Rightarrow> c | None \<Rightarrow> []),
                 pusher = createPusherElement opts,
                 body = map (sectionAt pv) [0..<sectionCount pv],
                 bannerBefore = banner pv\<rparr>;
          w2 = (if \<not> createDocumentContainer opts
                then w1\<lparr>effects := effects w1 @ [OuterHTMLSet]\<rparr> else w1);
          w3 = (case container opts of
                  None \<Rightarrow> w2
                | Some c \<Rightarrow> w2\<lparr>effects := effects w2 @ [Appended c (MarkdownDocument doc)]\<rparr>)
      in (doc, w3))"

text \<open>What \<^verbatim>\<open>renderMarkdownView\<close> does before the loop over the sections.\<close>

definition openPreview :: "host \<Rightarrow> nat \<Rightarrow> world \<Rightarrow> world" where
  "openPreview h pid w =
     (let w1 = invoke h (PreviewLoad pid) w;
          w2 = (case throws h (UnfoldAndParse pid) w1 of
                  Some e \<Rightarrow> ExportLog_error (Obj e) ''Failed to unfold or parse renderer!'' False w1
                | None \<Rightarrow> invoke h (UnfoldAndParse pid) w1)
      in invoke h LoadMermaid w2)"

text \<open>What it does with the outcome of the loop.\<close>

definition finishView ::
  "host \<Rightarrow> options \<Rightarrow> nat \<Rightarrow> ((nat \<times> nat) list option \<times> world) option
     \<Rightarrow> (document option \<times> world) option"
where
  "finishView h opts pid r =
     (case r of
        None \<Rightarrow> None
      | Some (None, w') \<Rightarrow> Some (None, w')
      | Some (Some folded, w') \<Rightarrow>
          Some (Some (fst (assembleDocument h opts pid folded w')),
                snd (assembleDocument h opts pid folded w')))"

definition renderMarkdownView :: "host \<Rightarrow> options \<Rightarrow> nat \<Rightarrow> world \<Rightarrow> (document option \<times> world) option"
where
  "renderMarkdownView h opts pid w =
     finishView h opts pid
       (renderSections h pid [0..<sectionCount (previews (openPreview h pid w) pid)] []
          (openPreview h pid w))"

subsection \<open>The other renderers\<close>

definition appendToContainer :: "options \<Rightarrow> content \<Rightarrow> world \<Rightarrow> world" where
  \<comment> \<open>\<^verbatim>\<open>options.container?.appendChild(contentEl)\<close>\<close>
  "appendToContainer opts c w =
     (case container opts of None \<Rightarrow> w | Some k \<Rightarrow> w\<lparr>effects := effects w @ [Appended k c]\<rparr>)"

definition renderGeneric :: "host \<Rightarrow> options \<Rightarrow> world \<Rightarrow> content option \<times> world" where
  "renderGeneric h opts w =
     (let w1 = advance h 2000 w
      in if fst (checkCancelled w1) then (None, snd (checkCancelled w1))
         else (Some ViewContainer, appendToContainer opts ViewContainer w1))"

definition renderExcalidraw :: "host \<Rightarrow> view \<Rightarrow> options \<Rightarrow> world \<Rightarrow> content option \<times> world" where
  "renderExcalidraw h v opts w =
     (let w1 = invoke h ExcalidrawSvg (advance h 500 w);
          isLight = \<not> svgFilter v;
          contentEl = ExcalidrawDocument isLight (\<not> createDocumentContainer opts)
      in if fst (checkCancelled w1) then (None, snd (checkCancelled w1))
         else (Some contentEl, appendToContainer opts contentEl w1))"

fun renderAll :: "host \<Rightarrow> (nat \<Rightarrow> hostCall) \<Rightarrow> nat \<Rightarrow> nat \<Rightarrow> world \<Rightarrow> world" where
  "renderAll h call i 0 w = w"
| "renderAll h call i (Suc n) w = renderAll h call (Suc i) n (invoke h (call i) w)"

text \<open>The body of the loop of \<^verbatim>\<open>renderCanvas\<close> over the nodes, for the node number \<open>i\<close>.\<close>

definition renderCanvasNode ::
  "host \<Rightarrow> options \<Rightarrow> string list \<Rightarrow> nat \<Rightarrow> canvasNode \<Rightarrow> world \<Rightarrow> (nodeEl \<times> world) option"
where
  "renderCanvasNode h opts allExportedPaths i node w =
     (let cleared = \<lparr>embed = (case embedEl node of None \<Rightarrow> NoEmbedEl | Some e \<Rightarrow> EmptyEmbed),
                     externalEmbed = False, parentSrc = None,
                     linkFrame = (case url node of None \<Rightarrow> None
                                  | Some u \<Rightarrow> if u \<noteq> [] then Some u else None)\<rparr>;
          optionsCopy = opts\<lparr>container := embedEl node\<rparr>;
          inline = (\<lambda>p. case renderMarkdownView h optionsCopy p (invoke h (RenderNode i) w) of
                      None \<Rightarrow> None
                    | Some (None, w') \<Rightarrow> Some (cleared, w')
                    | Some (Some doc, w') \<Rightarrow> Some (cleared\<lparr>embed := Inlined doc\<rparr>, w'))
      in case embedEl node of
           None \<Rightarrow> Some (cleared, w)
         | Some e \<Rightarrow>
            (case nodeFile node of
               Some f \<Rightarrow>
                 if (inlineHTML opts \<or> \<not> List.member allExportedPaths (path f))
                    \<and> childPreview node \<noteq> None
                 then (case childPreview node of Some p \<Rightarrow> inline p | None \<Rightarrow> Some (cleared, w))
                 else Some (cleared\<lparr>embed := Placeholder (generateInclude h (path f) True),
                                     externalEmbed := True, parentSrc := Some (path f)\<rparr>, w)
             | None \<Rightarrow>
                 (case childPreview node of
                    Some p \<Rightarrow> inline p
                  | None \<Rightarrow> Some (cleared, w))))"

fun renderCanvasNodes ::
  "host \<Rightarrow> options \<Rightarrow> string list \<Rightarrow> nat \<Rightarrow> canvasNode list \<Rightarrow> world \<Rightarrow> (nodeEl list \<times> world) option"
where
  "renderCanvasNodes h opts allExportedPaths i [] w = Some ([], w)"
| "renderCanvasNodes h opts allExportedPaths i (node # nodes) w =
     (case renderCanvasNode h opts allExportedPaths i node w of
        None \<Rightarrow> None
      | Some (el, w') \<Rightarrow>
          (case renderCanvasNodes h opts allExportedPaths (Suc i) nodes w' of
             None \<Rightarrow> None
           | Some (els, w'') \<Rightarrow> Some (el # els, w'')))"

definition renderCanvas :: "host \<Rightarrow> view \<Rightarrow> options \<Rightarrow> world \<Rightarrow> (content option \<times> world) option" where
  "renderCanvas h v opts w =
     (if fst (checkCancelled w) then Some (None, snd (checkCancelled w))
      else
        let allExportedPaths = getAllFilesFromPaths h (filesToExport opts);
            w1 = advance h 500 (invoke h ZoomToFit w);
            w2 = renderAll h RenderNode 0 (length (canvasNodes v)) w1;
            w3 = renderAll h RenderEdge 0 (length (canvasEdges v)) w2;
            w4 = advance h 500 (invoke h ZoomToFit w3)
        in case renderCanvasNodes h opts allExportedPaths 0 (canvasNodes v) w4 of
             None \<Rightarrow> None
           | Some (els, w5) \<Rightarrow>
               if fst (checkCancelled w5) then Some (None, snd (checkCancelled w5))
               else
                 let contentEl = CanvasDocument els (length (canvasEdges v))
                                   (length (filter edgeLabel (canvasEdges v)))
                                   (\<not> createDocumentContainer opts)
                 in Some (Some contentEl, appendToContainer opts contentEl w5))"

definition viewableMediaExtensions :: "string list" where
  "viewableMediaExtensions =
     [''png'', ''jpg'', ''jpeg'', ''svg'', ''gif'', ''bmp'', ''ico'', ''mp4'', ''mov'', ''avi'',
      ''webm'', ''mpeg'', ''mp3'', ''wav'', ''ogg'', ''aac'', ''pdf'', ''html'', ''htm'', ''json'',
      ''txt'', ''yaml'']"

definition extentionToTag :: "string \<Rightarrow> string" where
  "extentionToTag extention =
     (if List.member [''png'', ''jpg'', ''jpeg'', ''svg'', ''gif'', ''bmp'', ''ico''] extention
      then ''img''
      else if List.member [''mp4'', ''mov'', ''avi'', ''webm'', ''mpeg''] extention then ''video''
      else if List.member [''mp3'', ''wav'', ''ogg'', ''aac''] extention then ''audio''
      else if List.member [''pdf''] extention then ''embed''
      else ''iframe'')"

definition createMediaPage :: "tfile \<Rightarrow> options \<Rightarrow> world \<Rightarrow> content \<times> world" where
  "createMediaPage file opts w =
     (let contentEl = MediaPage (extentionToTag (extension file)) (path file)
      in (contentEl, appendToContainer opts contentEl w))"

subsection \<open>renderFile and renderMarkdown\<close>

definition leafDefinedOrCancelled :: "world \<Rightarrow> bool \<times> world" where
  \<comment> \<open>\<^verbatim>\<open>() => renderLeaf != undefined || checkCancelled()\<close>\<close>
  "leafDefinedOrCancelled w = (if renderLeaf w \<noteq> None then (True, w) else checkCancelled w)"

definition ensureBatch :: "host \<Rightarrow> options \<Rightarrow> world \<Rightarrow> (unit result \<times> world) option" where
  \<comment> \<open>\<^verbatim>\<open>if (loneFile) { ExportLog.log(...); await beginBatch(options); }\<close>\<close>
  "ensureBatch h opts w =
     (if \<not> batchStarted w
      then beginBatch h opts (ExportLog_log (Str ''Exporting single file, starting batch'') [] w)
      else Some (Return (), w))"

definition dispatchView :: "host \<Rightarrow> view \<Rightarrow> options \<Rightarrow> world \<Rightarrow> (content option \<times> world) option" where
  "dispatchView h v opts w =
     (if viewType v = ''markdown''
      then (case renderMarkdownView h opts (previewMode v) w of
              None \<Rightarrow> None
            | Some (d, w') \<Rightarrow> Some (map_option MarkdownDocument d, w'))
      else if viewType v = ''kanban'' then Some (renderGeneric h opts w)
      else if viewType v = ''excalidraw'' then Some (renderExcalidraw h v opts w)
      else if viewType v = ''canvas'' then renderCanvas h v opts w
      else Some (renderGeneric h opts w))"

text \<open>The end shared by \<^verbatim>\<open>renderFile\<close> and \<^verbatim>\<open>renderMarkdown\<close>, from the line
  \<^verbatim>\<open>if (checkCancelled()) return undefined;\<close> on.\<close>

definition finishRender ::
  "bool \<Rightarrow> string option \<Rightarrow> 'c option \<Rightarrow> world \<Rightarrow> 'c option \<times> world" where
  "finishRender loneFile filePath html w =
     (if fst (checkCancelled w) then (None, snd (checkCancelled w))
      else case html of
          None \<Rightarrow> (None, failRender filePath (Str ''Failed to render file!'') w)
        | Some el \<Rightarrow> (Some el, if loneFile then endBatch w else w))"

definition renderFile ::
  "host \<Rightarrow> tfile \<Rightarrow> options \<Rightarrow> world \<Rightarrow> ((content \<times> string) option result \<times> world) option" where
  "renderFile h file opts w =
     (if List.member viewableMediaExtensions (extension file)
      then Some (Return (Some (fst (createMediaPage file opts w), ''attachment'')),
                 snd (createMediaPage file opts w))
      else
        let loneFile = \<not> batchStarted w
        in case ensureBatch h opts w of
             None \<Rightarrow> None
           | Some (Throw e, w1) \<Rightarrow> Some (Throw e, w1)
           | Some (Return u, w1) \<Rightarrow>
              (case waitUntil leafDefinedOrCancelled (advance h) 2000 1 w1 of
                 None \<Rightarrow> None
               | Some (success, ticks, w2) \<Rightarrow>
                   if \<not> success \<or> renderLeaf w2 = None
                   then Some (Return None,
                              failRender (Some (path file)) (Str ''Failed to get leaf for rendering!'') w2)
                   else
                    (case throws h (OpenFile file) w2 of
                       Some e \<Rightarrow> Some (Return None, failRender (Some (path file)) (Obj e) w2)
                     | None \<Rightarrow>
                        (case renderLeaf (invoke h (OpenFile file) w2) of
                           None \<Rightarrow> Some (Throw ''TypeError'', invoke h (OpenFile file) w2)
                         | Some l \<Rightarrow>
                            (case dispatchView h (leafView l) opts (invoke h (OpenFile file) w2) of
                               None \<Rightarrow> None
                             | Some (html, w3) \<Rightarrow>
                                 Some (Return (map_option (\<lambda>el. (el, viewType (leafView l)))
                                                 (fst (finishRender loneFile (Some (path file)) html w3))),
                                       snd (finishRender loneFile (Some (path file)) html w3)))))))"

definition renderMarkdown ::
  "host \<Rightarrow> string \<Rightarrow> options \<Rightarrow> world \<Rightarrow> (document option result \<times> world) option" where
  "renderMarkdown h markdown opts w =
     (let loneFile = \<not> batchStarted w
      in case ensureBatch h opts w of
           None \<Rightarrow> None
         | Some (Throw e, w1) \<Rightarrow> Some (Throw e, w1)
         | Some (Return u, w1) \<Rightarrow>
            (case waitUntil leafDefinedOrCancelled (advance h) 2000 1 w1 of
               None \<Rightarrow> None
             | Some (success, ticks, w2) \<Rightarrow>
                 if \<not> success \<or> renderLeaf w2 = None
                 then Some (Return None,
                            failRender None (Str ''Failed to get leaf for rendering!'') w2)
                 else
                  (let v = (case markdownView w2 of Some v \<Rightarrow> v | None \<Rightarrow> newMarkdownView h);
                       w2' = w2\<lparr>renderLeaf := map_option (\<lambda>l. l\<lparr>leafView := v\<rparr>) (renderLeaf w2)\<rparr>
                   in case throws h (SetViewData markdown) w2' of
                        Some e \<Rightarrow> Some (Return None, failRender None (Obj e) w2')
                      | None \<Rightarrow>
                         (case renderMarkdownView h opts (previewMode v)
                                 (invoke h (SetViewData markdown) w2') of
                            None \<Rightarrow> None
                          | Some (html, w3) \<Rightarrow>
                              Some (Return (fst (finishRender loneFile None html w3)),
                                    snd (finishRender loneFile None html w3))))))"

section \<open>The document tree\<close>

text \<open>
  \<^verbatim>\<open>makeHeadingsTrees\<close> and \<^verbatim>\<open>postProcessHTML\<close> move elements of a live DOM tree while they walk a static list of
  the elements a selector matched, so elements need an identity: an element carries a
  number, unique in its tree. Tag names are as the DOM reports them for HTML elements (upper
  case). New elements take their numbers from a counter.
\<close>

record elem =
  tag :: string
  classNames :: "string list"
  attributes :: "(string \<times> string) list"
  inlineStyle :: "(string \<times> string) list"
  liveValue :: string

text \<open>
  An element has its tag name, the classes of its \<^verbatim>\<open>class\<close> attribute, its other
  attributes, the properties of its inline style, and (for a form control) the value it
  shows, which is not its \<^verbatim>\<open>value\<close> attribute.
\<close>

datatype dnode = Txt string | El nat elem "dnode list"

definition plain :: "string \<Rightarrow> string list \<Rightarrow> elem" where
  "plain t cs = \<lparr>tag = t, classNames = cs, attributes = [], inlineStyle = [], liveValue = []\<rparr>"

fun nid :: "dnode \<Rightarrow> nat option" where
  "nid (Txt s) = None"
| "nid (El i e ks) = Some i"

fun tagName :: "dnode \<Rightarrow> string" where
  "tagName (Txt s) = []"
| "tagName (El i e ks) = tag e"

fun classList :: "dnode \<Rightarrow> string list" where
  "classList (Txt s) = []"
| "classList (El i e ks) = classNames e"

fun childNodes :: "dnode \<Rightarrow> dnode list" where
  "childNodes (Txt s) = []"
| "childNodes (El i e ks) = ks"

fun isElement :: "dnode \<Rightarrow> bool" where
  "isElement (Txt s) = False"
| "isElement (El i e ks) = True"

definition addClass :: "string \<Rightarrow> dnode \<Rightarrow> dnode" where
  \<comment> \<open>\<^verbatim>\<open>classList.add\<close>\<close>
  "addClass c n =
     (case n of Txt s \<Rightarrow> Txt s
      | El i e ks \<Rightarrow> if c \<in> set (classNames e) then El i e ks
                     else El i (e\<lparr>classNames := classNames e @ [c]\<rparr>) ks)"

text \<open>All elements below a node, in document order; the node itself is not among them.\<close>

fun descendants :: "dnode \<Rightarrow> dnode list" and descendantsL :: "dnode list \<Rightarrow> dnode list" where
  "descendants (Txt s) = []"
| "descendants (El i e ks) = descendantsL ks"
| "descendantsL [] = []"
| "descendantsL (k # ks) = (if isElement k then [k] else []) @ descendants k @ descendantsL ks"

text \<open>\<open>updNode i f\<close> applies \<open>f\<close> to the element numbered \<open>i\<close>.\<close>

fun updNode :: "nat \<Rightarrow> (dnode \<Rightarrow> dnode) \<Rightarrow> dnode \<Rightarrow> dnode"
  and updNodeL :: "nat \<Rightarrow> (dnode \<Rightarrow> dnode) \<Rightarrow> dnode list \<Rightarrow> dnode list" where
  "updNode j f (Txt s) = Txt s"
| "updNode j f (El i e ks) = (if i = j then f (El i e ks) else El i e (updNodeL j f ks))"
| "updNodeL j f [] = []"
| "updNodeL j f (k # ks) = updNode j f k # updNodeL j f ks"

definition findNode :: "nat \<Rightarrow> dnode \<Rightarrow> dnode option" where
  "findNode j n = find (\<lambda>d. nid d = Some j) (n # descendants n)"

section \<open>The heading tree builder\<close>

subsection \<open>getHeaderEl and the comparison of tag names\<close>

fun matchesHeadingPattern :: "string \<Rightarrow> bool" where
  \<comment> \<open>\<^verbatim>\<open>/[Hh][1-6]/g.test(s)\<close>, on a fresh regular expression\<close>
  "matchesHeadingPattern (a # b # rest) =
     (((a = CHR ''H'' \<or> a = CHR ''h'') \<and> b \<in> set ''123456'')
      \<or> matchesHeadingPattern (b # rest))"
| "matchesHeadingPattern s = False"

definition firstElementChild :: "dnode \<Rightarrow> dnode option" where
  "firstElementChild n = find isElement (childNodes n)"

definition getHeaderEl :: "dnode \<Rightarrow> dnode option" where
  "getHeaderEl headingContainer =
     (case firstElementChild headingContainer of
        None \<Rightarrow> None
      | Some first \<Rightarrow> if matchesHeadingPattern (tagName first) then Some first else None)"

fun jsLessEq :: "string \<Rightarrow> string \<Rightarrow> bool" where
  \<comment> \<open>\<^verbatim>\<open><=\<close> on JavaScript strings: by code units, a prefix first\<close>
  "jsLessEq [] t = True"
| "jsLessEq (a # s) [] = False"
| "jsLessEq (a # s) (b # t) =
     (if of_char a < (of_char b :: nat) then True
      else if of_char a > (of_char b :: nat) then False
      else jsLessEq s t)"

definition hasFootnotes :: "dnode \<Rightarrow> bool" where
  \<comment> \<open>\<^verbatim>\<open>el.querySelector(":has(section.footnotes)")\<close> finds something\<close>
  "hasFootnotes el =
     (\<exists>d \<in> set (descendants el).
        \<exists>s \<in> set (descendants d). tagName s = ''SECTION'' \<and> ''footnotes'' \<in> set (classList s))"

text \<open>
  The test of the loop of \<^verbatim>\<open>makeHeaderTree\<close>: the sibling wraps a header whose tag name
  is at most that of this header, or whose element holds the footnotes or is the footer.
\<close>

definition stopsWalk :: "string \<Rightarrow> dnode \<Rightarrow> bool" where
  "stopsWalk headerTag possibleChild =
     (case getHeaderEl possibleChild of
        None \<Rightarrow> False
      | Some possibleChildHeader \<Rightarrow>
          jsLessEq (tagName possibleChildHeader) headerTag
          \<or> hasFootnotes possibleChildHeader
          \<or> ''mod-footer'' \<in> set (classList possibleChildHeader))"

text \<open>
  The loop of \<^verbatim>\<open>makeHeaderTree\<close> over the nodes that follow the header's wrapper:
  \<^verbatim>\<open>nextElementSibling\<close> steps over text, which stays where it is; the result is the
  elements moved into the children container and the nodes left behind.
\<close>

fun walkSiblings :: "string \<Rightarrow> dnode list \<Rightarrow> dnode list \<times> dnode list" where
  "walkSiblings headerTag [] = ([], [])"
| "walkSiblings headerTag (Txt s # rest) =
     (fst (walkSiblings headerTag rest), Txt s # snd (walkSiblings headerTag rest))"
| "walkSiblings headerTag (El i e ks # rest) =
     (if stopsWalk headerTag (El i e ks) then ([], El i e ks # rest)
      else (El i e ks # fst (walkSiblings headerTag rest), snd (walkSiblings headerTag rest)))"

definition appendChildren :: "dnode list \<Rightarrow> dnode \<Rightarrow> dnode" where
  "appendChildren new n = (case n of Txt s \<Rightarrow> Txt s | El i e ks \<Rightarrow> El i e (ks @ new))"

text \<open>
  \<^verbatim>\<open>makeHeaderTree(headerDiv, childrenContainer)\<close> on the tree: \<open>headerDiv\<close> and
  \<open>childrenContainer\<close> are the numbers of the two elements.
\<close>

fun makeHeaderTree :: "nat \<Rightarrow> nat \<Rightarrow> dnode \<Rightarrow> dnode"
  and makeHeaderTreeL :: "nat \<Rightarrow> nat \<Rightarrow> dnode list \<Rightarrow> dnode list" where
  "makeHeaderTree headerDiv childrenContainer (Txt s) = Txt s"
| "makeHeaderTree headerDiv childrenContainer (El i e ks) =
     El i e (makeHeaderTreeL headerDiv childrenContainer ks)"
| "makeHeaderTreeL headerDiv childrenContainer [] = []"
| "makeHeaderTreeL headerDiv childrenContainer (k # rest) =
     (if nid k = Some headerDiv
      then (case getHeaderEl k of
              None \<Rightarrow> k # rest
            | Some headerEl \<Rightarrow>
                updNode childrenContainer
                  (appendChildren (fst (walkSiblings (tagName headerEl) rest))) k
                # snd (walkSiblings (tagName headerEl) rest))
      else makeHeaderTree headerDiv childrenContainer k
           # makeHeaderTreeL headerDiv childrenContainer rest)"

subsection \<open>makeHeadingsTrees\<close>

definition isHeadingTag :: "string \<Rightarrow> bool" where
  "isHeadingTag t = (t \<in> set [''H1'', ''H2'', ''H3'', ''H4'', ''H5'', ''H6''])"

definition blockLanguage :: "dnode \<Rightarrow> bool" where
  \<comment> \<open>\<^verbatim>\<open>[class^='block-language-']\<close>\<close>
  "blockLanguage n = (case classList n of [] \<Rightarrow> False
                       | c # cs \<Rightarrow> take 15 c = ''block-language-'')"

text \<open>
  The elements matching
  \<^verbatim>\<open>div:has(> :is(h1, ..., h6):not([class^='block-language-'] *)):not(.markdown-sizer)\<close>
  below a node, in document order; \<open>inBlock\<close> tells whether an ancestor of the children
  is a plugin block.
\<close>

fun headingWrappers :: "bool \<Rightarrow> dnode \<Rightarrow> nat list"
  and headingWrappersL :: "bool \<Rightarrow> dnode list \<Rightarrow> nat list" where
  "headingWrappers inBlock (Txt s) = []"
| "headingWrappers inBlock (El i e ks) = headingWrappersL (inBlock \<or> blockLanguage (El i e ks)) ks"
| "headingWrappersL inBlock [] = []"
| "headingWrappersL inBlock (k # ks) =
     (if tagName k = ''DIV'' \<and> ''markdown-sizer'' \<notin> set (classList k)
         \<and> \<not> (inBlock \<or> blockLanguage k)
         \<and> (\<exists>c \<in> set (childNodes k). isHeadingTag (tagName c))
      then (case nid k of Some i \<Rightarrow> [i] | None \<Rightarrow> [])
      else [])
     @ headingWrappers inBlock k @ headingWrappersL inBlock ks"

definition arrowHTML :: "nat \<Rightarrow> dnode" where
  \<comment> \<open>what the markup of \<^verbatim>\<open>arrowHTML\<close> parses to; it takes two numbers\<close>
  "arrowHTML n =
     El n \<lparr>tag = ''svg'', classNames = [''svg-icon'', ''right-triangle''],
           attributes = [(''xmlns'', ''http://www.w3.org/2000/svg''), (''width'', ''24''),
                         (''height'', ''24''), (''viewBox'', ''0 0 24 24''), (''fill'', ''none''),
                         (''stroke'', ''currentColor''), (''stroke-width'', ''2''),
                         (''stroke-linecap'', ''round''), (''stroke-linejoin'', ''round'')],
           inlineStyle = [], liveValue = []\<rparr>
       [El (n + 1) \<lparr>tag = ''path'', classNames = [], attributes = [(''d'', ''M3 8L12 17L21 8'')],
                    inlineStyle = [], liveValue = []\<rparr> []]"

definition collapseIcon :: "nat \<Rightarrow> string \<Rightarrow> dnode" where
  \<comment> \<open>the indicator with \<^verbatim>\<open>arrowHTML\<close> inside; it takes three numbers\<close>
  "collapseIcon n kind =
     El n (plain ''DIV'' [kind, ''collapse-indicator'', ''collapse-icon'']) [arrowHTML (n + 1)]"

definition hasIndicator :: "dnode \<Rightarrow> bool" where
  "hasIndicator n = (\<exists>d \<in> set (descendants n). ''heading-collapse-indicator'' \<in> set (classList d))"

definition prependIcon :: "nat \<Rightarrow> dnode \<Rightarrow> dnode" where
  "prependIcon n hEl =
     (case hEl of Txt s \<Rightarrow> Txt s
      | El i e ks \<Rightarrow> El i e (collapseIcon n ''heading-collapse-indicator'' # ks))"

text \<open>
  The callback of the \<^verbatim>\<open>forEach\<close> over the wrappers, for the wrapper numbered
  \<open>header\<close>; the state is the tree and the next unused number.
\<close>

definition wrapHeading :: "nat \<Rightarrow> dnode \<times> nat \<Rightarrow> dnode \<times> nat" where
  "wrapHeading header st =
     (let html = updNode header (addClass ''heading-wrapper'') (fst st);
          fresh = snd st
      in case findNode header html of
           None \<Rightarrow> (html, fresh)
         | Some headerNode \<Rightarrow>
            (case getHeaderEl headerNode of
               None \<Rightarrow> (html, fresh)
             | Some hEl \<Rightarrow>
                 if ''heading'' \<in> set (classList hEl) then (html, fresh)
                 else
                   (case nid hEl of
                      None \<Rightarrow> (html, fresh)
                    | Some h \<Rightarrow>
                        let html1 = updNode h (addClass ''heading'') html;
                            withIcon = (if hasIndicator hEl then (html1, fresh)
                                        else (updNode h (prependIcon fresh) html1, fresh + 3));
                            children = snd withIcon;
                            html2 = updNode header
                                      (appendChildren [El children (plain ''DIV'' [''heading-children'']) []])
                                      (fst withIcon)
                        in (makeHeaderTree header children html2, children + 1))))"

fun removeFirstIndicator :: "dnode \<Rightarrow> dnode \<times> bool"
  and removeFirstIndicatorL :: "dnode list \<Rightarrow> dnode list \<times> bool" where
  "removeFirstIndicator (Txt s) = (Txt s, False)"
| "removeFirstIndicator (El i e ks) =
     (El i e (fst (removeFirstIndicatorL ks)), snd (removeFirstIndicatorL ks))"
| "removeFirstIndicatorL [] = ([], False)"
| "removeFirstIndicatorL (k # ks) =
     (if isElement k \<and> ''heading-collapse-indicator'' \<in> set (classList k) then (ks, True)
      else if snd (removeFirstIndicator k) then (fst (removeFirstIndicator k) # ks, True)
      else (k # fst (removeFirstIndicatorL ks), snd (removeFirstIndicatorL ks)))"

text \<open>
  \<^verbatim>\<open>el.innerHTML = el.innerHTML.replaceAll(...)\<close> on the children of \<^verbatim>\<open>el\<close>: the
  line feeds go from the text and from the attribute values of everything below, and the
  markup is parsed again, so a text node that became empty is gone and text nodes that
  became neighbours are one. The new elements keep the numbers of the old. Class names are
  taken to be separated by spaces; two that a line feed separated would become one. What
  the parser would restructure in the markup is not modelled.
\<close>

definition noLineFeeds :: "string \<Rightarrow> string" where
  "noLineFeeds s = filter (\<lambda>c. c \<noteq> CHR 0x0A) s"

fun joinText :: "dnode \<Rightarrow> dnode list \<Rightarrow> dnode list" where
  "joinText (Txt s) rest =
     (if s = [] then rest
      else case rest of Txt t # others \<Rightarrow> Txt (s @ t) # others | _ \<Rightarrow> Txt s # rest)"
| "joinText (El i e ks) rest = El i e ks # rest"

fun stripNewlines :: "dnode \<Rightarrow> dnode" and stripNewlinesL :: "dnode list \<Rightarrow> dnode list" where
  "stripNewlines (Txt s) = Txt (noLineFeeds s)"
| "stripNewlines (El i e ks) =
     El i (e\<lparr>attributes := map (\<lambda>p. (fst p, noLineFeeds (snd p))) (attributes e),
              inlineStyle := map (\<lambda>p. (fst p, noLineFeeds (snd p))) (inlineStyle e)\<rparr>)
       (stripNewlinesL ks)"
| "stripNewlinesL [] = []"
| "stripNewlinesL (k # ks) = joinText (stripNewlines k) (stripNewlinesL ks)"

text \<open>
  The three passes after the \<^verbatim>\<open>forEach\<close>, each over the elements below the root. First,
  every heading gets the class \<^verbatim>\<open>heading\<close>.
\<close>

fun markHeadings :: "dnode \<Rightarrow> dnode" and markHeadingsL :: "dnode list \<Rightarrow> dnode list" where
  "markHeadings (Txt s) = Txt s"
| "markHeadings (El i e ks) =
     (if isHeadingTag (tag e) then addClass ''heading'' (El i e (markHeadingsL ks))
      else El i e (markHeadingsL ks))"
| "markHeadingsL [] = []"
| "markHeadingsL (k # ks) = markHeadings k # markHeadingsL ks"

text \<open>
  Second, every element matching \<^verbatim>\<open>div h1, div .inline-title\<close>, in document order, loses
  the first collapse indicator below it. \<open>underDiv\<close> tells whether an ancestor is a
  \<^verbatim>\<open>div\<close>. The recursion goes into the children that are left after the removal.
\<close>

lemma removeFirstIndicator_size:
  "size (fst (removeFirstIndicator n)) \<le> size n"
  "size_list size (fst (removeFirstIndicatorL ks)) \<le> size_list size ks"
  by (induction n and ks rule: removeFirstIndicator_removeFirstIndicatorL.induct) auto

function dropIndicators :: "bool \<Rightarrow> dnode list \<Rightarrow> dnode list" where
  "dropIndicators underDiv [] = []"
| "dropIndicators underDiv (Txt s # rest) = Txt s # dropIndicators underDiv rest"
| "dropIndicators underDiv (El i e ks # rest) =
     El i e
       (dropIndicators (underDiv \<or> tag e = ''DIV'')
          (if underDiv \<and> (tag e = ''H1'' \<or> ''inline-title'' \<in> set (classNames e))
           then fst (removeFirstIndicatorL ks) else ks))
     # dropIndicators underDiv rest"
  by pat_completeness auto
termination
proof (relation "measure (\<lambda>p. size_list size (snd p))", goal_cases)
  case 1
  show ?case by simp
next
  case (2 underDiv s rest)
  show ?case by simp
next
  case (3 underDiv i e ks rest)
  have "size_list size (fst (removeFirstIndicatorL ks)) \<le> size_list size ks"
    by (rule removeFirstIndicator_size)
  then show ?case by auto
next
  case (4 underDiv i e ks rest)
  show ?case by simp
qed

text \<open>Third, the markup inside every heading loses its line feeds.\<close>

fun stripHeadings :: "dnode \<Rightarrow> dnode" and stripHeadingsL :: "dnode list \<Rightarrow> dnode list" where
  "stripHeadings (Txt s) = Txt s"
| "stripHeadings (El i e ks) =
     (if isHeadingTag (tag e) then El i e (stripNewlinesL ks) else El i e (stripHeadingsL ks))"
| "stripHeadingsL [] = []"
| "stripHeadingsL (k # ks) = stripHeadings k # stripHeadingsL ks"

text \<open>
  \<open>fresh\<close> is the first number not used in \<open>html\<close>. The root has no ancestor in the
  model: an element above it would count for \<^verbatim>\<open>div h1\<close> and for the plugin blocks.
\<close>

definition makeHeadingsTrees :: "dnode \<Rightarrow> nat \<Rightarrow> dnode" where
  "makeHeadingsTrees html fresh =
     (case fst (fold wrapHeading (headingWrappers False html) (html, fresh)) of
        Txt s \<Rightarrow> Txt s
      | El i e ks \<Rightarrow>
          El i e (stripHeadingsL (dropIndicators (tag e = ''DIV'') (markHeadingsL ks))))"

section \<open>The post-processor\<close>

text \<open>
  \<^verbatim>\<open>postProcessHTML\<close> on the document tree. What it takes from its surroundings is a
  parameter: the absolute URL the DOM reports as \<^verbatim>\<open>element.href\<close> for an \<^verbatim>\<open>href\<close>
  attribute, the text \<^verbatim>\<open>ObsidianRenderer.render\<close> has put into its container when the
  call returns (\<^verbatim>\<open>renderSimpleMarkdown\<close> is not awaited), and whether the root has a parent
  element. Reading \<^verbatim>\<open>innerHTML\<close> and writing it elsewhere copies the nodes as the
  serialisation has them: a form control shows its default value again. What the HTML
  parser and the CSS parser would further change in such a copy or reject in a style value
  is not modelled.
\<close>

record surroundings =
  resolveHref :: "string \<Rightarrow> string"
  renderedText :: "string \<Rightarrow> string"
  rootAttached :: bool

subsection \<open>Attributes, styles, selectors\<close>

fun assign :: "string \<Rightarrow> string \<Rightarrow> (string \<times> string) list \<Rightarrow> (string \<times> string) list" where
  "assign k v [] = [(k, v)]"
| "assign k v (p # ps) = (if fst p = k then (k, v) # ps else p # assign k v ps)"

definition unassign :: "string \<Rightarrow> (string \<times> string) list \<Rightarrow> (string \<times> string) list" where
  "unassign k ps = filter (\<lambda>p. fst p \<noteq> k) ps"

definition setStyle :: "string \<Rightarrow> string \<Rightarrow> (string \<times> string) list \<Rightarrow> (string \<times> string) list" where
  \<comment> \<open>\<^verbatim>\<open>element.style.prop = v\<close>: the empty string removes the property\<close>
  "setStyle k v ps = (if v = [] then unassign k ps else assign k v ps)"

definition getAttribute :: "string \<Rightarrow> dnode \<Rightarrow> string option" where
  "getAttribute k n = (case n of Txt s \<Rightarrow> None | El i e ks \<Rightarrow> map_of (attributes e) k)"

definition hasClass :: "string \<Rightarrow> dnode \<Rightarrow> bool" where
  "hasClass c n = (c \<in> set (classList n))"

definition classStartsWith :: "string \<Rightarrow> dnode \<Rightarrow> bool" where
  \<comment> \<open>\<^verbatim>\<open>[class^='...']\<close>\<close>
  "classStartsWith pre n =
     (case classList n of [] \<Rightarrow> False | c # cs \<Rightarrow> take (length pre) c = pre)"

fun textContent :: "dnode \<Rightarrow> string" and textContentL :: "dnode list \<Rightarrow> string" where
  "textContent (Txt s) = s"
| "textContent (El i e ks) = textContentL ks"
| "textContentL [] = []"
| "textContentL (k # ks) = textContent k @ textContentL ks"

definition setTextContent :: "string \<Rightarrow> dnode \<Rightarrow> dnode" where
  "setTextContent s n =
     (case n of Txt x \<Rightarrow> Txt x | El i e ks \<Rightarrow> El i e (if s = [] then [] else [Txt s]))"

text \<open>
  \<open>mapElements g\<close> gives every element below the root the element data \<open>g\<close> computes
  from it: a \<^verbatim>\<open>forEach\<close> whose callback changes attributes, styles or the shown value of
  the element it is called on.
\<close>

fun mapElements :: "(dnode \<Rightarrow> elem) \<Rightarrow> dnode \<Rightarrow> dnode"
  and mapElementsL :: "(dnode \<Rightarrow> elem) \<Rightarrow> dnode list \<Rightarrow> dnode list" where
  "mapElements g (Txt s) = Txt s"
| "mapElements g (El i e ks) = El i e (mapElementsL g ks)"
| "mapElementsL g [] = []"
| "mapElementsL g (Txt s # rest) = Txt s # mapElementsL g rest"
| "mapElementsL g (El i e ks # rest) = El i (g (El i e ks)) (mapElementsL g ks) # mapElementsL g rest"

text \<open>\<open>removeElements p\<close> removes every element below the root that satisfies \<open>p\<close>.\<close>

fun removeElements :: "(dnode \<Rightarrow> bool) \<Rightarrow> dnode \<Rightarrow> dnode"
  and removeElementsL :: "(dnode \<Rightarrow> bool) \<Rightarrow> dnode list \<Rightarrow> dnode list" where
  "removeElements p (Txt s) = Txt s"
| "removeElements p (El i e ks) = El i e (removeElementsL p ks)"
| "removeElementsL p [] = []"
| "removeElementsL p (k # rest) =
     (if isElement k \<and> p k then removeElementsL p rest
      else removeElements p k # removeElementsL p rest)"

subsection \<open>The steps\<close>

text \<open>The document root marker. \<open>None\<close>: no view container was found.\<close>

definition markDocumentRoot :: "dnode \<Rightarrow> dnode option" where
  "markDocumentRoot html =
     (if hasClass ''obsidian-document'' html then Some html
      else if hasClass ''view-content'' html \<or> hasClass ''markdown-preview-view'' html
      then Some (addClass ''obsidian-document'' html)
      else case find (\<lambda>d. hasClass ''view-content'' d \<or> hasClass ''markdown-preview-view'' d)
                  (descendants html) of
             None \<Rightarrow> None
           | Some viewContainer \<Rightarrow>
               (case nid viewContainer of
                  None \<Rightarrow> None
                | Some v \<Rightarrow> Some (updNode v (addClass ''obsidian-document'') html)))"

definition stripDecoration :: "dnode \<Rightarrow> dnode" where
  \<comment> \<open>\<^verbatim>\<open>.mod-header, .mod-footer\<close>\<close>
  "stripDecoration html =
     removeElements (\<lambda>n. hasClass ''mod-header'' n \<or> hasClass ''mod-footer'' n) html"

text \<open>The copy \<^verbatim>\<open>span.innerHTML = element.innerHTML\<close> makes of the children. The copies
  keep the numbers of the elements they replace.\<close>

fun serialized :: "dnode \<Rightarrow> dnode" and serializedL :: "dnode list \<Rightarrow> dnode list" where
  "serialized (Txt s) = Txt s"
| "serialized (El i e ks) =
     El i (e\<lparr>liveValue := (if tag e = ''TEXTAREA'' then textContentL ks
                            else if tag e = ''INPUT''
                            then (case map_of (attributes e) ''value'' of
                                    None \<Rightarrow> [] | Some v \<Rightarrow> v)
                            else liveValue e)\<rparr>)
       (serializedL ks)"
| "serializedL [] = []"
| "serializedL (k # ks) = serialized k # serializedL ks"

definition blockSpan :: "nat \<Rightarrow> dnode list \<Rightarrow> dnode" where
  "blockSpan n ks =
     El n \<lparr>tag = ''SPAN'', classNames = [], attributes = [],
           inlineStyle = [(''display'', ''block''),
                          (''margin-block-start'', ''var(--p-spacing)''),
                          (''margin-block-end'', ''var(--p-spacing)'')],
           liveValue = []\<rparr> ks"

text \<open>
  \<^verbatim>\<open>p:has(div)\<close>: the outermost such paragraphs are replaced; one inside another is
  replaced in the paragraph that was taken out of the tree, not in its copy.
\<close>

fun repairParagraphs :: "nat \<Rightarrow> dnode \<Rightarrow> dnode \<times> nat"
  and repairParagraphsL :: "nat \<Rightarrow> dnode list \<Rightarrow> dnode list \<times> nat" where
  "repairParagraphs fresh (Txt s) = (Txt s, fresh)"
| "repairParagraphs fresh (El i e ks) =
     (El i e (fst (repairParagraphsL fresh ks)), snd (repairParagraphsL fresh ks))"
| "repairParagraphsL fresh [] = ([], fresh)"
| "repairParagraphsL fresh (Txt s # rest) =
     (Txt s # fst (repairParagraphsL fresh rest), snd (repairParagraphsL fresh rest))"
| "repairParagraphsL fresh (El i e ks # rest) =
     (if tag e = ''P'' \<and> list_ex (\<lambda>d. tagName d = ''DIV'') (descendantsL ks)
      then (blockSpan fresh (serializedL ks) # fst (repairParagraphsL (Suc fresh) rest),
            snd (repairParagraphsL (Suc fresh) rest))
      else (El i e (fst (repairParagraphsL fresh ks))
              # fst (repairParagraphsL (snd (repairParagraphsL fresh ks)) rest),
            snd (repairParagraphsL (snd (repairParagraphsL fresh ks)) rest)))"

definition asciiLower :: "char \<Rightarrow> char" where
  "asciiLower c =
     (if 65 \<le> (of_char c :: nat) \<and> (of_char c :: nat) \<le> 90
      then char_of (of_char c + 32 :: nat) else c)"

definition encodeTextInput :: "dnode \<Rightarrow> elem" where
  \<comment> \<open>\<^verbatim>\<open>input[type=text]\<close>; a selector compares the value of \<^verbatim>\<open>type\<close> without regard to case\<close>
  "encodeTextInput n =
     (case n of
        El i e ks \<Rightarrow>
          if tag e = ''INPUT''
             \<and> map_option (map asciiLower) (map_of (attributes e) ''type'') = Some ''text''
          then e\<lparr>attributes := assign ''value'' (liveValue e) (attributes e), liveValue := []\<rparr>
          else e)"

fun encodeTextAreas :: "dnode \<Rightarrow> dnode" and encodeTextAreasL :: "dnode list \<Rightarrow> dnode list" where
  "encodeTextAreas (Txt s) = Txt s"
| "encodeTextAreas (El i e ks) = El i e (encodeTextAreasL ks)"
| "encodeTextAreasL [] = []"
| "encodeTextAreasL (Txt s # rest) = Txt s # encodeTextAreasL rest"
| "encodeTextAreasL (El i e ks # rest) =
     (if tag e = ''TEXTAREA'' then setTextContent (liveValue e) (El i e ks)
      else El i e (encodeTextAreasL ks))
     # encodeTextAreasL rest"

fun splitAt :: "char \<Rightarrow> string \<Rightarrow> string list" where
  \<comment> \<open>\<^verbatim>\<open>s.split(c)\<close>\<close>
  "splitAt c [] = [[]]"
| "splitAt c (x # xs) =
     (if x = c then [] # splitAt c xs
      else (case splitAt c xs of [] \<Rightarrow> [[x]] | p # ps \<Rightarrow> (x # p) # ps))"

definition tagLinkToQuery :: "surroundings \<Rightarrow> dnode \<Rightarrow> elem" where
  \<comment> \<open>\<^verbatim>\<open>a.tag\<close>\<close>
  "tagLinkToQuery env n =
     (case n of
        El i e ks \<Rightarrow>
          if tag e = ''A'' \<and> ''tag'' \<in> set (classNames e)
          then
            let href = (case map_of (attributes e) ''href'' of
                          None \<Rightarrow> [] | Some a \<Rightarrow> resolveHref env a);
                tagText = (case splitAt CHR ''#'' href of
                             a # b # rest \<Rightarrow> b
                           | _ \<Rightarrow> drop 1 href);
                original = (case map_of (attributes e) ''href'' of None \<Rightarrow> [] | Some a \<Rightarrow> a)
            in e\<lparr>attributes := assign ''href'' (''?query=tag:'' @ tagText)
                                  (assign ''data-href'' original (attributes e))\<rparr>
          else e)"

definition isBlank :: "string \<Rightarrow> bool" where
  \<comment> \<open>\<^verbatim>\<open>s.trim() == ""\<close>, for the white space of ASCII\<close>
  "isBlank s = list_all (\<lambda>c. c \<in> set [CHR '' '', CHR 0x09, CHR 0x0A, CHR 0x0B, CHR 0x0C, CHR 0x0D]) s"

definition sizedMedia :: "dnode \<Rightarrow> bool" where
  \<comment> \<open>\<^verbatim>\<open>img, video, .media-embed:has( > :is(img, video))\<close>\<close>
  "sizedMedia n =
     (tagName n = ''IMG'' \<or> tagName n = ''VIDEO''
      \<or> (hasClass ''media-embed'' n
          \<and> list_ex (\<lambda>c. tagName c = ''IMG'' \<or> tagName c = ''VIDEO'') (childNodes n)))"

definition widthToMaxWidth :: "dnode \<Rightarrow> elem" where
  "widthToMaxWidth n =
     (case n of
        El i e ks \<Rightarrow>
          if sizedMedia (El i e ks)
          then (case map_of (attributes e) ''width'' of
                  None \<Rightarrow> e
                | Some width \<Rightarrow>
                    if width = [] then e
                    else e\<lparr>attributes := unassign ''width'' (attributes e),
                           inlineStyle := setStyle ''max-width'' ''100%''
                                            (setStyle ''width''
                                               (if \<not> isBlank width then width @ ''px'' else [])
                                               (inlineStyle e))\<rparr>)
          else e)"

definition convertWidths :: "dnode \<Rightarrow> dnode" where
  "convertWidths html = mapElements widthToMaxWidth html"

text \<open>
  The PDF embeds, \<^verbatim>\<open>span.internal-embed.pdf-embed\<close>, by their numbers in document order.
  The container is the parent of the parent; every element below it is removed from its
  parent, so the container keeps its text, and an embed found later below it has no parent
  any more and is passed over. A container above the root takes the plain embed; the root
  loses its elements.
\<close>

definition pdfEmbed :: "dnode \<Rightarrow> bool" where
  "pdfEmbed n = (tagName n = ''SPAN'' \<and> hasClass ''internal-embed'' n \<and> hasClass ''pdf-embed'' n)"

definition plainEmbed :: "nat \<Rightarrow> dnode \<Rightarrow> dnode" where
  "plainEmbed n pdf =
     (let st = (case pdf of Txt s \<Rightarrow> [] | El i e ks \<Rightarrow> inlineStyle e);
          w = (case map_of st ''width'' of None \<Rightarrow> ''100%'' | Some v \<Rightarrow> v);
          h = (case map_of st ''height'' of None \<Rightarrow> ''800px'' | Some v \<Rightarrow> v)
      in El n \<lparr>tag = ''EMBED'', classNames = [],
               attributes = [(''src'', case getAttribute ''src'' pdf of None \<Rightarrow> [] | Some s \<Rightarrow> s)],
               inlineStyle = [(''width'', w), (''max-width'', ''100%''), (''height'', h)],
               liveValue = []\<rparr> [])"

definition hasChild :: "nat \<Rightarrow> dnode \<Rightarrow> bool" where
  "hasChild j n = list_ex (\<lambda>c. nid c = Some j) (childNodes n)"

definition hasGrandchild :: "nat \<Rightarrow> dnode \<Rightarrow> bool" where
  "hasGrandchild j n = list_ex (\<lambda>c. isElement c \<and> hasChild j c) (childNodes n)"

definition keepText :: "dnode list \<Rightarrow> dnode \<Rightarrow> dnode" where
  "keepText new n =
     (case n of Txt s \<Rightarrow> Txt s
      | El i e ks \<Rightarrow> El i e (filter (\<lambda>k. \<not> isElement k) ks @ new))"

definition replacePdf :: "surroundings \<Rightarrow> nat \<Rightarrow> dnode \<times> nat \<Rightarrow> dnode \<times> nat" where
  "replacePdf env pdf st =
     (let html = fst st; fresh = snd st
      in case findNode pdf html of
           None \<Rightarrow> (html, fresh)
         | Some pdfNode \<Rightarrow>
             if nid html = Some pdf then (html, Suc fresh)
             else if hasChild pdf html
             then (if rootAttached env then keepText [] html else html, Suc fresh)
             else (case find (hasGrandchild pdf) (html # descendants html) of
                     None \<Rightarrow> (html, Suc fresh)
                   | Some holder \<Rightarrow>
                       (case nid holder of
                          None \<Rightarrow> (html, Suc fresh)
                        | Some c \<Rightarrow>
                            (updNode c (keepText [plainEmbed fresh pdfNode]) html, Suc fresh))))"

definition replacePdfEmbeds :: "surroundings \<Rightarrow> dnode \<times> nat \<Rightarrow> dnode \<times> nat" where
  "replacePdfEmbeds env st =
     fold (replacePdf env)
       (concat (map (\<lambda>d. case nid d of None \<Rightarrow> [] | Some j \<Rightarrow> [j])
                  (filter pdfEmbed (descendants (fst st)))))
       st"

definition removeMakeMd :: "dnode \<Rightarrow> dnode" where
  \<comment> \<open>\<^verbatim>\<open>div[class^='mk-']\<close>\<close>
  "removeMakeMd html = removeElements (\<lambda>n. tagName n = ''DIV'' \<and> classStartsWith ''mk-'' n) html"

text \<open>
  The front matter: the first \<^verbatim>\<open>.frontmatter\<close> is moved to just before the first
  \<^verbatim>\<open>.markdown-sizer\<close>, and the element that was its parent is removed. Putting a node
  before one of its own descendants is refused by the DOM with an exception.
\<close>

fun insertBefore :: "nat \<Rightarrow> dnode \<Rightarrow> dnode \<Rightarrow> dnode"
  and insertBeforeL :: "nat \<Rightarrow> dnode \<Rightarrow> dnode list \<Rightarrow> dnode list" where
  "insertBefore j new (Txt s) = Txt s"
| "insertBefore j new (El i e ks) = El i e (insertBeforeL j new ks)"
| "insertBeforeL j new [] = []"
| "insertBeforeL j new (k # rest) =
     (if nid k = Some j then new # k # rest
      else insertBefore j new k # insertBeforeL j new rest)"

definition parentOf :: "nat \<Rightarrow> dnode \<Rightarrow> nat option" where
  "parentOf j html =
     (case find (hasChild j) (html # descendants html) of None \<Rightarrow> None | Some p \<Rightarrow> nid p)"

definition moveFrontmatter :: "dnode \<Rightarrow> dnode result" where
  "moveFrontmatter html =
     (case find (hasClass ''frontmatter'') (descendants html) of
        None \<Rightarrow> Return html
      | Some frontmatter \<Rightarrow>
         (case nid frontmatter of
            None \<Rightarrow> Return html
          | Some f \<Rightarrow>
             (case find (hasClass ''markdown-sizer'') (descendants html) of
                None \<Rightarrow>
                  (case parentOf f html of
                     None \<Rightarrow> Return html
                   | Some p \<Rightarrow> Return (removeElements (\<lambda>n. nid n = Some p) html))
              | Some sizer \<Rightarrow>
                  if list_ex (\<lambda>d. nid d = nid sizer) (descendants frontmatter)
                  then Throw ''HierarchyRequestError''
                  else
                    (case (nid sizer, parentOf f html) of
                       (Some s, Some p) \<Rightarrow>
                         Return (removeElements (\<lambda>n. nid n = Some p)
                                   (if s = f then html
                                    else insertBefore s frontmatter
                                           (removeElements (\<lambda>n. nid n = Some f) html)))
                     | _ \<Rightarrow> Return html))))"

definition lazyFrame :: "dnode \<Rightarrow> elem" where
  \<comment> \<open>\<^verbatim>\<open>iframe\<close>\<close>
  "lazyFrame n =
     (case n of
        El i e ks \<Rightarrow> if tag e = ''IFRAME''
                     then e\<lparr>attributes := assign ''loading'' ''lazy'' (attributes e)\<rparr> else e)"

text \<open>\<^verbatim>\<open>li:has(ul), li:has(ol)\<close>: an item without a collapse icon below it gets one.\<close>

fun addListIcons :: "nat \<Rightarrow> dnode \<Rightarrow> dnode \<times> nat"
  and addListIconsL :: "nat \<Rightarrow> dnode list \<Rightarrow> dnode list \<times> nat" where
  "addListIcons fresh (Txt s) = (Txt s, fresh)"
| "addListIcons fresh (El i e ks) =
     (El i e (fst (addListIconsL fresh ks)), snd (addListIconsL fresh ks))"
| "addListIconsL fresh [] = ([], fresh)"
| "addListIconsL fresh (Txt s # rest) =
     (Txt s # fst (addListIconsL fresh rest), snd (addListIconsL fresh rest))"
| "addListIconsL fresh (El i e ks # rest) =
     (if tag e = ''LI'' \<and> list_ex (\<lambda>d. tagName d = ''UL'' \<or> tagName d = ''OL'') (descendantsL ks)
         \<and> \<not> list_ex (hasClass ''collapse-icon'') (descendantsL ks)
      then (El i e (collapseIcon fresh ''list-collapse-indicator''
                      # fst (addListIconsL (fresh + 3) ks))
              # fst (addListIconsL (snd (addListIconsL (fresh + 3) ks)) rest),
            snd (addListIconsL (snd (addListIconsL (fresh + 3) ks)) rest))
      else (El i e (fst (addListIconsL fresh ks))
              # fst (addListIconsL (snd (addListIconsL fresh ks)) rest),
            snd (addListIconsL (snd (addListIconsL fresh ks)) rest)))"

text \<open>
  \<^verbatim>\<open>.block-language-toc.dynamic-toc li > a\<close>: \<open>inToc\<close> tells whether an ancestor is a
  dynamic table of contents, \<open>parentItem\<close> whether the parent is a list item below one.
  A matched link loses its children, so nothing below it is looked at. The walk starts at
  the root, which this selector cannot return but which can be the ancestor it asks
  for; the root is taken to have no such ancestor of its own.
\<close>

fun renderTocLabels :: "surroundings \<Rightarrow> bool \<Rightarrow> bool \<Rightarrow> dnode list \<Rightarrow> dnode list" where
  "renderTocLabels env inToc parentItem [] = []"
| "renderTocLabels env inToc parentItem (Txt s # rest) =
     Txt s # renderTocLabels env inToc parentItem rest"
| "renderTocLabels env inToc parentItem (El i e ks # rest) =
     (if inToc \<and> parentItem \<and> tag e = ''A''
      then setTextContent (renderedText env (textContentL ks)) (El i e ks)
      else El i e (renderTocLabels env
                     (inToc \<or> (''block-language-toc'' \<in> set (classNames e)
                                \<and> ''dynamic-toc'' \<in> set (classNames e)))
                     (inToc \<and> tag e = ''LI'') ks))
     # renderTocLabels env inToc parentItem rest"

subsection \<open>postProcessHTML\<close>

text \<open>The steps after the document root marker, in the order of the source.\<close>

definition transformDocument ::
  "surroundings \<Rightarrow> options \<Rightarrow> dnode \<times> nat \<Rightarrow> (dnode \<times> nat) result" where
  "transformDocument env opts st =
     (let t1 = (if \<not> createDocumentContainer opts then stripDecoration (fst st) else fst st);
          s2 = repairParagraphs (snd st) t1;
          t3 = mapElements encodeTextInput (fst s2);
          t4 = encodeTextAreas t3;
          t5 = mapElements (tagLinkToQuery env) t4;
          t6 = convertWidths t5;
          s7 = replacePdfEmbeds env (t6, snd s2);
          t8 = removeMakeMd (fst s7)
      in case moveFrontmatter t8 of
           Throw x \<Rightarrow> Throw x
         | Return t9 \<Rightarrow>
             let t10 = mapElements lazyFrame t9;
                 s11 = addListIcons (snd s7) t10
             in Return (hd (renderTocLabels env False False [fst s11]), snd s11))"

definition postProcessHTML ::
  "surroundings \<Rightarrow> options \<Rightarrow> dnode \<times> nat \<Rightarrow> 'a session_scheme
     \<Rightarrow> (dnode \<times> nat) result \<times> 'a session_scheme" where
  "postProcessHTML env opts st w =
     (case markDocumentRoot (fst st) of
        None \<Rightarrow> (Return st,
                  ExportLog_error (Str ''Failed to find view container in rendered HTML!'') []
                    False w)
      | Some html \<Rightarrow> (transformDocument env opts (html, snd st), w))"

section \<open>Concrete hosts and worlds\<close>

text \<open>
  The inputs of the examples: a session that was never started, a leaf that has no parent,
  a leaf docked in a window, and a host that does nothing.
\<close>

definition noView :: view where
  "noView = \<lparr>viewType = ''empty'', previewMode = 0, canvasNodes = [], canvasEdges = [],
             svgFilter = False\<rparr>"

definition looseLeaf :: leaf where
  "looseLeaf = \<lparr>parent = False, grandparent = False, progressWrapper = False,
                winElectron = True, leafView = noView\<rparr>"

definition dockedLeaf :: leaf where
  "dockedLeaf = \<lparr>parent = True, grandparent = True, progressWrapper = True,
                 winElectron = True, leafView = noView\<rparr>"

definition blankSection :: mdSection where
  "blankSection = \<lparr>shown = False, rendered = False, computed = False, emptySizers = 0,
                   emptyBlocks = [], foldedCallouts = 0, canvasEls = [], images = 0,
                   dataviewBlock = None\<rparr>"

definition notePreview :: preview where
  "notePreview = \<lparr>previewFile = \<lparr>path = ''notes/a.md'', name = ''a.md'', extension = ''md''\<rparr>,
                  sectionCount = 1, sectionAt = (\<lambda>i. blankSection), previewClass = None,
                  banner = False\<rparr>"

definition inactiveWorld :: world where
  "inactiveWorld =
     \<lparr>renderLeaf = None, electronWindow = None, errorInBatch = False, cancelled = False,
      batchStarted = False, logContainer = None, loadingContainer = None,
      fileListContainer = None, markdownView = None, logShowing = False,
      closeSubscribed = False, fullLog = [], settingsLoaded = False, logLevel = ''all'',
      pendingReports = [], effects = [], previews = (\<lambda>p. notePreview)\<rparr>"

definition activeWorld :: world where
  "activeWorld =
     inactiveWorld\<lparr>renderLeaf := Some dockedLeaf, electronWindow := Some (),
                   batchStarted := True, loadingContainer := Some ()\<rparr>"

definition defaultOptions :: options where
  "defaultOptions = \<lparr>container = None, displayProgress = True, inlineHTML = False,
                     filesToExport = [], createPusherElement = False,
                     createDocumentContainer = True\<rparr>"

definition idleHost :: host where
  "idleHost = \<lparr>advance = (\<lambda>d w. w), invoke = (\<lambda>c w. w), throws = (\<lambda>c w. None),
               openNewTab = looseLeaf, newMarkdownView = noView,
               getAllFilesFromPaths = (\<lambda>ps. ps), generateInclude = (\<lambda>p b. p)\<rparr>"

text \<open>A host that never attaches the leaf either, and whose \<^verbatim>\<open>detach\<close> throws.\<close>

definition stuckHost :: host where
  "stuckHost = idleHost\<lparr>throws := (\<lambda>c w. case c of DetachLeaf \<Rightarrow> Some ''Error: no such leaf''
                                            | _ \<Rightarrow> None)\<rparr>"

text \<open>
  The session a fatal error leaves during a batch: \<^verbatim>\<open>ExportLog.error\<close> with the fatal
  flag on the active session, and its reporter run to the end.
\<close>

definition afterFatalError :: world where
  "afterFatalError =
     resumeReport True (ErrorReport ''[FATAL ERROR] x'' (Str ''boom'') True)
       (ExportLog_error (Str ''boom'') ''x'' True activeWorld)"

text \<open>
  A host that docks the leaf as soon as time passes and whose \<^verbatim>\<open>openFile\<close> and
  \<^verbatim>\<open>setViewData\<close> throw; a host that renders and measures a section at once but never
  fills its nested transclusion nor its plugin block; and one that renders a section and
  never measures it.
\<close>

definition dock :: "world \<Rightarrow> world" where
  "dock w = w\<lparr>renderLeaf := map_option (\<lambda>l. l\<lparr>parent := True, grandparent := True\<rparr>) (renderLeaf w)\<rparr>"

definition failingHost :: host where
  "failingHost = idleHost\<lparr>advance := (\<lambda>d w. dock w),
                          throws := (\<lambda>c w. case c of OpenFile f \<Rightarrow> Some ''{}''
                                             | SetViewData m \<Rightarrow> Some ''{}'' | _ \<Rightarrow> None)\<rparr>"

text \<open>The session \<open>beginBatch\<close> leaves with that host, begun by a render call.\<close>

definition begun :: world where
  "begun = inactiveWorld\<lparr>batchStarted := True, renderLeaf := Some dockedLeaf,
              markdownView := Some noView, electronWindow := Some (), closeSubscribed := True,
              loadingContainer := Some (),
              fullLog := ''[INFO] '' @ [CHR 0x09] @ ''Exporting single file, starting batch''
                           @ [CHR 0x0A],
              effects := [WindowDocked]\<rparr>"

definition brokenFile :: tfile where
  "brokenFile = \<lparr>path = ''notes/broken.md'', name = ''broken.md'', extension = ''md''\<rparr>"

definition halfRendered :: "mdSection \<Rightarrow> mdSection" where
  "halfRendered s = s\<lparr>rendered := True, emptySizers := 1, emptyBlocks := [''block-language-chart'']\<rparr>"

definition sluggishHost :: host where
  "sluggishHost =
     idleHost\<lparr>invoke := (\<lambda>c w. case c of
                   RenderSection p i \<Rightarrow> updSection p i halfRendered w
                 | MeasureSection p i \<Rightarrow> updSection p i (\<lambda>s. s\<lparr>computed := True\<rparr>) w
                 | _ \<Rightarrow> w)\<rparr>"

definition unmeasuringHost :: host where
  "unmeasuringHost =
     idleHost\<lparr>invoke := (\<lambda>c w. case c of
                   RenderSection p i \<Rightarrow> updSection p i (\<lambda>s. s\<lparr>rendered := True\<rparr>) w
                 | _ \<Rightarrow> w)\<rparr>"

text \<open>A canvas node that embeds the file \<^verbatim>\<open>b.md\<close> and has a child preview.\<close>

definition embedNode :: canvasNode where
  "embedNode = \<lparr>nodeFile = Some \<lparr>path = ''b.md'', name = ''b.md'', extension = ''md''\<rparr>,
                 embedEl = Some 7, childPreview = Some 0, url = None\<rparr>"


section \<open>Sequences of session operations\<close>

text \<open>
  The operations of the module on the session other than \<^verbatim>\<open>beginBatch\<close>, and a run of
  them in order: what can happen to a session between two cancellation checks without a
  fresh batch being begun.
\<close>

datatype sessionOp =
    CheckCancelled
  | EndBatch
  | WindowClosed
  | LogInfo message string
  | LogWarning message string
  | LogError message string bool
  | ResumeReport bool report
  | ReportProgress real string string string
  | FailRender "string option" message

fun applyOp :: "sessionOp \<Rightarrow> 'a session_scheme \<Rightarrow> 'a session_scheme" where
  "applyOp CheckCancelled w = snd (checkCancelled w)"
| "applyOp EndBatch w = endBatch w"
| "applyOp WindowClosed w = windowClosed w"
| "applyOp (LogInfo m t) w = ExportLog_log m t w"
| "applyOp (LogWarning m t) w = ExportLog_warning m t w"
| "applyOp (LogError m t f) w = ExportLog_error m t f w"
| "applyOp (ResumeReport found r) w = resumeReport found r w"
| "applyOp (ReportProgress f m s c) w = reportProgress f m s c w"
| "applyOp (FailRender p m) w = failRender p m w"

fun runOps :: "sessionOp list \<Rightarrow> 'a session_scheme \<Rightarrow> 'a session_scheme" where
  "runOps [] w = w"
| "runOps (op # ops) w = runOps ops (applyOp op w)"

text \<open>A session that has been ended and is cancelled or has lost its leaf.\<close>

definition settled :: "'a session_scheme \<Rightarrow> bool" where
  "settled w = (\<not> batchStarted w \<and> (cancelled w \<or> renderLeaf w = None))"

text \<open>The session holds a leaf that has no parent, and is not cancelled.\<close>

definition unattached :: "world \<Rightarrow> bool" where
  "unattached w = ((\<exists>l. renderLeaf w = Some l \<and> \<not> parent l) \<and> \<not> cancelled w)"

section \<open>The example of the heading tree builder\<close>

text \<open>
  The flat sequence \<^verbatim>\<open>[h1, p, h2, p, h3, p, h2, p]\<close>: eight sibling \<^verbatim>\<open>div\<close>s under the
  sizer, each wrapping one heading or one paragraph. The wrappers are numbered 1 to 8, what
  they wrap 11 to 18.
\<close>

definition sectionDiv :: "nat \<Rightarrow> string \<Rightarrow> string \<Rightarrow> dnode" where
  "sectionDiv i t s = El i (plain ''DIV'' []) [El (10 + i) (plain t []) [Txt s]]"

definition flatDocument :: dnode where
  "flatDocument = El 0 (plain ''DIV'' [''markdown-sizer''])
     [sectionDiv 1 ''H1'' ''A'', sectionDiv 2 ''P'' ''a'', sectionDiv 3 ''H2'' ''B'',
      sectionDiv 4 ''P'' ''b'', sectionDiv 5 ''H3'' ''C'', sectionDiv 6 ''P'' ''c'',
      sectionDiv 7 ''H2'' ''D'', sectionDiv 8 ''P'' ''d'']"

text \<open>
  A processed wrapper: the heading (with its collapse indicator, unless it is an
  \<^verbatim>\<open>h1\<close>) and the children container holding \<open>below\<close>.
\<close>

definition headingWrapper :: "nat \<Rightarrow> string \<Rightarrow> string \<Rightarrow> nat option \<Rightarrow> nat \<Rightarrow> dnode list \<Rightarrow> dnode" where
  "headingWrapper i t s icon children below =
     El i (plain ''DIV'' [''heading-wrapper''])
       [El (10 + i) (plain t [''heading''])
          ((case icon of None \<Rightarrow> []
            | Some n \<Rightarrow> [collapseIcon n ''heading-collapse-indicator'']) @ [Txt s]),
        El children (plain ''DIV'' [''heading-children'']) below]"

definition nestedDocument :: dnode where
  "nestedDocument = El 0 (plain ''DIV'' [''markdown-sizer''])
     [headingWrapper 1 ''H1'' ''A'' None 103
        [sectionDiv 2 ''P'' ''a'',
         headingWrapper 3 ''H2'' ''B'' (Some 104) 107
           [sectionDiv 4 ''P'' ''b'',
            headingWrapper 5 ''H3'' ''C'' (Some 108) 111 [sectionDiv 6 ''P'' ''c'']],
         headingWrapper 7 ''H2'' ''D'' (Some 112) 115 [sectionDiv 8 ''P'' ''d'']]]"

text \<open>
  A sequence in which the walk meets the two marks the source tests for: a wrapper whose
  \<^verbatim>\<open>h2\<close> holds an element with the footnotes section inside, and a wrapper whose
  \<^verbatim>\<open>h3\<close> has the class \<^verbatim>\<open>mod-footer\<close>.
\<close>

definition footnotedHeading :: dnode where
  "footnotedHeading =
     El 3 (plain ''DIV'' [])
       [El 13 (plain ''H2'' [])
          [Txt ''B'', El 23 (plain ''SPAN'' []) [El 33 (plain ''SECTION'' [''footnotes'']) []]]]"

definition footerHeading :: dnode where
  "footerHeading = El 5 (plain ''DIV'' []) [El 15 (plain ''H3'' [''mod-footer'']) [Txt ''C'']]"

definition markedDocument :: dnode where
  "markedDocument = El 0 (plain ''DIV'' [''markdown-sizer''])
     [sectionDiv 1 ''H1'' ''A'', sectionDiv 2 ''P'' ''a'', footnotedHeading,
      sectionDiv 4 ''P'' ''b'', footerHeading, sectionDiv 6 ''P'' ''c'']"

text \<open>
  A note with one heading and one paragraph, followed by the block that holds its
  footnotes and by the footer of the document; neither wraps a heading.
\<close>

definition footnotesBlock :: dnode where
  "footnotesBlock =
     El 3 (plain ''DIV'' [''el-section''])
       [El 13 (plain ''SECTION'' [''footnotes'']) [Txt ''1. a note'']]"

definition footerBlock :: dnode where
  "footerBlock =
     El 4 (plain ''DIV'' [''mod-footer'']) [El 14 (plain ''DIV'' [''backlinks'']) [Txt ''Links'']]"

definition footedDocument :: dnode where
  "footedDocument = El 0 (plain ''DIV'' [''markdown-sizer''])
     [sectionDiv 1 ''H1'' ''A'', sectionDiv 2 ''P'' ''a'', footnotesBlock, footerBlock]"

text \<open>
  A rendered note with a tag link, a text input the reader has typed into, and an image
  with a hard-coded width; the page it is rendered in resolves relative links against
  \<^verbatim>\<open>app://obsidian.md/index.html\<close>.
\<close>

definition tagLink :: elem where
  "tagLink = \<lparr>tag = ''A'', classNames = [''tag''], attributes = [(''href'', ''#todo'')],
               inlineStyle = [], liveValue = []\<rparr>"

definition typedInput :: elem where
  "typedInput = \<lparr>tag = ''INPUT'', classNames = [], attributes = [(''type'', ''text'')],
                  inlineStyle = [], liveValue = ''milk''\<rparr>"

definition taggedNote :: dnode where
  "taggedNote =
     El 0 (plain ''DIV'' [''markdown-preview-view''])
       [El 1 tagLink [Txt ''#todo''],
        El 2 typedInput [],
        El 3 \<lparr>tag = ''IMG'', classNames = [],
              attributes = [(''src'', ''cat.png''), (''width'', ''300'')],
              inlineStyle = [], liveValue = []\<rparr> []]"

definition vaultPage :: surroundings where
  "vaultPage = \<lparr>resolveHref = (\<lambda>a. ''app://obsidian.md/index.html'' @ a),
                 renderedText = (\<lambda>s. s), rootAttached = True\<rparr>"

text \<open>The same note after one run of the post-processor.\<close>

definition processedNote :: dnode where
  "processedNote =
     El 0 (plain ''DIV'' [''markdown-preview-view'', ''obsidian-document''])
       [El 1 \<lparr>tag = ''A'', classNames = [''tag''],
              attributes = [(''href'', ''?query=tag:todo''), (''data-href'', ''#todo'')],
              inlineStyle = [], liveValue = []\<rparr> [Txt ''#todo''],
        El 2 \<lparr>tag = ''INPUT'', classNames = [],
              attributes = [(''type'', ''text''), (''value'', ''milk'')],
              inlineStyle = [], liveValue = []\<rparr> [],
        El 3 \<lparr>tag = ''IMG'', classNames = [], attributes = [(''src'', ''cat.png'')],
              inlineStyle = [(''width'', ''300px''), (''max-width'', ''100%'')],
              liveValue = []\<rparr> []]"
lemma pollBudget_reaches:
  assumes "0 < interval"
  shows "timeout \<le> pollBudget timeout interval * interval"
proof -
  let ?q = "(timeout + interval - 1) div interval"
  have "?q * interval + (timeout + interval - 1) mod interval = timeout + interval - 1"
    by simp
  moreover have "(timeout + interval - 1) mod interval < interval"
    using assms by simp
  ultimately have "timeout \<le> ?q * interval" using assms by linarith
  also have "\<dots> \<le> max 1 ?q * interval" by (simp add: mult_le_mono1)
  finally show ?thesis by (simp add: pollBudget_def)
qed

lemma pollBudget_tight:
  assumes "0 < interval" "0 < timeout"
  shows "(pollBudget timeout interval - 1) * interval < timeout"
proof -
  let ?q = "(timeout + interval - 1) div interval"
  have le: "?q * interval \<le> timeout + interval - 1" by (rule div_times_less_eq_dividend)
  show ?thesis
  proof (cases "?q \<le> 1")
    case True
    then have "pollBudget timeout interval = 1" by (simp add: pollBudget_def max_def)
    then show ?thesis using assms by simp
  next
    case False
    then have "pollBudget timeout interval = ?q" by (simp add: pollBudget_def max_def)
    then have "(pollBudget timeout interval - 1) * interval = ?q * interval - interval"
      by (simp add: diff_mult_distrib)
    also have "\<dots> \<le> (timeout + interval - 1) - interval"
      using le by (rule diff_le_mono)
    also have "\<dots> < timeout" using assms by simp
    finally show ?thesis .
  qed
qed

lemma pollBudget_zero: "0 < interval \<Longrightarrow> pollBudget 0 interval = 1"
  by (simp add: pollBudget_def)

lemma pollBudget_pos: "0 < pollBudget timeout interval"
  by (simp add: pollBudget_def)

lemma pollLoop_true:
  assumes "0 < interval" "condAt c h interval s m" "k < m" "(m - 1) * interval < timeout \<or> m = 1"
    and "\<And>j. k < j \<Longrightarrow> j < m \<Longrightarrow> \<not> condAt c h interval s j"
  shows "pollLoop c h timeout interval k (k * interval) (snd (c (pollState c h interval s k)))
         = Some (True, m, snd (c (pollState c h interval s m)))"
  using assms
proof (induction "m - k" arbitrary: k)
  case 0
  then show ?case by simp
next
  case (Suc d)
  show ?case
  proof (cases "m = Suc k")
    case True
    show ?thesis
      unfolding True using Suc.prems(2)
      by (subst pollLoop.simps) (simp add: condAt_def True)
  next
    case False
    with Suc.prems have lt: "Suc k < m" by simp
    then have nc: "\<not> condAt c h interval s (Suc k)" using Suc.prems by simp
    have "Suc k \<le> m - 1" using lt by simp
    then have "Suc k * interval \<le> (m - 1) * interval" by (rule mult_le_mono1)
    moreover have "(m - 1) * interval < timeout" using Suc.prems(4) lt by auto
    ultimately have nt: "\<not> timeout \<le> k * interval + interval" by simp
    have ih: "pollLoop c h timeout interval (Suc k) (Suc k * interval)
        (snd (c (pollState c h interval s (Suc k)))) = Some (True, m, snd (c (pollState c h interval s m)))"
      using Suc.hyps(1)[of "Suc k"] Suc.hyps(2) Suc.prems lt by simp
    show ?thesis
      using nc nt ih by (subst pollLoop.simps) (simp add: condAt_def add.commute)
  qed
qed

lemma pollLoop_false:
  assumes "0 < interval" "k < n" "timeout \<le> n * interval" "(n - 1) * interval < timeout \<or> n = 1"
    and "\<And>j. k < j \<Longrightarrow> j \<le> n \<Longrightarrow> \<not> condAt c h interval s j"
  shows "pollLoop c h timeout interval k (k * interval) (snd (c (pollState c h interval s k)))
         = Some (False, n, snd (c (pollState c h interval s n)))"
  using assms
proof (induction "n - k" arbitrary: k)
  case 0
  then show ?case by simp
next
  case (Suc d)
  have nc: "\<not> condAt c h interval s (Suc k)" using Suc.prems by simp
  show ?case
  proof (cases "n = Suc k")
    case True
    have "timeout \<le> k * interval + interval" using Suc.prems(3) by (simp add: True add.commute)
    then show ?thesis
      unfolding True using nc
      by (subst pollLoop.simps) (simp add: condAt_def)
  next
    case False
    with Suc.prems have lt: "Suc k < n" by simp
    then have n1: "(n - 1) * interval < timeout" using Suc.prems(4) by auto
    have "Suc k \<le> n - 1" using lt by simp
    then have "Suc k * interval \<le> (n - 1) * interval" by (rule mult_le_mono1)
    then have nt: "\<not> timeout \<le> k * interval + interval" using n1 by simp
    have ih: "pollLoop c h timeout interval (Suc k) (Suc k * interval)
        (snd (c (pollState c h interval s (Suc k)))) = Some (False, n, snd (c (pollState c h interval s n)))"
      using Suc.hyps(1)[of "Suc k"] Suc.hyps(2) Suc.prems lt by simp
    show ?thesis
      using nc nt ih by (subst pollLoop.simps) (simp add: condAt_def add.commute)
  qed
qed

lemma waitUntil_resolves_true:
  assumes "0 < interval" "condAt c h interval s m" "m = 0 \<or> (m - 1) * interval < timeout \<or> m = 1"
    and "\<And>j. j < m \<Longrightarrow> \<not> condAt c h interval s j"
  shows "waitUntil c h timeout interval s = Some (True, m, snd (c (pollState c h interval s m)))"
proof (cases "m = 0")
  case True
  then show ?thesis using assms(2) by (simp add: waitUntil_def condAt_def)
next
  case False
  then have m: "0 < m" by simp
  then have n0: "\<not> fst (c s)" using assms(4)[of 0] by (simp add: condAt_def)
  have "pollLoop c h timeout interval 0 (0 * interval) (snd (c (pollState c h interval s 0)))
        = Some (True, m, snd (c (pollState c h interval s m)))"
    using assms False m by (intro pollLoop_true) auto
  then show ?thesis using n0 by (simp add: waitUntil_def)
qed

lemma waitUntil_resolves_false:
  assumes "0 < interval" "\<And>j. j \<le> pollBudget timeout interval \<Longrightarrow> \<not> condAt c h interval s j"
  shows "waitUntil c h timeout interval s =
         Some (False, pollBudget timeout interval,
               snd (c (pollState c h interval s (pollBudget timeout interval))))"
proof -
  let ?n = "pollBudget timeout interval"
  have n0: "\<not> fst (c s)" using assms(2)[of 0] by (simp add: condAt_def)
  have tight: "(?n - 1) * interval < timeout \<or> ?n = 1"
  proof (cases "timeout = 0")
    case True
    then have "?n = 1" using assms(1) by (simp add: pollBudget_zero)
    then show ?thesis by simp
  next
    case False
    then show ?thesis using pollBudget_tight[OF assms(1), of timeout] by simp
  qed
  have "pollLoop c h timeout interval 0 (0 * interval) (snd (c (pollState c h interval s 0)))
        = Some (False, ?n, snd (c (pollState c h interval s ?n)))"
    using assms pollBudget_pos[of timeout interval] pollBudget_reaches[OF assms(1), of timeout] tight
    by (intro pollLoop_false) auto
  then show ?thesis using n0 by (simp add: waitUntil_def)
qed

lemma pollBudget_within:
  assumes "0 < interval"
  shows "pollBudget timeout interval * interval \<le> timeout + interval"
proof (cases "timeout = 0")
  case True
  then show ?thesis using assms by (simp add: pollBudget_zero)
next
  case False
  let ?n = "pollBudget timeout interval"
  have "?n * interval = (?n - 1) * interval + interval"
    using pollBudget_pos[of timeout interval] by (cases ?n) simp_all
  then show ?thesis using pollBudget_tight[OF assms, of timeout] False by simp
qed

text \<open>
  Claim C5. For a positive polling interval (every call site passes 1 or 10 ms):
  if the condition holds at the call, \<open>waitUntil\<close> resolves to true at once and no timer
  callback runs; if the condition first holds at the \<open>k\<close>-th callback and the
  accumulated \<^verbatim>\<open>timer\<close> is then still below the timeout, it resolves to true at that
  callback; if the condition holds at no evaluation up to the callback at which the
  accumulated time reaches the timeout, it resolves to false at that callback, whose time
  is at least the timeout and at most one interval more; and in every case the promise is
  settled with a value: the model has no rejection, the source never calls
  \<^verbatim>\<open>reject\<close>, and a result exists. The elapsed time at the \<open>k\<close>-th callback is
  \<open>k * interval\<close>.
\<close>

theorem waitUntil_contract:
  assumes "0 < interval"
  shows "(condAt c h interval s 0 \<longrightarrow>
            waitUntil c h timeout interval s = Some (True, 0, snd (c s)))
       \<and> (0 < k \<and> (k - 1) * interval < timeout \<and> condAt c h interval s k
            \<and> (\<forall>j<k. \<not> condAt c h interval s j) \<longrightarrow>
            waitUntil c h timeout interval s = Some (True, k, snd (c (pollState c h interval s k))))
       \<and> ((\<forall>j\<le>pollBudget timeout interval. \<not> condAt c h interval s j) \<longrightarrow>
            waitUntil c h timeout interval s =
              Some (False, pollBudget timeout interval,
                    snd (c (pollState c h interval s (pollBudget timeout interval))))
            \<and> timeout \<le> pollBudget timeout interval * interval
            \<and> pollBudget timeout interval * interval \<le> timeout + interval)
       \<and> (\<exists>r. waitUntil c h timeout interval s = Some r)"
proof (intro conjI impI)
  assume "condAt c h interval s 0"
  then show "waitUntil c h timeout interval s = Some (True, 0, snd (c s))"
    by (simp add: waitUntil_def condAt_def)
next
  assume a: "0 < k \<and> (k - 1) * interval < timeout \<and> condAt c h interval s k
            \<and> (\<forall>j<k. \<not> condAt c h interval s j)"
  then show "waitUntil c h timeout interval s = Some (True, k, snd (c (pollState c h interval s k)))"
    using assms by (intro waitUntil_resolves_true) auto
next
  assume a: "\<forall>j\<le>pollBudget timeout interval. \<not> condAt c h interval s j"
  then show "waitUntil c h timeout interval s =
              Some (False, pollBudget timeout interval,
                    snd (c (pollState c h interval s (pollBudget timeout interval))))"
    using assms by (intro waitUntil_resolves_false) auto
next
  show "timeout \<le> pollBudget timeout interval * interval"
    using assms by (rule pollBudget_reaches)
next
  show "pollBudget timeout interval * interval \<le> timeout + interval"
    using assms by (rule pollBudget_within)
next
  let ?n = "pollBudget timeout interval"
  show "\<exists>r. waitUntil c h timeout interval s = Some r"
  proof (cases "\<exists>j\<le>?n. condAt c h interval s j")
    case True
    define m where "m = (LEAST j. condAt c h interval s j)"
    from True obtain j where j: "j \<le> ?n" "condAt c h interval s j" by blast
    have cm: "condAt c h interval s m" unfolding m_def using j(2) by (rule LeastI)
    have mj: "m \<le> j" unfolding m_def using j(2) by (rule Least_le)
    have mn: "\<And>i. i < m \<Longrightarrow> \<not> condAt c h interval s i"
      unfolding m_def by (rule not_less_Least)
    have "m = 0 \<or> (m - 1) * interval < timeout \<or> m = 1"
    proof (cases "timeout = 0")
      case True
      then have "?n = 1" using assms(1) by (simp add: pollBudget_zero)
      then show ?thesis using mj j(1) by auto
    next
      case False
      have "m - 1 \<le> ?n - 1" using mj j(1) by simp
      then have "(m - 1) * interval \<le> (?n - 1) * interval" by (rule mult_le_mono1)
      moreover have "(?n - 1) * interval < timeout"
        using pollBudget_tight[OF assms, of timeout] False by simp
      ultimately have "(m - 1) * interval < timeout" by (rule le_less_trans)
      then show ?thesis by simp
    qed
    then show ?thesis using waitUntil_resolves_true[OF assms cm _ mn] by blast
  next
    case False
    then show ?thesis using waitUntil_resolves_false[OF assms, of timeout c h s] by blast
  qed
qed

text \<open>The contract at three concrete conditions over an elapsed-time state.\<close>

theorem waitUntil_contract_witness:
  "waitUntil (\<lambda>n::nat. (True, n)) (\<lambda>d n. n + d) 2000 1 0 = Some (True, 0, 0)
   \<and> waitUntil (\<lambda>n::nat. (6 \<le> n, n)) (\<lambda>d n. n + d) 10 2 0 = Some (True, 3, 6)
   \<and> waitUntil (\<lambda>n::nat. (False, n)) (\<lambda>d n. n + d) 5 2 0 = Some (False, 3, 6)"
proof -
  have ps: "\<And>c k. pollState (\<lambda>n::nat. (c n, n)) (\<lambda>d n. n + d) 2 0 k = 2 * k"
    subgoal for c k by (induction k) simp_all
    done
  have a: "waitUntil (\<lambda>n::nat. (True, n)) (\<lambda>d n. n + d) 2000 1 0 = Some (True, 0, 0)"
    using waitUntil_contract[of 1 "\<lambda>n::nat. (True, n)" "\<lambda>d n. n + d" 0 2000 1]
    by (simp add: condAt_def)
  have b: "waitUntil (\<lambda>n::nat. (6 \<le> n, n)) (\<lambda>d n. n + d) 10 2 0 = Some (True, 3, 6)"
    using waitUntil_contract[of 2 "\<lambda>n::nat. (6 \<le> n, n)" "\<lambda>d n. n + d" 0 10 3]
    by (simp add: condAt_def ps)
  have c: "waitUntil (\<lambda>n::nat. (False, n)) (\<lambda>d n. n + d) 5 2 0 = Some (False, 3, 6)"
    using waitUntil_contract[of 2 "\<lambda>n::nat. (False, n)" "\<lambda>d n. n + d" 0 5]
    by (simp add: condAt_def ps pollBudget_def)
  show ?thesis using a b c by simp
qed

section \<open>Properties of the batch session\<close>

lemma waitUntil_stuck:
  assumes "0 < interval" "P s"
    and c: "\<And>x. P x \<Longrightarrow> c x = (False, x)"
    and h: "\<And>x. P x \<Longrightarrow> P (h interval x)"
  shows "\<exists>s'. waitUntil c h timeout interval s = Some (False, pollBudget timeout interval, s') \<and> P s'"
proof -
  have ps: "P (pollState c h interval s k)" for k
  proof (induction k)
    case 0
    then show ?case using assms(2) by simp
  next
    case (Suc k)
    then show ?case using c h by simp
  qed
  have nc: "\<not> condAt c h interval s j" for j
    using c[OF ps[of j]] by (simp add: condAt_def)
  have "waitUntil c h timeout interval s =
         Some (False, pollBudget timeout interval,
               snd (c (pollState c h interval s (pollBudget timeout interval))))"
    using assms(1) nc by (intro waitUntil_resolves_false) auto
  moreover have "P (snd (c (pollState c h interval s (pollBudget timeout interval))))"
    using c[OF ps[of "pollBudget timeout interval"]] ps[of "pollBudget timeout interval"] by simp
  ultimately show ?thesis by blast
qed

lemma waitUntil_now: "fst (c s) \<Longrightarrow> waitUntil c h timeout interval s = Some (True, 0, snd (c s))"
  by (simp add: waitUntil_def)

lemma endBatch_inactive: "\<not> batchStarted w \<Longrightarrow> endBatch w = w"
  by (simp add: endBatch_def)

lemma endBatch_clears:
  "batchStarted w \<Longrightarrow>
     \<not> batchStarted (endBatch w) \<and> renderLeaf (endBatch w) = None
     \<and> electronWindow (endBatch w) = None \<and> loadingContainer (endBatch w) = None
     \<and> fileListContainer (endBatch w) = None"
  by (simp add: endBatch_def Let_def)

lemma endBatch_not_started [simp]: "\<not> batchStarted (endBatch w)"
  by (cases "batchStarted w") (simp_all add: endBatch_clears endBatch_inactive)

lemma log_fields [simp]:
  "batchStarted (ExportLog_log m t w) = batchStarted w"
  "renderLeaf (ExportLog_log m t w) = renderLeaf w"
  "cancelled (ExportLog_log m t w) = cancelled w"
  "errorInBatch (ExportLog_log m t w) = errorInBatch w"
  "effects (ExportLog_log m t w) = effects w"
  by (simp_all add: ExportLog_log_def reportInfo_def Let_def)

lemma warning_fields [simp]:
  "batchStarted (ExportLog_warning m t w) = batchStarted w"
  "renderLeaf (ExportLog_warning m t w) = renderLeaf w"
  "cancelled (ExportLog_warning m t w) = cancelled w"
  "errorInBatch (ExportLog_warning m t w) = errorInBatch w"
  "effects (ExportLog_warning m t w) = effects w"
  by (simp_all add: ExportLog_warning_def reportWarning_def Let_def)

lemma error_fields [simp]:
  "batchStarted (ExportLog_error m t f w) = batchStarted w"
  "renderLeaf (ExportLog_error m t f w) = renderLeaf w"
  "cancelled (ExportLog_error m t f w) = cancelled w"
  "effects (ExportLog_error m t f w) = effects w"
  by (simp_all add: ExportLog_error_def reportError_def Let_def)

lemma endBatch_detaches:
  "batchStarted w \<Longrightarrow> renderLeaf w \<noteq> None \<Longrightarrow> \<not> errorInBatch w \<Longrightarrow>
     effects (endBatch w) = effects w @ [Detached]"
  by (auto simp: endBatch_def Let_def)

lemma endBatch_leaves_open:
  "batchStarted w \<Longrightarrow> renderLeaf w = Some l \<Longrightarrow> errorInBatch w \<Longrightarrow>
     effects (endBatch w) = effects w @
       (if parent l \<and> grandparent l \<and> progressWrapper l
        then [ProgressShown 1 ''Completed with errors'' ''Please see the log for more details.'' errorColor]
        else [])"
  by (auto simp: endBatch_def Let_def reportProgress_def)

lemma endBatch_leafless:
  "batchStarted w \<Longrightarrow> renderLeaf w = None \<Longrightarrow>
     effects (endBatch w) = effects w \<and> fullLog (endBatch w) = fullLog w
     \<and> pendingReports (endBatch w) = pendingReports w"
  by (simp add: endBatch_def Let_def)

lemma endBatch_logs_closing:
  "batchStarted w \<Longrightarrow> renderLeaf w \<noteq> None \<Longrightarrow> \<not> errorInBatch w \<Longrightarrow>
     fullLog (endBatch w) = fullLog w @ logToString (Str ''Closing render window'') ''[INFO] ''"
  by (auto simp: endBatch_def Let_def ExportLog_log_def reportInfo_def)

lemma endBatch_logs_leaving:
  "batchStarted w \<Longrightarrow> renderLeaf w \<noteq> None \<Longrightarrow> errorInBatch w \<Longrightarrow>
     fullLog (endBatch w) =
       fullLog w @ logToString (Str ''Error in batch, leaving render window open'') ''[WARNING] ''"
  by (auto simp: endBatch_def Let_def ExportLog_warning_def reportWarning_def reportProgress_def
        split: option.splits)

text \<open>
  Claim C7, as amended. \<open>endBatch\<close> does nothing when no batch is started. On a started
  batch that still holds a leaf it logs and detaches the leaf when no error occurred; when
  an error occurred it detaches nothing, logs a warning and reports the progress state
  "Completed with errors" (shown when the window holds the progress widget, as
  \<^verbatim>\<open>_reportProgress\<close> requires). On a started batch that holds no leaf any more, as after
  a fatal error, it neither detaches nor reports nor logs, whether or not an error
  occurred. In every branch of a started batch the session is inactive afterwards:
  \<open>batchStarted\<close> is false and \<open>renderLeaf\<close> and \<open>electronWindow\<close> are absent.
\<close>

theorem endBatch_contract:
  "(\<not> batchStarted w \<longrightarrow> endBatch w = w)
   \<and> (batchStarted w \<and> renderLeaf w \<noteq> None \<and> \<not> errorInBatch w \<longrightarrow>
        effects (endBatch w) = effects w @ [Detached]
        \<and> fullLog (endBatch w) = fullLog w @ logToString (Str ''Closing render window'') ''[INFO] '')
   \<and> (batchStarted w \<and> renderLeaf w = Some l \<and> errorInBatch w \<longrightarrow>
        effects (endBatch w) = effects w @
          (if parent l \<and> grandparent l \<and> progressWrapper l
           then [ProgressShown 1 ''Completed with errors''
                   ''Please see the log for more details.'' errorColor]
           else [])
        \<and> fullLog (endBatch w) =
            fullLog w @ logToString (Str ''Error in batch, leaving render window open'')
                          ''[WARNING] '')
   \<and> (batchStarted w \<and> renderLeaf w = None \<longrightarrow>
        effects (endBatch w) = effects w \<and> fullLog (endBatch w) = fullLog w
        \<and> pendingReports (endBatch w) = pendingReports w)
   \<and> (batchStarted w \<longrightarrow>
        \<not> batchStarted (endBatch w) \<and> renderLeaf (endBatch w) = None
        \<and> electronWindow (endBatch w) = None)"
proof (intro conjI impI)
  assume "\<not> batchStarted w"
  then show "endBatch w = w" by (rule endBatch_inactive)
next
  assume a: "batchStarted w \<and> renderLeaf w \<noteq> None \<and> \<not> errorInBatch w"
  then show "effects (endBatch w) = effects w @ [Detached]"
    by (intro endBatch_detaches) simp_all
  from a show "fullLog (endBatch w)
                 = fullLog w @ logToString (Str ''Closing render window'') ''[INFO] ''"
    by (intro endBatch_logs_closing) simp_all
next
  assume a: "batchStarted w \<and> renderLeaf w = Some l \<and> errorInBatch w"
  then show "effects (endBatch w) = effects w @
          (if parent l \<and> grandparent l \<and> progressWrapper l
           then [ProgressShown 1 ''Completed with errors''
                   ''Please see the log for more details.'' errorColor]
           else [])"
    by (intro endBatch_leaves_open) simp_all
  from a show "fullLog (endBatch w) =
            fullLog w @ logToString (Str ''Error in batch, leaving render window open'')
                          ''[WARNING] ''"
    by (intro endBatch_logs_leaving) simp_all
next
  assume a: "batchStarted w \<and> renderLeaf w = None"
  then show "effects (endBatch w) = effects w" "fullLog (endBatch w) = fullLog w"
    "pendingReports (endBatch w) = pendingReports w"
    using endBatch_leafless[of w] by simp_all
next
  assume a: "batchStarted w"
  then show "\<not> batchStarted (endBatch w)" "renderLeaf (endBatch w) = None"
    "electronWindow (endBatch w) = None"
    using endBatch_clears[of w] by simp_all
qed

text \<open>
  The four branches at the inactive session, at the active one, at the active one with an
  error recorded, and at the session a fatal error leaves.
\<close>

theorem endBatch_contract_witness:
  "endBatch inactiveWorld = inactiveWorld
   \<and> effects (endBatch activeWorld) = [Detached]
   \<and> fullLog (endBatch activeWorld) = ''[INFO] '' @ [CHR 0x09] @ ''Closing render window'' @ [CHR 0x0A]
   \<and> effects (endBatch (activeWorld\<lparr>errorInBatch := True\<rparr>)) =
       [ProgressShown 1 ''Completed with errors'' ''Please see the log for more details.'' errorColor]
   \<and> fullLog (endBatch (activeWorld\<lparr>errorInBatch := True\<rparr>)) =
       ''[WARNING] '' @ [CHR 0x09] @ ''Error in batch, leaving render window open'' @ [CHR 0x0A]
   \<and> effects (endBatch afterFatalError) = effects afterFatalError
   \<and> fullLog (endBatch afterFatalError) = fullLog afterFatalError
   \<and> \<not> batchStarted (endBatch activeWorld) \<and> renderLeaf (endBatch activeWorld) = None
   \<and> electronWindow (endBatch activeWorld) = None
   \<and> \<not> batchStarted (endBatch afterFatalError) \<and> renderLeaf (endBatch afterFatalError) = None
   \<and> electronWindow (endBatch afterFatalError) = None"
proof -
  have a: "endBatch inactiveWorld = inactiveWorld"
    using endBatch_contract[of inactiveWorld] by (simp add: inactiveWorld_def)
  have b: "effects (endBatch activeWorld) = [Detached]
      \<and> fullLog (endBatch activeWorld)
          = ''[INFO] '' @ [CHR 0x09] @ ''Closing render window'' @ [CHR 0x0A]
      \<and> \<not> batchStarted (endBatch activeWorld) \<and> renderLeaf (endBatch activeWorld) = None
      \<and> electronWindow (endBatch activeWorld) = None"
    using endBatch_contract[of activeWorld]
    by (simp add: activeWorld_def inactiveWorld_def logToString_def)
  have c: "effects (endBatch (activeWorld\<lparr>errorInBatch := True\<rparr>)) =
       [ProgressShown 1 ''Completed with errors'' ''Please see the log for more details.'' errorColor]
      \<and> fullLog (endBatch (activeWorld\<lparr>errorInBatch := True\<rparr>)) =
       ''[WARNING] '' @ [CHR 0x09] @ ''Error in batch, leaving render window open'' @ [CHR 0x0A]"
    using endBatch_contract[of "activeWorld\<lparr>errorInBatch := True\<rparr>" dockedLeaf]
    by (simp add: activeWorld_def inactiveWorld_def dockedLeaf_def logToString_def)
  have f: "batchStarted afterFatalError \<and> renderLeaf afterFatalError = None"
    by (simp add: afterFatalError_def activeWorld_def inactiveWorld_def dockedLeaf_def
          resumeReport_def appendLogEl_def ExportLog_error_def reportError_def Let_def)
  have d: "effects (endBatch afterFatalError) = effects afterFatalError
      \<and> fullLog (endBatch afterFatalError) = fullLog afterFatalError
      \<and> \<not> batchStarted (endBatch afterFatalError) \<and> renderLeaf (endBatch afterFatalError) = None
      \<and> electronWindow (endBatch afterFatalError) = None"
    using endBatch_contract[of afterFatalError] f by simp
  show ?thesis using a b c d by simp
qed

text \<open>
  The claim C7 as stated fails in the session a fatal error leaves: the reporter has set
  \<open>errorInBatch\<close> and, being fatal, has dropped the leaf; the batch is still started.
  \<open>endBatch\<close> then reports no progress state: the window has been shown the log entry of
  the error and nothing after it.
\<close>

theorem endBatch_silent_after_fatal_error:
  "batchStarted afterFatalError \<and> errorInBatch afterFatalError
   \<and> renderLeaf afterFatalError = None
   \<and> effects afterFatalError =
       [WindowResized 1000 500, LogElAppended ''[FATAL ERROR] x'' (Str ''boom'')]
   \<and> effects (endBatch afterFatalError) =
       [WindowResized 1000 500, LogElAppended ''[FATAL ERROR] x'' (Str ''boom'')]"
  by (simp add: afterFatalError_def activeWorld_def inactiveWorld_def dockedLeaf_def
        resumeReport_def appendLogEl_def ExportLog_error_def reportError_def endBatch_def Let_def)

lemma reportError_sets: "batchStarted w \<Longrightarrow> errorInBatch (reportError t m f w)"
  by (simp add: reportError_def)

lemma resumeReport_fields [simp]:
  "errorInBatch (resumeReport found r w) = errorInBatch w"
  "batchStarted (resumeReport found r w) = batchStarted w"
  "cancelled (resumeReport found r w) = cancelled w"
  by (auto simp: resumeReport_def appendLogEl_def Let_def split: report.splits)

lemma resumeReport_leaf:
  "renderLeaf (resumeReport found (ErrorReport t m False) w) = renderLeaf w"
  by (auto simp: resumeReport_def appendLogEl_def Let_def)

lemma failRender_error:
  assumes "batchStarted w" "renderLeaf w = Some l" "\<not> cancelled w"
    "\<not> settingsLoaded w \<or> List.member [''error'', ''warning'', ''all''] (logLevel w)"
  shows "errorInBatch (failRender p m w) \<and> batchStarted (failRender p m w)
         \<and> renderLeaf (failRender p m w) = Some l \<and> effects (failRender p m w) = effects w"
  using assms
  by (auto simp: failRender_def checkCancelled_def ExportLog_error_def reportError_def Let_def)


lemma error_sets_flag:
  assumes "batchStarted w"
    "\<not> settingsLoaded w \<or> List.member [''error'', ''warning'', ''all''] (logLevel w)"
  shows "errorInBatch (ExportLog_error m t False w)"
  using assms by (auto simp: ExportLog_error_def reportError_def Let_def)

lemma resumeReport_effects_nonfatal:
  "Detached \<in> set (effects (resumeReport found r w)) \<longleftrightarrow> Detached \<in> set (effects w)"
  by (auto simp: resumeReport_def appendLogEl_def Let_def split: report.splits)

text \<open>
  Claim C10. During a started batch \<^verbatim>\<open>_reportError\<close> sets \<open>errorInBatch\<close>, fatal or
  not. Consequently, in a batch without an earlier error (whose \<open>endBatch\<close> would detach
  the leaf), one non-fatal error that the log level lets through makes the following
  \<open>endBatch\<close>, also after the reporter has finished, detach nothing and report
  "Completed with errors".
\<close>

theorem error_keeps_window_open:
  "(batchStarted w \<longrightarrow> errorInBatch (reportError title msg fatal w))
   \<and> (batchStarted w \<and> renderLeaf w = Some l \<and> \<not> errorInBatch w
       \<and> (\<not> settingsLoaded w \<or> List.member [''error'', ''warning'', ''all''] (logLevel w)) \<longrightarrow>
        effects (endBatch w) = effects w @ [Detached]
        \<and> (let w' = resumeReport found (ErrorReport t m False) (ExportLog_error msg title False w)
           in effects (endBatch w') = effects w' @
                (if parent l \<and> grandparent l \<and> progressWrapper l
                 then [ProgressShown 1 ''Completed with errors''
                         ''Please see the log for more details.'' errorColor]
                 else [])
              \<and> (Detached \<in> set (effects w') \<longleftrightarrow> Detached \<in> set (effects w))))"
proof (intro conjI impI)
  assume "batchStarted w"
  then show "errorInBatch (reportError title msg fatal w)" by (rule reportError_sets)
next
  assume a: "batchStarted w \<and> renderLeaf w = Some l \<and> \<not> errorInBatch w
       \<and> (\<not> settingsLoaded w \<or> List.member [''error'', ''warning'', ''all''] (logLevel w))"
  then show "effects (endBatch w) = effects w @ [Detached]"
    by (intro endBatch_detaches) auto
  define w' where "w' = resumeReport found (ErrorReport t m False) (ExportLog_error msg title False w)"
  have e: "errorInBatch w'" unfolding w'_def using a error_sets_flag[of w msg title] by simp
  have b: "batchStarted w'" unfolding w'_def using a by simp
  have l: "renderLeaf w' = Some l" unfolding w'_def using a by (simp add: resumeReport_leaf)
  have d: "Detached \<in> set (effects w') \<longleftrightarrow> Detached \<in> set (effects w)"
    unfolding w'_def by (simp add: resumeReport_effects_nonfatal)
  show "let w' = resumeReport found (ErrorReport t m False) (ExportLog_error msg title False w)
           in effects (endBatch w') = effects w' @
                (if parent l \<and> grandparent l \<and> progressWrapper l
                 then [ProgressShown 1 ''Completed with errors''
                         ''Please see the log for more details.'' errorColor]
                 else [])
              \<and> (Detached \<in> set (effects w') \<longleftrightarrow> Detached \<in> set (effects w))"
    using endBatch_leaves_open[OF b l e] d unfolding w'_def Let_def by simp
qed

text \<open>The same at the active example session.\<close>

theorem error_keeps_window_open_witness:
  "errorInBatch (reportError ''[ERROR] x'' (Str ''boom'') False activeWorld)
   \<and> errorInBatch (reportError ''[FATAL ERROR] x'' (Str ''boom'') True activeWorld)
   \<and> effects (endBatch activeWorld) = [Detached]
   \<and> effects (endBatch (resumeReport True (ErrorReport ''[ERROR] x'' (Str ''boom'') False)
                          (ExportLog_error (Str ''boom'') ''x'' False activeWorld))) =
       [WindowResized 1000 500, LogElAppended ''[ERROR] x'' (Str ''boom''),
        ProgressShown 1 ''Completed with errors'' ''Please see the log for more details.'' errorColor]"
proof -
  have a: "errorInBatch (reportError ''[ERROR] x'' (Str ''boom'') False activeWorld)"
    using error_keeps_window_open[where w = activeWorld and title = "''[ERROR] x''"
        and msg = "Str ''boom''" and fatal = False]
    by (simp add: activeWorld_def inactiveWorld_def)
  have b: "errorInBatch (reportError ''[FATAL ERROR] x'' (Str ''boom'') True activeWorld)"
    using error_keeps_window_open[where w = activeWorld and title = "''[FATAL ERROR] x''"
        and msg = "Str ''boom''" and fatal = True]
    by (simp add: activeWorld_def inactiveWorld_def)
  have c: "effects (endBatch activeWorld) = [Detached]
     \<and> effects (endBatch (resumeReport True (ErrorReport ''[ERROR] x'' (Str ''boom'') False)
                          (ExportLog_error (Str ''boom'') ''x'' False activeWorld))) =
       [WindowResized 1000 500, LogElAppended ''[ERROR] x'' (Str ''boom''),
        ProgressShown 1 ''Completed with errors'' ''Please see the log for more details.'' errorColor]"
    using error_keeps_window_open[where w = activeWorld and l = dockedLeaf and found = True
        and t = "''[ERROR] x''" and m = "Str ''boom''" and msg = "Str ''boom''" and title = "''x''"]
    by (simp add: activeWorld_def inactiveWorld_def dockedLeaf_def Let_def
        resumeReport_def appendLogEl_def ExportLog_error_def reportError_def)
  show ?thesis using a b c by simp
qed

lemma checkCancelled_iff: "fst (checkCancelled w) \<longleftrightarrow> cancelled w \<or> renderLeaf w = None"
  by (simp add: checkCancelled_def)

lemma checkCancelled_true:
  "fst (checkCancelled w) \<Longrightarrow> snd (checkCancelled w) = endBatch (ExportLog_log (Str ''cancelled'') [] w)"
  by (auto simp: checkCancelled_def)

lemma checkCancelled_false: "\<not> fst (checkCancelled w) \<Longrightarrow> snd (checkCancelled w) = w"
  by (auto simp: checkCancelled_def)

lemma endBatch_keeps_cancelled [simp]: "cancelled (endBatch w) = cancelled w"
  by (simp add: endBatch_def Let_def reportProgress_def split: option.splits)

lemma endBatch_leaf_None: "renderLeaf w = None \<Longrightarrow> renderLeaf (endBatch w) = None"
  by (simp add: endBatch_def Let_def)

lemma checkCancelled_settles:
  assumes "fst (checkCancelled w)"
  shows "settled (snd (checkCancelled w))"
proof -
  have s: "snd (checkCancelled w) = endBatch (ExportLog_log (Str ''cancelled'') [] w)"
    using assms by (rule checkCancelled_true)
  have c: "cancelled w \<or> renderLeaf w = None" using assms by (simp add: checkCancelled_iff)
  show ?thesis
  proof (cases "batchStarted w")
    case True
    then show ?thesis unfolding s settled_def
      using endBatch_clears[of "ExportLog_log (Str ''cancelled'') [] w"] by simp
  next
    case False
    then show ?thesis unfolding s settled_def using c by (simp add: endBatch_inactive)
  qed
qed

lemma checkCancelled_detach_count:
  "count_list (effects (snd (checkCancelled w))) Detached \<le> count_list (effects w) Detached + 1"
  by (auto simp: checkCancelled_def endBatch_def Let_def reportProgress_def split: option.splits)

lemma applyOp_settled:
  assumes "settled w"
  shows "settled (applyOp op w)
         \<and> count_list (effects (applyOp op w)) Detached = count_list (effects w) Detached"
  using assms
  by (cases op)
     (auto simp: settled_def checkCancelled_def endBatch_inactive windowClosed_def Let_def
        ExportLog_log_def ExportLog_warning_def ExportLog_error_def reportInfo_def
        reportWarning_def reportError_def resumeReport_def appendLogEl_def reportProgress_def
        failRender_def split: report.splits)

lemma runOps_settled:
  "settled w \<Longrightarrow> settled (runOps ops w)
     \<and> count_list (effects (runOps ops w)) Detached = count_list (effects w) Detached"
proof (induction ops arbitrary: w)
  case Nil
  then show ?case by simp
next
  case (Cons op ops)
  then show ?case using applyOp_settled[of w op] by simp
qed

lemma settled_cancelled: "settled w \<Longrightarrow> fst (checkCancelled w)"
  by (auto simp: settled_def checkCancelled_def)

text \<open>
  Claim C4. \<open>checkCancelled\<close> returns true exactly when \<open>cancelled\<close> is set or the
  leaf is absent; when true it has run \<open>endBatch\<close>, so no batch is started afterwards;
  after it has returned true, it returns true again after any run of the module's
  operations other than \<^verbatim>\<open>beginBatch\<close>, and over the whole run the leaf is detached at
  most once more than before the first call. \<open>checkCancelled\<close> has no exceptional
  outcome: its result is a truth value and a session.
\<close>

theorem checkCancelled_contract:
  "(fst (checkCancelled w) \<longleftrightarrow> cancelled w \<or> renderLeaf w = None)
   \<and> (fst (checkCancelled w) \<longrightarrow>
        snd (checkCancelled w) = endBatch (ExportLog_log (Str ''cancelled'') [] w)
        \<and> \<not> batchStarted (snd (checkCancelled w))
        \<and> fst (checkCancelled (runOps ops (snd (checkCancelled w))))
        \<and> count_list (effects (runOps ops (snd (checkCancelled w)))) Detached
            \<le> count_list (effects w) Detached + 1)"
proof (intro conjI impI)
  show "fst (checkCancelled w) \<longleftrightarrow> cancelled w \<or> renderLeaf w = None"
    by (rule checkCancelled_iff)
next
  assume a: "fst (checkCancelled w)"
  then show "snd (checkCancelled w) = endBatch (ExportLog_log (Str ''cancelled'') [] w)"
    by (rule checkCancelled_true)
  have s: "settled (snd (checkCancelled w))" using a by (rule checkCancelled_settles)
  then show "\<not> batchStarted (snd (checkCancelled w))" by (simp add: settled_def)
  show "fst (checkCancelled (runOps ops (snd (checkCancelled w))))"
    using runOps_settled[OF s, of ops] by (simp add: settled_cancelled)
  show "count_list (effects (runOps ops (snd (checkCancelled w)))) Detached
            \<le> count_list (effects w) Detached + 1"
    using runOps_settled[OF s, of ops] checkCancelled_detach_count[of w] by simp
qed


text \<open>Three more checks and an \<open>endBatch\<close> after a cancelled check.\<close>

theorem checkCancelled_contract_witness:
  "fst (checkCancelled (activeWorld\<lparr>cancelled := True\<rparr>))
   \<and> \<not> batchStarted (snd (checkCancelled (activeWorld\<lparr>cancelled := True\<rparr>)))
   \<and> fst (checkCancelled (runOps [CheckCancelled, EndBatch, CheckCancelled]
            (snd (checkCancelled (activeWorld\<lparr>cancelled := True\<rparr>)))))
   \<and> count_list (effects (runOps [CheckCancelled, EndBatch, CheckCancelled]
            (snd (checkCancelled (activeWorld\<lparr>cancelled := True\<rparr>))))) Detached \<le> 1"
proof -
  let ?w = "activeWorld\<lparr>cancelled := True\<rparr>"
  let ?ops = "[CheckCancelled, EndBatch, CheckCancelled]"
  have c: "fst (checkCancelled ?w)" by (simp add: checkCancelled_iff)
  have e: "count_list (effects ?w) Detached = 0"
    by (simp add: activeWorld_def inactiveWorld_def)
  have "\<not> batchStarted (snd (checkCancelled ?w))
        \<and> fst (checkCancelled (runOps ?ops (snd (checkCancelled ?w))))
        \<and> count_list (effects (runOps ?ops (snd (checkCancelled ?w)))) Detached
            \<le> count_list (effects ?w) Detached + 1"
    using checkCancelled_contract[of ?w ?ops] c by blast
  then show ?thesis using c e by simp
qed

lemma leafAttached_stuck:
  "renderLeaf w = Some l \<Longrightarrow> \<not> parent l \<Longrightarrow> \<not> cancelled w \<Longrightarrow>
     leafAttachedOrCancelled w = (False, w)"
  by (simp add: leafAttachedOrCancelled_def checkCancelled_def)

lemma attachFailed_throws:
  assumes "unattached w"
  shows "fst (attachFailed h w) = Throw ''Failed to create leaf for rendering!''
     \<and> effects (snd (attachFailed h w)) =
         effects w @ (case throws h DetachLeaf w of None \<Rightarrow> [Detached] | Some e \<Rightarrow> [])
           @ [Notice ''Error: Failed to create leaf for rendering!'']
     \<and> batchStarted (snd (attachFailed h w)) = batchStarted w
     \<and> renderLeaf (snd (attachFailed h w)) = renderLeaf w"
  using assms
  by (auto simp: attachFailed_def unattached_def checkCancelled_def Let_def split: option.splits)

lemma attachFailed_logs:
  assumes "unattached w"
  shows "fullLog (snd (attachFailed h w)) =
           fullLog w @ (case throws h DetachLeaf w of None \<Rightarrow> []
                        | Some e \<Rightarrow> logToString (Obj e) ''[ERROR] Failed to detach render leaf: '')
     \<and> errorInBatch (snd (attachFailed h w)) =
         (errorInBatch w \<or> (throws h DetachLeaf w \<noteq> None \<and> batchStarted w
            \<and> (\<not> settingsLoaded w \<or> List.member [''error'', ''warning'', ''all''] (logLevel w))))"
  using assms
  by (auto simp: attachFailed_def unattached_def checkCancelled_def Let_def ExportLog_error_def
        reportError_def split: option.splits)

lemma beginBatch_attach_timeout:
  assumes "\<not> batchStarted w" "\<not> parent (openNewTab h)"
    and "\<And>x. unattached x \<Longrightarrow> unattached (advance h 1 x)"
  shows "\<exists>w2. unattached w2
          \<and> waitUntil leafAttachedOrCancelled (advance h) 2000 1
               (w\<lparr>errorInBatch := False, cancelled := False, batchStarted := True,
                   loadingContainer := None, logContainer := None, logShowing := False,
                   renderLeaf := Some (openNewTab h), markdownView := Some (newMarkdownView h)\<rparr>)
              = Some (False, 2000, w2)
          \<and> beginBatch h opts w = Some (attachFailed h w2)"
proof -
  let ?w1 = "w\<lparr>errorInBatch := False, cancelled := False, batchStarted := True,
                   loadingContainer := None, logContainer := None, logShowing := False,
                   renderLeaf := Some (openNewTab h), markdownView := Some (newMarkdownView h)\<rparr>"
  have u: "unattached ?w1" using assms(2) by (simp add: unattached_def)
  have c: "\<And>x. unattached x \<Longrightarrow> leafAttachedOrCancelled x = (False, x)"
    by (auto simp: unattached_def leafAttached_stuck)
  obtain w2 where w2: "waitUntil leafAttachedOrCancelled (advance h) 2000 1 ?w1
        = Some (False, pollBudget 2000 1, w2)" "unattached w2"
    using waitUntil_stuck[of 1 unattached ?w1 leafAttachedOrCancelled "advance h" 2000] u c assms(3)
    by auto
  have pb: "pollBudget 2000 1 = 2000" by (simp add: pollBudget_def)
  have "beginBatch h opts w = Some (attachFailed h w2)"
    using assms(1) w2(1) by (simp add: beginBatch_def Let_def)
  then show ?thesis using w2 pb by auto
qed


text \<open>
  Claim C3, as amended. If \<open>beginBatch\<close> runs on an inactive session and the new leaf
  gets no parent while the batch is not cancelled, the wait of 2000 ms at 1 ms resolves to
  false after 2000 callbacks, and \<open>beginBatch\<close> detaches the leaf, shows the notice and
  raises "Failed to create leaf for rendering!" to its caller. Where the detach itself
  throws, nothing is detached and the error is logged instead, under the title "Failed to
  detach render leaf: ": the log grows by that entry and nothing else, and the error counts
  for the batch as every error that the log level lets through does.
\<close>

theorem beginBatch_attach_failure:
  assumes "\<not> batchStarted w" "\<not> parent (openNewTab h)"
    and "\<And>x. unattached x \<Longrightarrow> unattached (advance h 1 x)"
  shows "\<exists>w2 w'.
           waitUntil leafAttachedOrCancelled (advance h) 2000 1
               (w\<lparr>errorInBatch := False, cancelled := False, batchStarted := True,
                   loadingContainer := None, logContainer := None, logShowing := False,
                   renderLeaf := Some (openNewTab h), markdownView := Some (newMarkdownView h)\<rparr>)
              = Some (False, 2000, w2)
         \<and> beginBatch h opts w = Some (Throw ''Failed to create leaf for rendering!'', w')
         \<and> effects w' =
             effects w2 @ (case throws h DetachLeaf w2 of None \<Rightarrow> [Detached] | Some e \<Rightarrow> [])
               @ [Notice ''Error: Failed to create leaf for rendering!'']
         \<and> fullLog w' =
             fullLog w2 @ (case throws h DetachLeaf w2 of None \<Rightarrow> []
                           | Some e \<Rightarrow> logToString (Obj e)
                                        ''[ERROR] Failed to detach render leaf: '')
         \<and> errorInBatch w' =
             (errorInBatch w2
              \<or> (throws h DetachLeaf w2 \<noteq> None \<and> batchStarted w2
                  \<and> (\<not> settingsLoaded w2
                      \<or> List.member [''error'', ''warning'', ''all''] (logLevel w2))))"
proof -
  obtain w2 where w2: "unattached w2"
      "waitUntil leafAttachedOrCancelled (advance h) 2000 1
               (w\<lparr>errorInBatch := False, cancelled := False, batchStarted := True,
                   loadingContainer := None, logContainer := None, logShowing := False,
                   renderLeaf := Some (openNewTab h), markdownView := Some (newMarkdownView h)\<rparr>)
              = Some (False, 2000, w2)"
      "beginBatch h opts w = Some (attachFailed h w2)"
    using beginBatch_attach_timeout[OF assms, of opts] by blast
  have "attachFailed h w2 = (fst (attachFailed h w2), snd (attachFailed h w2))" by simp
  then have "beginBatch h opts w =
      Some (Throw ''Failed to create leaf for rendering!'', snd (attachFailed h w2))"
    using w2(3) attachFailed_throws[OF w2(1), of h] by simp
  then show ?thesis
    using w2(2) attachFailed_throws[OF w2(1), of h] attachFailed_logs[OF w2(1), of h] by blast
qed

lemma idleHost_fields [simp]:
  "advance idleHost = (\<lambda>d w. w)" "throws idleHost = (\<lambda>c w. None)"
  "invoke idleHost = (\<lambda>c w. w)"
  "openNewTab idleHost = looseLeaf" "newMarkdownView idleHost = noView"
  by (simp_all add: idleHost_def)

lemma stuckHost_fields [simp]:
  "advance stuckHost = (\<lambda>d w. w)"
  "throws stuckHost DetachLeaf = (\<lambda>w. Some ''Error: no such leaf'')"
  "openNewTab stuckHost = looseLeaf" "newMarkdownView stuckHost = noView"
  by (simp_all add: stuckHost_def idleHost_def)

lemma begun_unattached_stays:
  fixes h :: host
  assumes "advance h = (\<lambda>d w. w)"
  shows "waitUntil leafAttachedOrCancelled (advance h) 2000 1
           (inactiveWorld\<lparr>errorInBatch := False, cancelled := False, batchStarted := True,
                   loadingContainer := None, logContainer := None, logShowing := False,
                   renderLeaf := Some looseLeaf, markdownView := Some noView\<rparr>)
         = Some (False, 2000,
             inactiveWorld\<lparr>errorInBatch := False, cancelled := False, batchStarted := True,
                   loadingContainer := None, logContainer := None, logShowing := False,
                   renderLeaf := Some looseLeaf, markdownView := Some noView\<rparr>)"
proof -
  let ?w1 = "inactiveWorld\<lparr>errorInBatch := False, cancelled := False, batchStarted := True,
                   loadingContainer := None, logContainer := None, logShowing := False,
                   renderLeaf := Some looseLeaf, markdownView := Some noView\<rparr>"
  have "\<exists>s'. waitUntil leafAttachedOrCancelled (advance h) 2000 1 ?w1
           = Some (False, pollBudget 2000 1, s') \<and> s' = ?w1"
    by (rule waitUntil_stuck[where P = "\<lambda>x. x = ?w1"])
       (simp_all add: assms leafAttachedOrCancelled_def checkCancelled_def looseLeaf_def
          inactiveWorld_def)
  then show ?thesis by (simp add: pollBudget_def)
qed

text \<open>
  The same with the host that does nothing, and with one whose \<^verbatim>\<open>detach\<close> throws: there
  nothing is detached, and the error is in the log and counted.
\<close>

theorem beginBatch_attach_failure_witness:
  "(\<exists>w'. beginBatch idleHost defaultOptions inactiveWorld
            = Some (Throw ''Failed to create leaf for rendering!'', w')
        \<and> effects w' = [Detached, Notice ''Error: Failed to create leaf for rendering!'']
        \<and> fullLog w' = [] \<and> \<not> errorInBatch w')
   \<and> (\<exists>w'. beginBatch stuckHost defaultOptions inactiveWorld
            = Some (Throw ''Failed to create leaf for rendering!'', w')
        \<and> effects w' = [Notice ''Error: Failed to create leaf for rendering!'']
        \<and> fullLog w' = ''[ERROR] Failed to detach render leaf: '' @ [CHR 0x09]
                          @ ''Error: no such leaf'' @ [CHR 0x0A]
        \<and> errorInBatch w')"
proof
  have a: "\<not> batchStarted inactiveWorld" by (simp add: inactiveWorld_def)
  have b: "\<not> parent (openNewTab idleHost)" by (simp add: looseLeaf_def)
  have c: "\<And>x. unattached x \<Longrightarrow> unattached (advance idleHost 1 x)" by simp
  let ?w1 = "inactiveWorld\<lparr>errorInBatch := False, cancelled := False, batchStarted := True,
                   loadingContainer := None, logContainer := None, logShowing := False,
                   renderLeaf := Some looseLeaf, markdownView := Some noView\<rparr>"
  have "waitUntil leafAttachedOrCancelled (advance idleHost) 2000 1 ?w1 = Some (False, 2000, ?w1)"
    by (rule begun_unattached_stays) simp
  then show "\<exists>w'. beginBatch idleHost defaultOptions inactiveWorld
            = Some (Throw ''Failed to create leaf for rendering!'', w')
        \<and> effects w' = [Detached, Notice ''Error: Failed to create leaf for rendering!'']
        \<and> fullLog w' = [] \<and> \<not> errorInBatch w'"
    using beginBatch_attach_failure[OF a b c, of defaultOptions]
    by (auto simp: inactiveWorld_def)
next
  have a: "\<not> batchStarted inactiveWorld" by (simp add: inactiveWorld_def)
  have b: "\<not> parent (openNewTab stuckHost)" by (simp add: looseLeaf_def)
  have c: "\<And>x. unattached x \<Longrightarrow> unattached (advance stuckHost 1 x)" by simp
  let ?w1 = "inactiveWorld\<lparr>errorInBatch := False, cancelled := False, batchStarted := True,
                   loadingContainer := None, logContainer := None, logShowing := False,
                   renderLeaf := Some looseLeaf, markdownView := Some noView\<rparr>"
  have "waitUntil leafAttachedOrCancelled (advance stuckHost) 2000 1 ?w1 = Some (False, 2000, ?w1)"
    by (rule begun_unattached_stays) simp
  then show "\<exists>w'. beginBatch stuckHost defaultOptions inactiveWorld
            = Some (Throw ''Failed to create leaf for rendering!'', w')
        \<and> effects w' = [Notice ''Error: Failed to create leaf for rendering!'']
        \<and> fullLog w' = ''[ERROR] Failed to detach render leaf: '' @ [CHR 0x09]
                          @ ''Error: no such leaf'' @ [CHR 0x0A]
        \<and> errorInBatch w'"
    using beginBatch_attach_failure[OF a b c, of defaultOptions]
    by (auto simp: inactiveWorld_def logToString_def)
qed

text \<open>
  The claim C3 as stated fails: with a host that never attaches the leaf, \<open>beginBatch\<close>
  raises, and the session it leaves is started and still holds the leaf.
\<close>

theorem beginBatch_raises_and_stays_active:
  "beginBatch idleHost defaultOptions inactiveWorld =
     Some (Throw ''Failed to create leaf for rendering!'',
           inactiveWorld\<lparr>batchStarted := True, renderLeaf := Some looseLeaf,
                          markdownView := Some noView,
                          effects := [Detached, Notice ''Error: Failed to create leaf for rendering!'']\<rparr>)"
proof -
  let ?w1 = "inactiveWorld\<lparr>errorInBatch := False, cancelled := False, batchStarted := True,
                   loadingContainer := None, logContainer := None, logShowing := False,
                   renderLeaf := Some looseLeaf, markdownView := Some noView\<rparr>"
  have "\<exists>s'. waitUntil leafAttachedOrCancelled (advance idleHost) 2000 1 ?w1
           = Some (False, pollBudget 2000 1, s') \<and> s' = ?w1"
    by (rule waitUntil_stuck[where P = "\<lambda>x. x = ?w1"])
       (simp_all add: leafAttachedOrCancelled_def checkCancelled_def looseLeaf_def inactiveWorld_def)
  then have w: "waitUntil leafAttachedOrCancelled (\<lambda>d w. w) 2000 1 ?w1 = Some (False, pollBudget 2000 1, ?w1)"
    by simp
  have "beginBatch idleHost defaultOptions inactiveWorld = Some (attachFailed idleHost ?w1)"
    using w by (simp add: beginBatch_def Let_def inactiveWorld_def)
  also have "attachFailed idleHost ?w1 =
     (Throw ''Failed to create leaf for rendering!'',
           inactiveWorld\<lparr>batchStarted := True, renderLeaf := Some looseLeaf,
                          markdownView := Some noView,
                          effects := [Detached, Notice ''Error: Failed to create leaf for rendering!'']\<rparr>)"
    by (simp add: attachFailed_def checkCancelled_def inactiveWorld_def Let_def)
  finally show ?thesis .
qed

section \<open>Properties of the renderers\<close>

lemma failingHost_fields [simp]:
  "advance failingHost = (\<lambda>d w. dock w)"
  "throws failingHost = (\<lambda>c w. case c of OpenFile f \<Rightarrow> Some ''{}''
                                             | SetViewData m \<Rightarrow> Some ''{}'' | _ \<Rightarrow> None)"
  "invoke failingHost = (\<lambda>c w. w)"
  "openNewTab failingHost = looseLeaf" "newMarkdownView failingHost = noView"
  by (simp_all add: failingHost_def idleHost_def)

lemma ensureBatch_failingHost:
  "ensureBatch failingHost defaultOptions inactiveWorld = Some (Return (), begun)"
proof -
  let ?w0 = "ExportLog_log (Str ''Exporting single file, starting batch'') [] inactiveWorld"
  let ?w1 = "?w0\<lparr>errorInBatch := False, cancelled := False, batchStarted := True,
                   loadingContainer := None, logContainer := None, logShowing := False,
                   renderLeaf := Some looseLeaf, markdownView := Some noView\<rparr>"
  have w: "waitUntil leafAttachedOrCancelled (\<lambda>d w. dock w) 2000 1 ?w1 = Some (True, 1, dock ?w1)"
    unfolding waitUntil_def
    by (subst pollLoop.simps)
       (simp add: leafAttachedOrCancelled_def checkCancelled_def dock_def looseLeaf_def
          inactiveWorld_def ExportLog_log_def reportInfo_def Let_def)
  show ?thesis
    unfolding ensureBatch_def beginBatch_def
    using w
    apply (simp add: Let_def inactiveWorld_def ExportLog_log_def reportInfo_def)
    apply (simp add: configureSurface_def dock_def looseLeaf_def defaultOptions_def Let_def
        createLoadingContainer_def logToString_def begun_def inactiveWorld_def dockedLeaf_def)
    done
qed


lemma begun_ready: "waitUntil leafDefinedOrCancelled hh t i begun = Some (True, 0, begun)"
  by (simp add: waitUntil_def leafDefinedOrCancelled_def begun_def)

lemma failRender_begun:
  "batchStarted (failRender p m begun) \<and> renderLeaf (failRender p m begun) = Some dockedLeaf
   \<and> errorInBatch (failRender p m begun) \<and> effects (failRender p m begun) = [WindowDocked]"
  by (simp add: failRender_def checkCancelled_def begun_def inactiveWorld_def
      ExportLog_error_def reportError_def Let_def)

text \<open>
  Claim C2 fails on the code. A render call on an inactive session opens a lone batch; when
  the document then fails to load (\<^verbatim>\<open>openFile\<close> or \<^verbatim>\<open>setViewData\<close> throws), the call
  returns \<^verbatim>\<open>undefined\<close> through \<^verbatim>\<open>failRender\<close> and never reaches
  \<^verbatim>\<open>if (loneFile) endBatch()\<close>: the batch it opened is still started and still
  holds the leaf.
\<close>

theorem render_failure_leaves_batch_open:
  "renderFile failingHost brokenFile defaultOptions inactiveWorld
     = Some (Return None, failRender (Some ''notes/broken.md'') (Obj ''{}'') begun)
   \<and> renderMarkdown failingHost ''# title'' defaultOptions inactiveWorld
     = Some (Return None, failRender None (Obj ''{}'') begun)
   \<and> \<not> batchStarted inactiveWorld
   \<and> batchStarted (failRender (Some ''notes/broken.md'') (Obj ''{}'') begun)
   \<and> batchStarted (failRender None (Obj ''{}'') begun)
   \<and> renderLeaf (failRender (Some ''notes/broken.md'') (Obj ''{}'') begun) = Some dockedLeaf"
proof -
  have m: "\<not> List.member viewableMediaExtensions (extension brokenFile)"
    by (simp add: viewableMediaExtensions_def brokenFile_def)
  have n: "renderLeaf begun = Some dockedLeaf" by (simp add: begun_def)
  have a: "renderFile failingHost brokenFile defaultOptions inactiveWorld
     = Some (Return None, failRender (Some ''notes/broken.md'') (Obj ''{}'') begun)"
    unfolding renderFile_def using m n
    by (simp add: ensureBatch_failingHost begun_ready Let_def brokenFile_def del: List.member_iff)
  have v: "markdownView begun = Some noView" by (simp add: begun_def)
  have l: "begun\<lparr>renderLeaf := Some (dockedLeaf\<lparr>leafView := noView\<rparr>)\<rparr> = begun"
    by (simp add: begun_def dockedLeaf_def)
  have b: "renderMarkdown failingHost ''# title'' defaultOptions inactiveWorld
     = Some (Return None, failRender None (Obj ''{}'') begun)"
    unfolding renderMarkdown_def using n
    by (simp add: ensureBatch_failingHost begun_ready Let_def v l)
  show ?thesis using a b failRender_begun by (simp add: inactiveWorld_def)
qed


text \<open>What a caller observes of the two calls: no result, and a batch that is still started.\<close>

theorem render_failure_leaves_batch_open_witness:
  "map_option fst (renderFile failingHost brokenFile defaultOptions inactiveWorld)
     = Some (Return None)
   \<and> map_option (batchStarted \<circ> snd) (renderFile failingHost brokenFile defaultOptions inactiveWorld)
     = Some True
   \<and> map_option (batchStarted \<circ> snd)
       (renderMarkdown failingHost ''# title'' defaultOptions inactiveWorld) = Some True"
  using render_failure_leaves_batch_open by simp

lemma waitUntil_false_last:
  assumes "0 < interval" "waitUntil c h timeout interval s = Some (False, n, s')"
  shows "\<exists>x. \<not> fst (c x) \<and> s' = snd (c x)"
proof (cases "\<exists>j\<le>pollBudget timeout interval. condAt c h interval s j")
  case True
  define m where "m = (LEAST j. condAt c h interval s j)"
  from True obtain j where j: "j \<le> pollBudget timeout interval" "condAt c h interval s j" by blast
  have cm: "condAt c h interval s m" unfolding m_def using j(2) by (rule LeastI)
  have mj: "m \<le> j" unfolding m_def using j(2) by (rule Least_le)
  have mn: "\<And>i. i < m \<Longrightarrow> \<not> condAt c h interval s i"
    unfolding m_def by (rule not_less_Least)
  have "m = 0 \<or> (m - 1) * interval < timeout \<or> m = 1"
  proof (cases "timeout = 0")
    case True
    then have "pollBudget timeout interval = 1" using assms(1) by (simp add: pollBudget_zero)
    then show ?thesis using mj j(1) by auto
  next
    case False
    have "m - 1 \<le> pollBudget timeout interval - 1" using mj j(1) by simp
    then have "(m - 1) * interval \<le> (pollBudget timeout interval - 1) * interval"
      by (rule mult_le_mono1)
    moreover have "(pollBudget timeout interval - 1) * interval < timeout"
      using pollBudget_tight[OF assms(1), of timeout] False by simp
    ultimately have "(m - 1) * interval < timeout" by (rule le_less_trans)
    then show ?thesis by simp
  qed
  then have "waitUntil c h timeout interval s = Some (True, m, snd (c (pollState c h interval s m)))"
    using waitUntil_resolves_true[OF assms(1) cm _ mn] by blast
  then show ?thesis using assms(2) by simp
next
  case False
  then have "waitUntil c h timeout interval s =
         Some (False, pollBudget timeout interval,
               snd (c (pollState c h interval s (pollBudget timeout interval))))"
    using waitUntil_resolves_false[OF assms(1), of timeout c h s] by blast
  moreover have "\<not> fst (c (pollState c h interval s (pollBudget timeout interval)))"
    using False by (auto simp: condAt_def)
  ultimately show ?thesis using assms(2) by auto
qed

lemma failRender_logs:
  "\<not> cancelled w \<Longrightarrow> renderLeaf w \<noteq> None \<Longrightarrow>
     failRender (Some p) m w = ExportLog_error m (''Rendering '' @ p @ '' failed: '') False w"
  by (auto simp: failRender_def checkCancelled_def)

lemma rendered_timeout_state:
  assumes "waitUntil (renderedOrCancelled pid i) hh 2000 1 s = Some (False, n, w1)"
  shows "\<not> cancelled w1 \<and> renderLeaf w1 \<noteq> None"
proof -
  obtain x where x: "\<not> fst (renderedOrCancelled pid i x)" "w1 = snd (renderedOrCancelled pid i x)"
    using waitUntil_false_last[OF _ assms] by auto
  then show ?thesis
    by (auto simp: renderedOrCancelled_def checkCancelled_def split: if_splits)
qed

lemma computed_timeout_state:
  assumes "waitUntil (computedOrCancelled pid i) hh 2000 1 s = Some (False, n, w1)"
  shows "\<not> cancelled w1 \<and> renderLeaf w1 \<noteq> None"
proof -
  obtain x where x: "\<not> fst (computedOrCancelled pid i x)" "w1 = snd (computedOrCancelled pid i x)"
    using waitUntil_false_last[OF _ assms] by auto
  then show ?thesis
    by (auto simp: computedOrCancelled_def checkCancelled_def split: if_splits)
qed

lemma transclusions_timeout_state:
  assumes "waitUntil (transclusionsOrCancelled pid i) hh 500 1 s = Some (False, n, w1)"
  shows "\<not> fst (checkCancelled w1) \<and> emptySizers (getSection pid i w1) \<noteq> 0"
proof -
  obtain x where x: "\<not> fst (transclusionsOrCancelled pid i x)"
      "w1 = snd (transclusionsOrCancelled pid i x)"
    using waitUntil_false_last[OF _ assms] by auto
  then show ?thesis
    by (auto simp: transclusionsOrCancelled_def checkCancelled_def split: if_splits)
qed

lemma plugins_timeout_state:
  assumes "waitUntil (pluginsOrCancelled pid i) hh 500 1 s = Some (False, n, w1)"
  shows "\<not> fst (checkCancelled w1) \<and> emptyBlocks (getSection pid i w1) \<noteq> []"
proof -
  obtain x where x: "\<not> fst (pluginsOrCancelled pid i x)" "w1 = snd (pluginsOrCancelled pid i x)"
    using waitUntil_false_last[OF _ assms] by auto
  then show ?thesis
    by (auto simp: pluginsOrCancelled_def checkCancelled_def split: if_splits)
qed

lemma renderSections_append:
  "renderSections h pid (xs @ ys) folded w =
     (case renderSections h pid xs folded w of
        None \<Rightarrow> None
      | Some (None, w') \<Rightarrow> Some (None, w')
      | Some (Some f, w') \<Rightarrow> renderSections h pid ys f w')"
  by (induction xs arbitrary: folded w) (auto split: option.splits prod.splits)

lemma upt_split_at: "i \<le> n \<Longrightarrow> [0..<n] = [0..<i] @ [i..<n]"
  using upt_add_eq_append[of 0 i "n - i"] by simp

lemma renderMarkdownView_at:
  assumes "i < sectionCount (previews (openPreview h pid w) pid)"
    and "renderSections h pid [0..<i] [] (openPreview h pid w) = Some (Some folded, wi)"
  shows "renderMarkdownView h opts pid w =
     finishView h opts pid
       (case renderSection h pid i wi of
          None \<Rightarrow> None
        | Some (None, w') \<Rightarrow> Some (None, w')
        | Some (Some k, w') \<Rightarrow>
            renderSections h pid [Suc i..<sectionCount (previews (openPreview h pid w) pid)]
              (folded @ [(i, k)]) w')"
proof -
  let ?n = "sectionCount (previews (openPreview h pid w) pid)"
  have "[0..<?n] = [0..<i] @ [i..<?n]"
    using assms(1) by (intro upt_split_at) simp
  also have "[i..<?n] = i # [Suc i..<?n]"
    using assms(1) by (simp add: upt_conv_Cons)
  finally have "[0..<?n] = [0..<i] @ (i # [Suc i..<?n])" .
  then show ?thesis
    unfolding renderMarkdownView_def using assms(2)
    by (simp add: renderSections_append)
qed


lemma renderSection_render_timeout:
  assumes "waitUntil (renderedOrCancelled pid i) (advance h) 2000 1 (startSection h pid i wi)
             = Some (False, n1, w1)"
  shows "renderSection h pid i wi =
           Some (None, ExportLog_error (Str ''Failed to render section!'')
                         (''Rendering '' @ path (previewFile (previews w1 pid)) @ '' failed: '')
                         False w1)"
  using assms rendered_timeout_state[OF assms]
  by (simp add: renderSection_def failRender_logs)

lemma renderSection_compute_timeout:
  assumes "waitUntil (renderedOrCancelled pid i) (advance h) 2000 1 (startSection h pid i wi)
             = Some (True, n1, w1)"
    and c: "waitUntil (computedOrCancelled pid i) (advance h) 2000 1
             (invoke h (MeasureSection pid i) w1) = Some (False, n2, w2)"
  shows "renderSection h pid i wi =
           Some (None, ExportLog_error (Str ''Failed to compute section!'')
                         (''Rendering '' @ path (previewFile (previews w2 pid)) @ '' failed: '')
                         False w2)"
  using assms computed_timeout_state[OF c]
  by (simp add: renderSection_def failRender_logs)

lemma renderSection_settles:
  assumes "waitUntil (renderedOrCancelled pid i) (advance h) 2000 1 (startSection h pid i wi)
             = Some (True, n1, w1)"
    and "waitUntil (computedOrCancelled pid i) (advance h) 2000 1
             (invoke h (MeasureSection pid i) w1) = Some (True, n2, w2)"
    and "waitUntil (transclusionsOrCancelled pid i) (advance h) 500 1
             (snd (prepareSettle h pid i w2)) = Some (r3, n3, w3)"
    and "\<not> fst (checkCancelled w3)"
    and "waitUntil (pluginsOrCancelled pid i) (advance h) 500 1
             (warnTransclusions pid i w3) = Some (r4, n4, w4)"
    and "\<not> fst (checkCancelled w4)"
  shows "renderSection h pid i wi =
           Some (Some (fst (prepareSettle h pid i w2)), finishSection pid i w4)"
  using assms by (simp add: renderSection_def settleSection_def)

lemma warnTransclusions_logs:
  "emptySizers (getSection pid i w) \<noteq> 0 \<Longrightarrow>
     fullLog (warnTransclusions pid i w) =
       fullLog w @ logToString
         (Str (''Transclusions were not rendered correctly in file ''
               @ name (previewFile (previews w pid)) @ ''!'')) ''[WARNING] ''"
  by (simp add: warnTransclusions_def ExportLog_warning_def reportWarning_def Let_def)

lemma log_previews [simp]:
  "previews (ExportLog_log m t w) = previews w"
  "previews (ExportLog_warning m t w) = previews w"
  "previews (ExportLog_error m t f w) = previews w"
  by (simp_all add: ExportLog_log_def ExportLog_warning_def ExportLog_error_def
      reportInfo_def reportWarning_def reportError_def Let_def)

lemma warnInvalidBlocks_logs:
  "fullLog (warnInvalidBlocks fileName bs w) =
     fullLog w @ concat (map (\<lambda>b. logToString
        (Str (''Plugin element '' @ b @ '' from '' @ fileName @ '' not rendered correctly!''))
        ''[WARNING] '') bs)"
  by (induction bs arbitrary: w)
     (simp_all add: ExportLog_warning_def reportWarning_def Let_def)

lemma convertCanvases_previews [simp]:
  "previews (snd (convertCanvases fileName cs w)) = previews w"
  by (induction cs arbitrary: w) simp_all

lemma updSection_fullLog [simp]: "fullLog (updSection pid i f w) = fullLog w"
  by (simp add: updSection_def)

lemma finishSection_logs:
  "fullLog (finishSection pid i w) =
     fullLog (snd (convertCanvases (name (previewFile (previews w pid)))
                     (canvasEls (getSection pid i w)) w))
     @ concat (map (\<lambda>b. logToString
        (Str (''Plugin element '' @ b @ '' from '' @ name (previewFile (previews w pid))
              @ '' not rendered correctly!'')) ''[WARNING] '')
        (emptyBlocks (getSection pid i w)))"
  by (simp add: finishSection_def Let_def warnInvalidBlocks_logs getSection_def updSection_def)

text \<open>
  Claim C6. Let the loop of \<^verbatim>\<open>renderMarkdownView\<close> have reached the section \<open>i\<close> (the
  sections before it were rendered). If the wait of 2000 ms at 1 ms for its
  \<^verbatim>\<open>rendered\<close> flag resolves to false, or that for its \<^verbatim>\<open>computed\<close> flag after
  the measurement does, \<^verbatim>\<open>renderMarkdownView\<close> returns nothing for the whole document
  and has logged an error. If instead the wait of 500 ms at 1 ms for the nested
  transclusions resolves to false, a warning is logged, and if the one for the plugin
  blocks resolves to false, a warning is logged for every block that stayed empty; in both
  cases the section is completed and the document is rendered on from the next section
  (unless the batch is cancelled during the other best-effort wait).
\<close>

theorem section_timeouts:
  fixes h :: host and pid i :: nat and w wi :: world
  defines "count \<equiv> sectionCount (previews (openPreview h pid w) pid)"
  assumes "i < count"
    and "renderSections h pid [0..<i] [] (openPreview h pid w) = Some (Some folded, wi)"
  shows
    "(waitUntil (renderedOrCancelled pid i) (advance h) 2000 1 (startSection h pid i wi)
        = Some (False, n1, w1) \<longrightarrow>
      renderMarkdownView h opts pid w =
        Some (None, ExportLog_error (Str ''Failed to render section!'')
                      (''Rendering '' @ path (previewFile (previews w1 pid)) @ '' failed: '')
                      False w1))
   \<and> (waitUntil (renderedOrCancelled pid i) (advance h) 2000 1 (startSection h pid i wi)
        = Some (True, n1, w1)
      \<and> waitUntil (computedOrCancelled pid i) (advance h) 2000 1
          (invoke h (MeasureSection pid i) w1) = Some (False, n2, w2) \<longrightarrow>
      renderMarkdownView h opts pid w =
        Some (None, ExportLog_error (Str ''Failed to compute section!'')
                      (''Rendering '' @ path (previewFile (previews w2 pid)) @ '' failed: '')
                      False w2))
   \<and> (waitUntil (renderedOrCancelled pid i) (advance h) 2000 1 (startSection h pid i wi)
        = Some (True, n1, w1)
      \<and> waitUntil (computedOrCancelled pid i) (advance h) 2000 1
          (invoke h (MeasureSection pid i) w1) = Some (True, n2, w2)
      \<and> waitUntil (transclusionsOrCancelled pid i) (advance h) 500 1
          (snd (prepareSettle h pid i w2)) = Some (False, n3, w3)
      \<and> waitUntil (pluginsOrCancelled pid i) (advance h) 500 1
          (warnTransclusions pid i w3) = Some (r4, n4, w4)
      \<and> \<not> fst (checkCancelled w4) \<longrightarrow>
      fullLog (warnTransclusions pid i w3) =
        fullLog w3 @ logToString
          (Str (''Transclusions were not rendered correctly in file ''
                @ name (previewFile (previews w3 pid)) @ ''!'')) ''[WARNING] ''
      \<and> renderMarkdownView h opts pid w =
          finishView h opts pid
            (renderSections h pid [Suc i..<count]
               (folded @ [(i, fst (prepareSettle h pid i w2))]) (finishSection pid i w4)))
   \<and> (waitUntil (renderedOrCancelled pid i) (advance h) 2000 1 (startSection h pid i wi)
        = Some (True, n1, w1)
      \<and> waitUntil (computedOrCancelled pid i) (advance h) 2000 1
          (invoke h (MeasureSection pid i) w1) = Some (True, n2, w2)
      \<and> waitUntil (transclusionsOrCancelled pid i) (advance h) 500 1
          (snd (prepareSettle h pid i w2)) = Some (r3, n3, w3)
      \<and> \<not> fst (checkCancelled w3)
      \<and> waitUntil (pluginsOrCancelled pid i) (advance h) 500 1
          (warnTransclusions pid i w3) = Some (False, n4, w4) \<longrightarrow>
      emptyBlocks (getSection pid i w4) \<noteq> []
      \<and> fullLog (finishSection pid i w4) =
          fullLog (snd (convertCanvases (name (previewFile (previews w4 pid)))
                          (canvasEls (getSection pid i w4)) w4))
          @ concat (map (\<lambda>b. logToString
              (Str (''Plugin element '' @ b @ '' from '' @ name (previewFile (previews w4 pid))
                    @ '' not rendered correctly!'')) ''[WARNING] '')
              (emptyBlocks (getSection pid i w4)))
      \<and> renderMarkdownView h opts pid w =
          finishView h opts pid
            (renderSections h pid [Suc i..<count]
               (folded @ [(i, fst (prepareSettle h pid i w2))]) (finishSection pid i w4)))"
proof -
  note at = renderMarkdownView_at[OF assms(2)[unfolded count_def] assms(3), of opts]
  show ?thesis
  proof (intro conjI impI)
    assume a: "waitUntil (renderedOrCancelled pid i) (advance h) 2000 1 (startSection h pid i wi)
        = Some (False, n1, w1)"
    show "renderMarkdownView h opts pid w =
        Some (None, ExportLog_error (Str ''Failed to render section!'')
                      (''Rendering '' @ path (previewFile (previews w1 pid)) @ '' failed: '')
                      False w1)"
      unfolding at renderSection_render_timeout[OF a] by (simp add: finishView_def)
  next
    assume a: "waitUntil (renderedOrCancelled pid i) (advance h) 2000 1 (startSection h pid i wi)
        = Some (True, n1, w1)
      \<and> waitUntil (computedOrCancelled pid i) (advance h) 2000 1
          (invoke h (MeasureSection pid i) w1) = Some (False, n2, w2)"
    show "renderMarkdownView h opts pid w =
        Some (None, ExportLog_error (Str ''Failed to compute section!'')
                      (''Rendering '' @ path (previewFile (previews w2 pid)) @ '' failed: '')
                      False w2)"
      unfolding at renderSection_compute_timeout[OF a[THEN conjunct1] a[THEN conjunct2]]
      by (simp add: finishView_def)
  next
    assume a: "waitUntil (renderedOrCancelled pid i) (advance h) 2000 1 (startSection h pid i wi)
        = Some (True, n1, w1)
      \<and> waitUntil (computedOrCancelled pid i) (advance h) 2000 1
          (invoke h (MeasureSection pid i) w1) = Some (True, n2, w2)
      \<and> waitUntil (transclusionsOrCancelled pid i) (advance h) 500 1
          (snd (prepareSettle h pid i w2)) = Some (False, n3, w3)
      \<and> waitUntil (pluginsOrCancelled pid i) (advance h) 500 1
          (warnTransclusions pid i w3) = Some (r4, n4, w4)
      \<and> \<not> fst (checkCancelled w4)"
    then have t: "waitUntil (transclusionsOrCancelled pid i) (advance h) 500 1
          (snd (prepareSettle h pid i w2)) = Some (False, n3, w3)" by simp
    note ts = transclusions_timeout_state[OF t]
    show "fullLog (warnTransclusions pid i w3) =
        fullLog w3 @ logToString
          (Str (''Transclusions were not rendered correctly in file ''
                @ name (previewFile (previews w3 pid)) @ ''!'')) ''[WARNING] ''"
      using ts by (simp add: warnTransclusions_logs)
    have "renderSection h pid i wi =
           Some (Some (fst (prepareSettle h pid i w2)), finishSection pid i w4)"
      using a ts by (intro renderSection_settles) auto
    then show "renderMarkdownView h opts pid w =
          finishView h opts pid
            (renderSections h pid [Suc i..<count]
               (folded @ [(i, fst (prepareSettle h pid i w2))]) (finishSection pid i w4))"
      unfolding at by (simp add: count_def)
  next
    assume a: "waitUntil (renderedOrCancelled pid i) (advance h) 2000 1 (startSection h pid i wi)
        = Some (True, n1, w1)
      \<and> waitUntil (computedOrCancelled pid i) (advance h) 2000 1
          (invoke h (MeasureSection pid i) w1) = Some (True, n2, w2)
      \<and> waitUntil (transclusionsOrCancelled pid i) (advance h) 500 1
          (snd (prepareSettle h pid i w2)) = Some (r3, n3, w3)
      \<and> \<not> fst (checkCancelled w3)
      \<and> waitUntil (pluginsOrCancelled pid i) (advance h) 500 1
          (warnTransclusions pid i w3) = Some (False, n4, w4)"
    then have p: "waitUntil (pluginsOrCancelled pid i) (advance h) 500 1
          (warnTransclusions pid i w3) = Some (False, n4, w4)" by simp
    note ps = plugins_timeout_state[OF p]
    show "emptyBlocks (getSection pid i w4) \<noteq> []" using ps by simp
    show "fullLog (finishSection pid i w4) =
          fullLog (snd (convertCanvases (name (previewFile (previews w4 pid)))
                          (canvasEls (getSection pid i w4)) w4))
          @ concat (map (\<lambda>b. logToString
              (Str (''Plugin element '' @ b @ '' from '' @ name (previewFile (previews w4 pid))
                    @ '' not rendered correctly!'')) ''[WARNING] '')
              (emptyBlocks (getSection pid i w4)))"
      by (rule finishSection_logs)
    have "renderSection h pid i wi =
           Some (Some (fst (prepareSettle h pid i w2)), finishSection pid i w4)"
      using a ps by (intro renderSection_settles) auto
    then show "renderMarkdownView h opts pid w =
          finishView h opts pid
            (renderSections h pid [Suc i..<count]
               (folded @ [(i, fst (prepareSettle h pid i w2))]) (finishSection pid i w4))"
      unfolding at by (simp add: count_def)
  qed
qed


lemma waitUntil_idle:
  assumes "0 < interval" "c s = (False, s)"
  shows "waitUntil c (\<lambda>d w. w) timeout interval s = Some (False, pollBudget timeout interval, s)"
proof -
  have "\<exists>s'. waitUntil c (\<lambda>d w. w) timeout interval s
          = Some (False, pollBudget timeout interval, s') \<and> s' = s"
    using assms by (intro waitUntil_stuck[where P = "\<lambda>x. x = s"]) simp_all
  then show ?thesis by simp
qed

lemma sluggishHost_fields [simp]:
  "advance sluggishHost = (\<lambda>d w. w)" "throws sluggishHost = (\<lambda>c w. None)"
  "invoke sluggishHost = (\<lambda>c w. case c of
                   RenderSection p i \<Rightarrow> updSection p i halfRendered w
                 | MeasureSection p i \<Rightarrow> updSection p i (\<lambda>s. s\<lparr>computed := True\<rparr>) w
                 | _ \<Rightarrow> w)"
  by (simp_all add: sluggishHost_def idleHost_def)

lemma unmeasuringHost_fields [simp]:
  "advance unmeasuringHost = (\<lambda>d w. w)" "throws unmeasuringHost = (\<lambda>c w. None)"
  "invoke unmeasuringHost = (\<lambda>c w. case c of
                   RenderSection p i \<Rightarrow> updSection p i (\<lambda>s. s\<lparr>rendered := True\<rparr>) w
                 | _ \<Rightarrow> w)"
  by (simp_all add: unmeasuringHost_def idleHost_def)

lemma updSection_fields [simp]:
  "cancelled (updSection pid i f w) = cancelled w"
  "renderLeaf (updSection pid i f w) = renderLeaf w"
  "batchStarted (updSection pid i f w) = batchStarted w"
  "errorInBatch (updSection pid i f w) = errorInBatch w"
  "effects (updSection pid i f w) = effects w"
  "settingsLoaded (updSection pid i f w) = settingsLoaded w"
  "logLevel (updSection pid i f w) = logLevel w"
  by (simp_all add: updSection_def)

lemma getSection_updSection [simp]:
  "getSection pid i (updSection pid i f w) = f (getSection pid i w)"
  by (simp add: getSection_def updSection_def)

lemma previewFile_updSection [simp]:
  "previewFile (previews (updSection pid i f w) p) = previewFile (previews w p)"
  "sectionCount (previews (updSection pid i f w) p) = sectionCount (previews w p)"
  by (simp_all add: updSection_def)

lemma activeWorld_fields [simp]:
  "cancelled activeWorld = False" "renderLeaf activeWorld = Some dockedLeaf"
  "batchStarted activeWorld" "fullLog activeWorld = []" "\<not> settingsLoaded activeWorld"
  "previewFile (previews activeWorld p) = \<lparr>path = ''notes/a.md'', name = ''a.md'', extension = ''md''\<rparr>"
  "sectionCount (previews activeWorld p) = 1"
  "getSection p i activeWorld = blankSection"
  by (simp_all add: activeWorld_def inactiveWorld_def notePreview_def getSection_def)

lemma warnTransclusions_fields [simp]:
  "cancelled (warnTransclusions p i w) = cancelled w"
  "renderLeaf (warnTransclusions p i w) = renderLeaf w"
  "previews (warnTransclusions p i w) = previews w"
  "getSection q j (warnTransclusions p i w) = getSection q j w"
  by (simp_all add: warnTransclusions_def getSection_def)

text \<open>
  One section that is never rendered, one that is rendered and never measured, and one whose
  transclusion and plugin block never fill: the first two documents fail with an error in the
  log, the third is rendered with two warnings.
\<close>

theorem section_timeouts_witness:
  "(\<exists>w'. renderMarkdownView idleHost defaultOptions 0 activeWorld = Some (None, w')
       \<and> fullLog w' = ''[ERROR] Rendering notes/a.md failed: '' @ [CHR 0x09]
                        @ ''Failed to render section!'' @ [CHR 0x0A])
   \<and> (\<exists>w'. renderMarkdownView unmeasuringHost defaultOptions 0 activeWorld = Some (None, w')
       \<and> fullLog w' = ''[ERROR] Rendering notes/a.md failed: '' @ [CHR 0x09]
                        @ ''Failed to compute section!'' @ [CHR 0x0A])
   \<and> (\<exists>d w'. renderMarkdownView sluggishHost defaultOptions 0 activeWorld = Some (Some d, w')
       \<and> fullLog w' =
           ''[WARNING] '' @ [CHR 0x09]
             @ ''Transclusions were not rendered correctly in file a.md!'' @ [CHR 0x0A]
           @ ''[WARNING] '' @ [CHR 0x09]
             @ ''Plugin element block-language-chart from a.md not rendered correctly!''
             @ [CHR 0x0A])"
proof (intro conjI)
  have op: "openPreview idleHost 0 activeWorld = activeWorld"
    by (simp add: openPreview_def)
  let ?S = "startSection idleHost 0 0 activeWorld"
  have S: "?S = updSection 0 0 (\<lambda>s. s\<lparr>emptySizers := 0, emptyBlocks := [], foldedCallouts := 0,
                          canvasEls := [], images := 0, dataviewBlock := None\<rparr>)
                 (updSection 0 0 (\<lambda>s. s\<lparr>shown := True, rendered := False\<rparr>) activeWorld)"
    by (simp add: startSection_def)
  have c: "renderedOrCancelled 0 0 ?S = (False, ?S)"
    unfolding S by (simp add: renderedOrCancelled_def checkCancelled_def blankSection_def)
  have w: "waitUntil (renderedOrCancelled 0 0) (advance idleHost) 2000 1 ?S
            = Some (False, pollBudget 2000 1, ?S)"
    using waitUntil_idle[where c = "renderedOrCancelled 0 0" and s = ?S and interval = 1
        and timeout = 2000] c by simp
  have "renderMarkdownView idleHost defaultOptions 0 activeWorld =
        Some (None, ExportLog_error (Str ''Failed to render section!'')
                      (''Rendering '' @ path (previewFile (previews ?S 0)) @ '' failed: '')
                      False ?S)"
    using section_timeouts[where h = idleHost and pid = 0 and i = 0 and w = activeWorld
        and folded = "[]" and wi = activeWorld and opts = defaultOptions,
        THEN conjunct1, rule_format, OF _ _ w]
    by (simp add: op)
  moreover have "fullLog (ExportLog_error (Str ''Failed to render section!'')
                      (''Rendering '' @ path (previewFile (previews ?S 0)) @ '' failed: '')
                      False ?S) = ''[ERROR] Rendering notes/a.md failed: '' @ [CHR 0x09]
                      @ ''Failed to render section!'' @ [CHR 0x0A]"
    unfolding S by (simp add: ExportLog_error_def reportError_def Let_def logToString_def)
  ultimately show "\<exists>w'. renderMarkdownView idleHost defaultOptions 0 activeWorld = Some (None, w')
       \<and> fullLog w' = ''[ERROR] Rendering notes/a.md failed: '' @ [CHR 0x09]
                        @ ''Failed to render section!'' @ [CHR 0x0A]"
    by blast
next
  have op: "openPreview unmeasuringHost 0 activeWorld = activeWorld"
    by (simp add: openPreview_def)
  let ?S = "startSection unmeasuringHost 0 0 activeWorld"
  have S: "?S = updSection 0 0 (\<lambda>s. s\<lparr>rendered := True\<rparr>)
                (updSection 0 0 (\<lambda>s. s\<lparr>emptySizers := 0, emptyBlocks := [], foldedCallouts := 0,
                          canvasEls := [], images := 0, dataviewBlock := None\<rparr>)
                 (updSection 0 0 (\<lambda>s. s\<lparr>shown := True, rendered := False\<rparr>) activeWorld))"
    by (simp add: startSection_def)
  have w1: "waitUntil (renderedOrCancelled 0 0) (advance unmeasuringHost) 2000 1 ?S
            = Some (True, 0, ?S)"
    unfolding S by (simp add: waitUntil_def renderedOrCancelled_def)
  have m: "invoke unmeasuringHost (MeasureSection 0 0) ?S = ?S" by simp
  have c: "computedOrCancelled 0 0 ?S = (False, ?S)"
    unfolding S by (simp add: computedOrCancelled_def checkCancelled_def blankSection_def)
  have w2: "waitUntil (computedOrCancelled 0 0) (advance unmeasuringHost) 2000 1
              (invoke unmeasuringHost (MeasureSection 0 0) ?S)
            = Some (False, pollBudget 2000 1, ?S)"
    unfolding m
    using waitUntil_idle[where c = "computedOrCancelled 0 0" and s = ?S and interval = 1
        and timeout = 2000] c by simp
  have "renderMarkdownView unmeasuringHost defaultOptions 0 activeWorld =
        Some (None, ExportLog_error (Str ''Failed to compute section!'')
                      (''Rendering '' @ path (previewFile (previews ?S 0)) @ '' failed: '')
                      False ?S)"
    using section_timeouts[where h = unmeasuringHost and pid = 0 and i = 0 and w = activeWorld
        and folded = "[]" and wi = activeWorld and opts = defaultOptions,
        THEN conjunct2, THEN conjunct1, rule_format, OF _ _ conjI[OF w1 w2]]
    by (simp add: op)
  moreover have "fullLog (ExportLog_error (Str ''Failed to compute section!'')
                      (''Rendering '' @ path (previewFile (previews ?S 0)) @ '' failed: '')
                      False ?S) = ''[ERROR] Rendering notes/a.md failed: '' @ [CHR 0x09]
                      @ ''Failed to compute section!'' @ [CHR 0x0A]"
    unfolding S by (simp add: ExportLog_error_def reportError_def Let_def logToString_def)
  ultimately show "\<exists>w'. renderMarkdownView unmeasuringHost defaultOptions 0 activeWorld
         = Some (None, w')
       \<and> fullLog w' = ''[ERROR] Rendering notes/a.md failed: '' @ [CHR 0x09]
                        @ ''Failed to compute section!'' @ [CHR 0x0A]"
    by blast
next
  have op: "openPreview sluggishHost 0 activeWorld = activeWorld"
    by (simp add: openPreview_def)
  let ?S = "startSection sluggishHost 0 0 activeWorld"
  have S: "?S = updSection 0 0 halfRendered
                (updSection 0 0 (\<lambda>s. s\<lparr>emptySizers := 0, emptyBlocks := [], foldedCallouts := 0,
                          canvasEls := [], images := 0, dataviewBlock := None\<rparr>)
                 (updSection 0 0 (\<lambda>s. s\<lparr>shown := True, rendered := False\<rparr>) activeWorld))"
    by (simp add: startSection_def)
  have w1: "waitUntil (renderedOrCancelled 0 0) (advance sluggishHost) 2000 1 ?S
            = Some (True, 0, ?S)"
    unfolding S by (simp add: waitUntil_def renderedOrCancelled_def halfRendered_def)
  let ?M = "updSection 0 0 (\<lambda>s. s\<lparr>computed := True\<rparr>) ?S"
  have m: "invoke sluggishHost (MeasureSection 0 0) ?S = ?M" by simp
  have w2: "waitUntil (computedOrCancelled 0 0) (advance sluggishHost) 2000 1
              (invoke sluggishHost (MeasureSection 0 0) ?S) = Some (True, 0, ?M)"
    unfolding m by (simp add: waitUntil_def computedOrCancelled_def)
  let ?P = "updSection 0 0 (\<lambda>s. s\<lparr>foldedCallouts := 0\<rparr>) ?M"
  have p: "prepareSettle sluggishHost 0 0 ?M = (0, ?P)"
    unfolding S by (simp add: prepareSettle_def halfRendered_def blankSection_def)
  have c3: "transclusionsOrCancelled 0 0 ?P = (False, ?P)"
    unfolding S
    by (simp add: transclusionsOrCancelled_def checkCancelled_def halfRendered_def)
  have w3: "waitUntil (transclusionsOrCancelled 0 0) (advance sluggishHost) 500 1
              (snd (prepareSettle sluggishHost 0 0 ?M)) = Some (False, pollBudget 500 1, ?P)"
    unfolding p
    using waitUntil_idle[where c = "transclusionsOrCancelled 0 0" and s = ?P and interval = 1
        and timeout = 500] c3 by simp
  let ?W = "warnTransclusions 0 0 ?P"
  have W: "?W = ExportLog_warning
             (Str ''Transclusions were not rendered correctly in file a.md!'') [] ?P"
    unfolding S by (simp add: warnTransclusions_def halfRendered_def)
  have c4: "pluginsOrCancelled 0 0 ?W = (False, ?W)"
    by (simp add: pluginsOrCancelled_def checkCancelled_def S halfRendered_def)
  have w4: "waitUntil (pluginsOrCancelled 0 0) (advance sluggishHost) 500 1 ?W
              = Some (False, pollBudget 500 1, ?W)"
    using waitUntil_idle[where c = "pluginsOrCancelled 0 0" and s = ?W and interval = 1
        and timeout = 500] c4 by simp
  have nc: "\<not> fst (checkCancelled ?W)"
    by (simp add: checkCancelled_def S)
  have r: "renderMarkdownView sluggishHost defaultOptions 0 activeWorld =
          finishView sluggishHost defaultOptions 0
            (renderSections sluggishHost 0
               [Suc 0..<sectionCount (previews (openPreview sluggishHost 0 activeWorld) 0)]
               ([] @ [(0, fst (prepareSettle sluggishHost 0 0 ?M))]) (finishSection 0 0 ?W))"
    using section_timeouts[where h = sluggishHost and pid = 0 and i = 0 and w = activeWorld
        and folded = "[]" and wi = activeWorld and opts = defaultOptions,
        THEN conjunct2, THEN conjunct2, THEN conjunct1, rule_format,
        OF _ _ conjI[OF w1 conjI[OF w2 conjI[OF w3 conjI[OF w4 nc]]]]]
    by (simp add: op)
  let ?F = "finishSection 0 0 ?W"
  have r': "renderMarkdownView sluggishHost defaultOptions 0 activeWorld =
      Some (Some (fst (assembleDocument sluggishHost defaultOptions 0 [(0, 0)] ?F)),
            snd (assembleDocument sluggishHost defaultOptions 0 [(0, 0)] ?F))"
    unfolding r by (simp add: op p finishView_def)
  have lw: "fullLog ?W = ''[WARNING] '' @ [CHR 0x09]
             @ ''Transclusions were not rendered correctly in file a.md!'' @ [CHR 0x0A]"
    by (simp only: W) (simp add: S ExportLog_warning_def reportWarning_def Let_def logToString_def)
  have lf: "fullLog ?F = fullLog ?W @ ''[WARNING] '' @ [CHR 0x09]
             @ ''Plugin element block-language-chart from a.md not rendered correctly!''
             @ [CHR 0x0A]"
    by (simp add: finishSection_logs S halfRendered_def blankSection_def logToString_def)
  have la: "fullLog (snd (assembleDocument sluggishHost defaultOptions 0 [(0, 0)] ?F)) = fullLog ?F"
    by (simp add: assembleDocument_def Let_def defaultOptions_def)
  show "\<exists>d w'. renderMarkdownView sluggishHost defaultOptions 0 activeWorld = Some (Some d, w')
       \<and> fullLog w' =
           ''[WARNING] '' @ [CHR 0x09]
             @ ''Transclusions were not rendered correctly in file a.md!'' @ [CHR 0x0A]
           @ ''[WARNING] '' @ [CHR 0x09]
             @ ''Plugin element block-language-chart from a.md not rendered correctly!''
             @ [CHR 0x0A]"
    using r' la lf lw by simp
qed





lemma idleHost_more [simp]:
  "getAllFilesFromPaths idleHost = (\<lambda>ps. ps)" "generateInclude idleHost = (\<lambda>p b. p)"
  "getAllFilesFromPaths sluggishHost = (\<lambda>ps. ps)" "generateInclude sluggishHost = (\<lambda>p b. p)"
  by (simp_all add: idleHost_def sluggishHost_def)

lemma embedNode_fields [simp]:
  "nodeFile embedNode = Some \<lparr>path = ''b.md'', name = ''b.md'', extension = ''md''\<rparr>"
  "embedEl embedNode = Some 7" "childPreview embedNode = Some 0" "url embedNode = None"
  by (simp_all add: embedNode_def)




section \<open>Properties of the heading tree builder and of the post-processor\<close>

lemma walkSiblings_moved:
  "fst (walkSiblings t sibs) = takeWhile (\<lambda>k. \<not> stopsWalk t k) (filter isElement sibs)"
  by (induction t sibs rule: walkSiblings.induct) simp_all

lemma walkSiblings_left:
  "filter isElement (snd (walkSiblings t sibs))
     = dropWhile (\<lambda>k. \<not> stopsWalk t k) (filter isElement sibs)"
  by (induction t sibs rule: walkSiblings.induct) simp_all

lemma flat_to_nested: "makeHeadingsTrees flatDocument 100 = nestedDocument"
  by code_simp

lemma marked_to_nested:
  "makeHeadingsTrees markedDocument 100 =
     El 0 (plain ''DIV'' [''markdown-sizer''])
       [headingWrapper 1 ''H1'' ''A'' None 103 [sectionDiv 2 ''P'' ''a''],
        El 3 (plain ''DIV'' [''heading-wrapper''])
          [El 13 (plain ''H2'' [''heading''])
             [collapseIcon 104 ''heading-collapse-indicator'', Txt ''B'',
              El 23 (plain ''SPAN'' []) [El 33 (plain ''SECTION'' [''footnotes'']) []]],
           El 107 (plain ''DIV'' [''heading-children'']) [sectionDiv 4 ''P'' ''b'']],
        El 5 (plain ''DIV'' [''heading-wrapper''])
          [El 15 (plain ''H3'' [''mod-footer'', ''heading''])
             [collapseIcon 108 ''heading-collapse-indicator'', Txt ''C''],
           El 111 (plain ''DIV'' [''heading-children'']) [sectionDiv 6 ''P'' ''c'']]]"
  by code_simp

lemma footed_to_nested:
  "makeHeadingsTrees footedDocument 100 =
     El 0 (plain ''DIV'' [''markdown-sizer''])
       [headingWrapper 1 ''H1'' ''A'' None 103
          [sectionDiv 2 ''P'' ''a'', footnotesBlock, footerBlock]]"
  by code_simp

lemma matchesHeadingPattern_iff:
  "matchesHeadingPattern s \<longleftrightarrow>
     (\<exists>i. Suc i < length s \<and> (s ! i = CHR ''H'' \<or> s ! i = CHR ''h'')
          \<and> s ! Suc i \<in> set ''123456'')"
proof (induction s rule: matchesHeadingPattern.induct)
  case (1 a b rest)
  have "(\<exists>i. Suc i < length (a # b # rest)
            \<and> ((a # b # rest) ! i = CHR ''H'' \<or> (a # b # rest) ! i = CHR ''h'')
            \<and> (a # b # rest) ! Suc i \<in> set ''123456'')
        \<longleftrightarrow> ((a = CHR ''H'' \<or> a = CHR ''h'') \<and> b \<in> set ''123456'')
            \<or> (\<exists>i. Suc i < length (b # rest)
                  \<and> ((b # rest) ! i = CHR ''H'' \<or> (b # rest) ! i = CHR ''h'')
                  \<and> (b # rest) ! Suc i \<in> set ''123456'')"
    (is "?L \<longleftrightarrow> ?A \<or> ?R")
  proof
    assume ?L
    then obtain i where i: "Suc i < length (a # b # rest)"
        "(a # b # rest) ! i = CHR ''H'' \<or> (a # b # rest) ! i = CHR ''h''"
        "(a # b # rest) ! Suc i \<in> set ''123456''" by blast
    show "?A \<or> ?R"
    proof (cases i)
      case 0
      then show ?thesis using i by simp
    next
      case (Suc j)
      then have "Suc j < length (b # rest)
          \<and> ((b # rest) ! j = CHR ''H'' \<or> (b # rest) ! j = CHR ''h'')
          \<and> (b # rest) ! Suc j \<in> set ''123456''" using i by simp
      then show ?thesis by blast
    qed
  next
    assume "?A \<or> ?R"
    then show ?L
    proof
      assume ?A
      then have "Suc 0 < length (a # b # rest)
          \<and> ((a # b # rest) ! 0 = CHR ''H'' \<or> (a # b # rest) ! 0 = CHR ''h'')
          \<and> (a # b # rest) ! Suc 0 \<in> set ''123456''" by simp
      then show ?L by blast
    next
      assume ?R
      then obtain j where "Suc j < length (b # rest)"
          "(b # rest) ! j = CHR ''H'' \<or> (b # rest) ! j = CHR ''h''"
          "(b # rest) ! Suc j \<in> set ''123456''" by blast
      then have "Suc (Suc j) < length (a # b # rest)
          \<and> ((a # b # rest) ! Suc j = CHR ''H'' \<or> (a # b # rest) ! Suc j = CHR ''h'')
          \<and> (a # b # rest) ! Suc (Suc j) \<in> set ''123456''" by simp
      then show ?L by blast
    qed
  qed
  then show ?case using 1 by simp
qed simp_all

lemma jsLessEq_heading:
  "jsLessEq [CHR ''H'', a] [CHR ''H'', b] \<longleftrightarrow> (of_char a :: nat) \<le> of_char b"
  by auto

lemma stopsWalk_iff:
  "stopsWalk t k \<longleftrightarrow>
     (\<exists>f. find isElement (childNodes k) = Some f
        \<and> (\<exists>i. Suc i < length (tagName f)
               \<and> (tagName f ! i = CHR ''H'' \<or> tagName f ! i = CHR ''h'')
               \<and> tagName f ! Suc i \<in> set ''123456'')
        \<and> (jsLessEq (tagName f) t
            \<or> (\<exists>d \<in> set (descendants f). \<exists>s \<in> set (descendants d).
                  tagName s = ''SECTION'' \<and> ''footnotes'' \<in> set (classList s))
            \<or> ''mod-footer'' \<in> set (classList f)))"
  unfolding stopsWalk_def getHeaderEl_def firstElementChild_def hasFootnotes_def
    matchesHeadingPattern_iff[symmetric]
  by (auto split: option.splits)

text \<open>
  Claim C9. On the flat sequence \<^verbatim>\<open>[h1, p, h2, p, h3, p, h2, p]\<close> the builder gives the
  nested tree: the paragraph after \<^verbatim>\<open>h3\<close> under \<^verbatim>\<open>h3\<close>, \<^verbatim>\<open>h3\<close> and the
  paragraph before it under the first \<^verbatim>\<open>h2\<close>, the second \<^verbatim>\<open>h2\<close> with its paragraph
  beside the first, all of it under \<^verbatim>\<open>h1\<close>. The walk of \<^verbatim>\<open>makeHeaderTree\<close> moves
  the element siblings that follow the wrapper up to, and not including, the first that
  stops it; that sibling and all after it stay. A sibling stops the walk exactly when its
  first element child has a tag name matching \<^verbatim>\<open>[Hh][1-6]\<close> and that child has a tag
  name at most the header's (for \<^verbatim>\<open>H1\<close> to \<^verbatim>\<open>H6\<close>: an equal or smaller level), or
  has below it an element with the footnotes section inside, or has the class
  \<^verbatim>\<open>mod-footer\<close>. So a deeper heading with one of the two marks ends the walk, as in the
  second sequence. The two marks are looked for on the heading only: a sibling that wraps
  no heading never stops the walk, and in the third sequence the block with the footnotes
  and the footer of the document both end up under \<^verbatim>\<open>h1\<close>, where the claim, and the
  comment at the test in the source, have the walk stop.
\<close>

theorem makeHeadingsTrees_nests:
  "makeHeadingsTrees flatDocument 100 = nestedDocument
   \<and> fst (walkSiblings t sibs) = takeWhile (\<lambda>k. \<not> stopsWalk t k) (filter isElement sibs)
   \<and> filter isElement (snd (walkSiblings t sibs))
       = dropWhile (\<lambda>k. \<not> stopsWalk t k) (filter isElement sibs)
   \<and> (stopsWalk t k \<longleftrightarrow>
        (\<exists>f. find isElement (childNodes k) = Some f
           \<and> (\<exists>i. Suc i < length (tagName f)
                  \<and> (tagName f ! i = CHR ''H'' \<or> tagName f ! i = CHR ''h'')
                  \<and> tagName f ! Suc i \<in> set ''123456'')
           \<and> (jsLessEq (tagName f) t
               \<or> (\<exists>d \<in> set (descendants f). \<exists>s \<in> set (descendants d).
                     tagName s = ''SECTION'' \<and> ''footnotes'' \<in> set (classList s))
               \<or> ''mod-footer'' \<in> set (classList f))))
   \<and> (jsLessEq [CHR ''H'', a] [CHR ''H'', b] \<longleftrightarrow> (of_char a :: nat) \<le> of_char b)
   \<and> makeHeadingsTrees markedDocument 100 =
       El 0 (plain ''DIV'' [''markdown-sizer''])
         [headingWrapper 1 ''H1'' ''A'' None 103 [sectionDiv 2 ''P'' ''a''],
          El 3 (plain ''DIV'' [''heading-wrapper''])
            [El 13 (plain ''H2'' [''heading''])
               [collapseIcon 104 ''heading-collapse-indicator'', Txt ''B'',
                El 23 (plain ''SPAN'' []) [El 33 (plain ''SECTION'' [''footnotes'']) []]],
             El 107 (plain ''DIV'' [''heading-children'']) [sectionDiv 4 ''P'' ''b'']],
          El 5 (plain ''DIV'' [''heading-wrapper''])
            [El 15 (plain ''H3'' [''mod-footer'', ''heading''])
               [collapseIcon 108 ''heading-collapse-indicator'', Txt ''C''],
             El 111 (plain ''DIV'' [''heading-children'']) [sectionDiv 6 ''P'' ''c'']]]
   \<and> makeHeadingsTrees footedDocument 100 =
       El 0 (plain ''DIV'' [''markdown-sizer''])
         [headingWrapper 1 ''H1'' ''A'' None 103
            [sectionDiv 2 ''P'' ''a'', footnotesBlock, footerBlock]]"
  using flat_to_nested walkSiblings_moved[of t sibs] walkSiblings_left[of t sibs]
    stopsWalk_iff[of t k] jsLessEq_heading[of a b] marked_to_nested footed_to_nested
  by blast

section \<open>A second run of the post-processor\<close>

lemma map_of_assign_same: "map_of (assign k v ps) k = Some v"
  by (induction ps) auto

lemma map_of_assign_other: "k' \<noteq> k \<Longrightarrow> map_of (assign k v ps) k' = map_of ps k'"
  by (induction ps) auto

lemma asciiLower_text [simp]:
  "asciiLower CHR ''t'' = CHR ''t''" "asciiLower CHR ''e'' = CHR ''e''"
  "asciiLower CHR ''x'' = CHR ''x''"
  by (simp_all add: asciiLower_def)

lemma map_of_unassign: "map_of (unassign k ps) k = None"
  by (induction ps) (auto simp: unassign_def)

text \<open>
  Whether the width step takes an element depends on its tag, its classes and the tags of
  its children, none of which the step changes.
\<close>

lemma sizedMedia_cong:
  assumes "tag e' = tag e" "classNames e' = classNames e" "map tagName ks' = map tagName ks"
  shows "sizedMedia (El i e' ks') = sizedMedia (El i e ks)"
proof -
  have "list_ex (\<lambda>c. tagName c = ''IMG'' \<or> tagName c = ''VIDEO'') ks'
        = list_ex (\<lambda>t. t = ''IMG'' \<or> t = ''VIDEO'') (map tagName ks')"
    by (simp add: list_ex_iff)
  also have "\<dots> = list_ex (\<lambda>t. t = ''IMG'' \<or> t = ''VIDEO'') (map tagName ks)"
    using assms(3) by simp
  also have "\<dots> = list_ex (\<lambda>c. tagName c = ''IMG'' \<or> tagName c = ''VIDEO'') ks"
    by (simp add: list_ex_iff)
  finally show ?thesis using assms(1,2) by (simp add: sizedMedia_def hasClass_def)
qed

lemma widthToMaxWidth_keeps:
  "tag (widthToMaxWidth (El i e ks)) = tag e"
  "classNames (widthToMaxWidth (El i e ks)) = classNames e"
  by (simp_all add: widthToMaxWidth_def split: option.splits)

lemma widthToMaxWidth_settled:
  assumes "map tagName ks' = map tagName ks"
  shows "widthToMaxWidth (El i (widthToMaxWidth (El i e ks)) ks') = widthToMaxWidth (El i e ks)"
proof -
  let ?e = "widthToMaxWidth (El i e ks)"
  have S: "sizedMedia (El i ?e ks') = sizedMedia (El i e ks)"
    using assms by (intro sizedMedia_cong widthToMaxWidth_keeps)
  show ?thesis
  proof (cases "sizedMedia (El i e ks)")
    case False
    then have "?e = e" by (simp add: widthToMaxWidth_def)
    moreover have "widthToMaxWidth (El i e ks') = e"
      using False S \<open>?e = e\<close> by (simp add: widthToMaxWidth_def)
    ultimately show ?thesis by simp
  next
    case True
    show ?thesis
    proof (cases "map_of (attributes e) ''width''")
      case None
      then have E: "?e = e" using True by (simp add: widthToMaxWidth_def)
      have "widthToMaxWidth (El i e ks') = e"
        using None by (simp add: widthToMaxWidth_def)
      then show ?thesis using E by simp
    next
      case (Some width)
      show ?thesis
      proof (cases "width = []")
        case True
        then have E: "?e = e" using Some by (simp add: widthToMaxWidth_def)
        have "widthToMaxWidth (El i e ks') = e"
          using Some True by (simp add: widthToMaxWidth_def)
        then show ?thesis using E by simp
      next
        case False
        then have "map_of (attributes ?e) ''width'' = None"
          using Some True \<open>sizedMedia (El i e ks)\<close>
          by (simp add: widthToMaxWidth_def map_of_unassign)
        then show ?thesis
          by (simp add: widthToMaxWidth_def[of "El i ?e ks'"])
      qed
    qed
  qed
qed

lemma mapElements_tags:
  "tagName (mapElements g t) = tagName t"
  "(\<And>i e ks. tag (g (El i e ks)) = tag e) \<Longrightarrow> map tagName (mapElementsL g ts) = map tagName ts"
  by (induction g t and g ts rule: mapElements_mapElementsL.induct) simp_all

lemma convertWidths_settles:
  "mapElements widthToMaxWidth (mapElements widthToMaxWidth t) = mapElements widthToMaxWidth t"
  "mapElementsL widthToMaxWidth (mapElementsL widthToMaxWidth ts) = mapElementsL widthToMaxWidth ts"
proof (induction widthToMaxWidth t and widthToMaxWidth ts rule: mapElements_mapElementsL.induct)
  case (5 i e ks rest)
  have "map tagName (mapElementsL widthToMaxWidth ks) = map tagName ks"
    by (rule mapElements_tags(2)) (rule widthToMaxWidth_keeps(1))
  then show ?case using 5 by (simp add: widthToMaxWidth_settled)
qed simp_all

text \<open>
  Claim C8, as amended. Of the three steps the claim names, the conversion of hard-coded
  widths is the one a second run leaves alone: on every tree, converting twice gives what
  converting once gives, because the step removes the \<^verbatim>\<open>width\<close> attribute it fires on.
  The other two fire again. The text-input step writes the shown value into the
  \<^verbatim>\<open>value\<close> attribute and empties the shown value, so applied again to the same input it
  writes the empty string over the attribute. The tag-link step saves the \<^verbatim>\<open>href\<close>
  attribute as \<^verbatim>\<open>data-href\<close> and puts a search query in its place, so applied again to the
  same link it saves that query as \<^verbatim>\<open>data-href\<close>, over the original target.
\<close>

theorem postProcessHTML_second_run:
  "convertWidths (convertWidths html) = convertWidths html
   \<and> (tag e = ''INPUT'' \<and> map_of (attributes e) ''type'' = Some ''text'' \<longrightarrow>
        map_of (attributes (encodeTextInput (El i e ks))) ''value'' = Some (liveValue e)
        \<and> map_of (attributes (encodeTextInput (El i (encodeTextInput (El i e ks)) ks)))
              ''value'' = Some [])
   \<and> (tag a = ''A'' \<and> ''tag'' \<in> set (classNames a) \<longrightarrow>
        map_of (attributes (tagLinkToQuery env (El j a cs))) ''data-href''
          = Some (case map_of (attributes a) ''href'' of None \<Rightarrow> [] | Some h \<Rightarrow> h)
        \<and> (\<exists>t. map_of (attributes (tagLinkToQuery env (El j a cs))) ''href''
                   = Some (''?query=tag:'' @ t))
        \<and> map_of (attributes (tagLinkToQuery env (El j (tagLinkToQuery env (El j a cs)) cs)))
              ''data-href''
            = map_of (attributes (tagLinkToQuery env (El j a cs))) ''href'')"
proof (intro conjI impI)
  show "convertWidths (convertWidths html) = convertWidths html"
    by (simp add: convertWidths_def convertWidths_settles(1))
next
  assume I: "tag e = ''INPUT'' \<and> map_of (attributes e) ''type'' = Some ''text''"
  then show "map_of (attributes (encodeTextInput (El i e ks))) ''value'' = Some (liveValue e)"
    by (simp add: encodeTextInput_def map_of_assign_same)
  from I show "map_of (attributes (encodeTextInput (El i (encodeTextInput (El i e ks)) ks)))
                 ''value'' = Some []"
    by (simp add: encodeTextInput_def map_of_assign_same map_of_assign_other)
next
  assume A: "tag a = ''A'' \<and> ''tag'' \<in> set (classNames a)"
  then show "map_of (attributes (tagLinkToQuery env (El j a cs))) ''data-href''
               = Some (case map_of (attributes a) ''href'' of None \<Rightarrow> [] | Some h \<Rightarrow> h)"
    by (simp add: tagLinkToQuery_def Let_def map_of_assign_same map_of_assign_other)
  from A show "\<exists>t. map_of (attributes (tagLinkToQuery env (El j a cs))) ''href''
                      = Some (''?query=tag:'' @ t)"
    by (simp add: tagLinkToQuery_def Let_def map_of_assign_same)
  from A show "map_of (attributes (tagLinkToQuery env (El j (tagLinkToQuery env (El j a cs)) cs)))
                 ''data-href''
               = map_of (attributes (tagLinkToQuery env (El j a cs))) ''href''"
    by (simp add: tagLinkToQuery_def Let_def map_of_assign_same map_of_assign_other)
qed

text \<open>
  The theorem at the note of the example: its text input holds \<^verbatim>\<open>milk\<close>, its tag link
  points to \<^verbatim>\<open>#todo\<close>.
\<close>

theorem postProcessHTML_second_run_witness:
  "(tag typedInput = ''INPUT'' \<and> map_of (attributes typedInput) ''type'' = Some ''text'')
   \<and> (tag tagLink = ''A'' \<and> ''tag'' \<in> set (classNames tagLink))
   \<and> convertWidths (convertWidths taggedNote) = convertWidths taggedNote
   \<and> map_of (attributes (encodeTextInput (El 2 typedInput []))) ''value'' = Some ''milk''
   \<and> map_of (attributes (encodeTextInput (El 2 (encodeTextInput (El 2 typedInput [])) [])))
        ''value'' = Some []
   \<and> map_of (attributes (tagLinkToQuery vaultPage (El 1 tagLink [Txt ''#todo''])))
        ''data-href'' = Some ''#todo''
   \<and> map_of (attributes (tagLinkToQuery vaultPage
                            (El 1 (tagLinkToQuery vaultPage (El 1 tagLink [Txt ''#todo'']))
                               [Txt ''#todo''])))
        ''data-href'' = Some ''?query=tag:todo''"
proof -
  have I: "tag typedInput = ''INPUT'' \<and> map_of (attributes typedInput) ''type'' = Some ''text''"
    by (simp add: typedInput_def)
  have A: "tag tagLink = ''A'' \<and> ''tag'' \<in> set (classNames tagLink)"
    by (simp add: tagLink_def)
  have H: "map_of (attributes (tagLinkToQuery vaultPage (El 1 tagLink [Txt ''#todo''])))
             ''href'' = Some ''?query=tag:todo''"
    by (simp add: tagLinkToQuery_def tagLink_def vaultPage_def Let_def)
  have L: "liveValue typedInput = ''milk''" "map_of (attributes tagLink) ''href'' = Some ''#todo''"
    by (simp_all add: typedInput_def tagLink_def)
  show ?thesis
    using postProcessHTML_second_run
            [where html = taggedNote and e = typedInput and i = 2 and ks = "[]"
               and a = tagLink and j = 1 and cs = "[Txt ''#todo'']" and env = vaultPage]
          I A H L
    by simp
qed

text \<open>
  Claim C8, as stated, fails at that note. The first run marks the root, rewrites the tag
  link, stores \<^verbatim>\<open>milk\<close> in the \<^verbatim>\<open>value\<close> attribute and turns the width of the image into
  a style. Run on that result, the post-processor changes it again: the \<^verbatim>\<open>value\<close>
  attribute is emptied, \<^verbatim>\<open>data-href\<close> becomes the search query and \<^verbatim>\<open>href\<close> a query
  for the resolved address of the first query without its first character; the image
  stays as it is.
\<close>

theorem postProcessHTML_not_idempotent:
  "fst (postProcessHTML vaultPage defaultOptions (taggedNote, 4) inactiveWorld)
     = Return (processedNote, 4)
   \<and> fst (postProcessHTML vaultPage defaultOptions (processedNote, 4) inactiveWorld)
     = Return
         (El 0 (plain ''DIV'' [''markdown-preview-view'', ''obsidian-document''])
            [El 1 \<lparr>tag = ''A'', classNames = [''tag''],
                   attributes =
                     [(''href'', ''?query=tag:pp://obsidian.md/index.html?query=tag:todo''),
                      (''data-href'', ''?query=tag:todo'')],
                   inlineStyle = [], liveValue = []\<rparr> [Txt ''#todo''],
             El 2 \<lparr>tag = ''INPUT'', classNames = [],
                   attributes = [(''type'', ''text''), (''value'', [])],
                   inlineStyle = [], liveValue = []\<rparr> [],
             El 3 \<lparr>tag = ''IMG'', classNames = [], attributes = [(''src'', ''cat.png'')],
                   inlineStyle = [(''width'', ''300px''), (''max-width'', ''100%'')],
                   liveValue = []\<rparr> []],
          4)
   \<and> fst (postProcessHTML vaultPage defaultOptions (processedNote, 4) inactiveWorld)
     \<noteq> Return (processedNote, 4)"
  by code_simp

end
